theory Spec2Isabelle
  imports Main "HOL-Library.Word"
begin

section \<open>Data model\<close>

type_synonym u8 = "8 word"
type_synonym u16 = "16 word"
type_synonym u32 = "32 word"

text \<open>
  Ways in which a call leaves the C semantics: a failed \<^verbatim>\<open>assert\<close> aborts; a copy
  that reads or writes past the end of its object, an entry of a table written or
  searched past the end of the table, and an access through a null pointer are
  undefined behaviour. Functions that can do so return \<open>fault + 'a\<close>.
\<close>

datatype fault = AssertFailed | OutOfBounds | NullPointer

text \<open>
  Modelled from the spec: \<^verbatim>\<open>DMX_MAX_PACKET_SIZE\<close> is defined in dmx/types.h, which is not
  among the sources; the spec gives 513 (start code and 512 slots).
\<close>

definition DMX_MAX_PACKET_SIZE :: nat where
  "DMX_MAX_PACKET_SIZE = 513"

text \<open>
  Modelled from the spec: the sub-device constants of rdm/types.h are not among the
  sources. The root device is sub-device 0; \<^verbatim>\<open>RDM_SUB_DEVICE_ALL\<close> is the all-call
  address 0xFFFF of ANSI E1.20.
\<close>

definition RDM_SUB_DEVICE_ROOT :: nat where
  "RDM_SUB_DEVICE_ROOT = 0"

definition RDM_SUB_DEVICE_ALL :: nat where
  "RDM_SUB_DEVICE_ALL = 65535"

text \<open>
  Modelled from the spec: \<^verbatim>\<open>enum dmx_flags_t\<close> is declared in dmx/struct.h, which is not
  among the sources. The spec describes \<^verbatim>\<open>flags\<close> as a bitset over named flags; each
  flag is one bit of its own, so a flags word is the set of flags it holds:
  \<^verbatim>\<open>x & F\<close> is \<open>F \<in> x\<close>, \<^verbatim>\<open>x |= F\<close> is \<open>insert F x\<close>, \<^verbatim>\<open>x &= ~F\<close> is \<open>x - {F}\<close> and
  \<^verbatim>\<open>x == F\<close> is \<open>x = {F}\<close>. The code keeps the driver flags in \<^verbatim>\<open>driver->flags\<close> and
  the RDM packet flags in \<^verbatim>\<open>driver->rdm_type\<close>.
\<close>

datatype dmx_flag =
    DMX_FLAGS_DRIVER_IS_SENDING
  | DMX_FLAGS_DRIVER_IS_IN_BREAK
  | DMX_FLAGS_DRIVER_HAS_DATA
  | DMX_FLAGS_DRIVER_SENT_LAST
  | DMX_FLAGS_TIMER_IS_RUNNING

datatype rdm_flag =
    DMX_FLAGS_RDM_IS_VALID
  | DMX_FLAGS_RDM_IS_REQUEST
  | DMX_FLAGS_RDM_IS_BROADCAST
  | DMX_FLAGS_RDM_IS_DISC_UNIQUE_BRANCH

text \<open>
  Modelled from the spec: \<^verbatim>\<open>rdm_uid_t\<close>, \<^verbatim>\<open>rdm_header_t\<close>, \<^verbatim>\<open>rdm_response_type_t\<close> and
  \<^verbatim>\<open>rdm_pid_description_t\<close> are declared in rdm/types.h, which is not among the
  sources. A UID is a 16-bit manufacturer id and a 32-bit device id; the header has the
  fields the dispatcher reads and writes; the response types are the values a handler
  may return; a parameter description has the fields the parameter store reads.
\<close>

record rdm_uid_t =
  man_id :: u16
  dev_id :: u32

datatype rdm_response_type_t =
    RDM_RESPONSE_TYPE_NONE
  | RDM_RESPONSE_TYPE_ACK
  | RDM_RESPONSE_TYPE_ACK_TIMER
  | RDM_RESPONSE_TYPE_NACK_REASON
  | RDM_RESPONSE_TYPE_ACK_OVERFLOW
  | RDM_RESPONSE_TYPE_INVALID

text \<open>
  On a request the octet after the transaction number is the port id, on a response
  it is the response type; the dispatcher writes \<^verbatim>\<open>header.response_type\<close>.
\<close>

datatype rdm_port_or_type = PortId u8 | ResponseType rdm_response_type_t

record rdm_header_t =
  dest_uid :: rdm_uid_t
  src_uid :: rdm_uid_t
  tn :: u8
  response_type :: rdm_port_or_type
  message_count :: u8
  sub_device :: u16
  cc :: u8
  pid :: u16
  pdl :: u8

datatype rdm_ds_t = RDM_DS_ASCII | RDM_DS_OTHER u8

record rdm_pid_description_t =
  desc_pid :: u16
  pdl_size :: u16
  data_type :: rdm_ds_t

text \<open>
  Modelled from the spec: the type of a response handler is declared in
  rdm/responder.h, which is not among the sources. A handler receives the request
  header, the parameter data of the request and the parameter it is registered for; it
  returns the response type, the parameter data of the response, \<^verbatim>\<open>pdl_out\<close> and the
  parameter as it leaves it. It reads the header without writing it and does not call
  back into the driver. The port number, the parameter length and the context pointer
  select nothing in the model.
\<close>

type_synonym rdm_response_handler_t =
  "rdm_header_t \<Rightarrow> u8 list \<Rightarrow> u8 list \<Rightarrow> rdm_response_type_t \<times> u8 list \<times> u8 \<times> u8 list"

text \<open>
  The data pointer of a parameter is null (\<open>None\<close>) or an address. \<^verbatim>\<open>rdm_pd_add_new\<close>
  makes it \<^verbatim>\<open>driver->pd + driver->pd_head\<close>, an address in the slab, kept as its
  offset from the start of the slab. \<^verbatim>\<open>rdm_pd_add_alias\<close> adds an offset to the data
  pointer of another parameter without testing it: added to a null pointer, an offset
  that is not 0 gives the address of that value, which belongs to no object of the
  driver.
\<close>

datatype pd_addr = InSlab nat | Absolute nat

definition ptr_add :: "pd_addr option \<Rightarrow> nat \<Rightarrow> pd_addr option" where
  "ptr_add p n =
     (case p of
        None \<Rightarrow> (if n = 0 then None else Some (Absolute n))
      | Some (InSlab a) \<Rightarrow> Some (InSlab (a + n))
      | Some (Absolute a) \<Rightarrow> Some (Absolute (a + n)))"

text \<open>
  One entry of \<^verbatim>\<open>driver->params\<close>. The callback and its context are opaque
  addresses.
\<close>

record rdm_param_t =
  param_data :: "pd_addr option"
  param_definition :: rdm_pid_description_t
  param_format :: string
  param_nvs :: bool
  param_response_handler :: "rdm_response_handler_t option"
  param_callback :: "nat option"
  param_context :: "nat option"

text \<open>One entry of \<^verbatim>\<open>driver->rdm_cbs\<close>, the table \<^verbatim>\<open>dmx_receive\<close> dispatches on.\<close>

record rdm_cb_t =
  cb_desc :: rdm_pid_description_t
  cb :: rdm_response_handler_t
  cb_param :: "u8 list"

text \<open>
  Calls to the collaborators that are outside the sources (UART and timer hardware,
  task notifications, the RDM codec and the registered handlers) are recorded in the
  order they are made.
\<close>

datatype event =
    TimerSetCounter int
  | TimerSetAlarm int
  | TimerStart
  | TimerPause
  | TaskNotifyWait
  | UartSetRts nat
  | UartInvertTx nat
  | UartWriteTxfifo "u8 list"
  | UartEnableTxInterrupts
  | ResponseHandler nat
  | RdmWrite rdm_header_t "u8 list"

text \<open>
  Modelled from the spec: \<^verbatim>\<open>struct dmx_driver_t\<close> is declared in dmx/struct.h, which is
  not among the sources (the driver.h among them declares an older layout). The record
  has the fields that the functions of pd.c and esp_dmx.c read and write, with the
  types the spec gives them; \<^verbatim>\<open>is_enabled\<close> is what \<^verbatim>\<open>dmx_driver_is_enabled\<close> tests and
  \<^verbatim>\<open>uid\<close> is what \<^verbatim>\<open>uid_get\<close> returns. The fixed-size arrays \<^verbatim>\<open>params\<close> and \<^verbatim>\<open>rdm_queue\<close> are lists of
  their declared length (\<^verbatim>\<open>RDM_RESPONDER_NUM_PIDS_MAX\<close> and
  \<^verbatim>\<open>RDM_RESPONDER_QUEUE_SIZE_MAX\<close> entries, constants that are not among the sources);
  the entries past \<^verbatim>\<open>num_parameters\<close> and \<^verbatim>\<open>rdm_queue_size\<close> hold what was last left
  there. \<^verbatim>\<open>pd\<close> is the slab and \<^verbatim>\<open>pd_size\<close> its length. \<^verbatim>\<open>rdm_cbs\<close> holds the
  \<^verbatim>\<open>num_rdm_cbs\<close> registered entries. \<^verbatim>\<open>rts\<close> is the level \<^verbatim>\<open>dmx_uart_get_rts\<close> reads.

  With a full table the functions of pd.c read
  \<^verbatim>\<open>driver->params[RDM_RESPONDER_NUM_PIDS_MAX].definition.pid\<close>, 16 bits of the memory
  that follows the array; \<open>params_end\<close> is the value found there, which the model keeps
  apart from the other fields.
\<close>

record dmx_driver_t =
  is_enabled :: bool
  rts :: nat
  break_len :: nat
  data :: "u8 list"
  head :: int
  tx_size :: int
  flags :: "dmx_flag set"
  rdm_type :: "rdm_flag set"
  last_slot_ts :: int
  task_waiting :: bool
  drv_tn :: u32
  uid :: rdm_uid_t
  rdm_cbs :: "rdm_cb_t list"
  num_parameters :: nat
  params :: "rdm_param_t list"
  params_end :: u16
  pd :: "u8 list"
  pd_head :: nat
  rdm_queue :: "u16 list"
  rdm_queue_size :: nat
  trace :: "event list"

text \<open>
  Modelled from the spec: \<^verbatim>\<open>dmx_driver_is_installed\<close>, \<^verbatim>\<open>dmx_driver_is_enabled\<close> and
  \<^verbatim>\<open>DMX_NUM_MAX\<close> are defined in dmx/driver.c and dmx/types.h, which are not among the
  sources. \<^verbatim>\<open>dmx_driver[DMX_NUM_MAX]\<close> holds one pointer to a driver for each port, null
  while the port is not installed; \<^verbatim>\<open>DMX_NUM_MAX\<close> is the length of the table.
\<close>

type_synonym dmx_driver_tab = "dmx_driver_t option list"

definition DMX_NUM_MAX :: "dmx_driver_tab \<Rightarrow> nat" where
  "DMX_NUM_MAX tab = length tab"

definition dmx_driver_is_installed :: "dmx_driver_tab \<Rightarrow> nat \<Rightarrow> bool" where
  "dmx_driver_is_installed tab dmx_num =
     (dmx_num < DMX_NUM_MAX tab \<and> tab ! dmx_num \<noteq> None)"

definition dmx_driver_is_enabled :: "dmx_driver_tab \<Rightarrow> nat \<Rightarrow> bool" where
  "dmx_driver_is_enabled tab dmx_num =
     (dmx_driver_is_installed tab dmx_num \<and> is_enabled (the (tab ! dmx_num)))"

definition RDM_RESPONDER_NUM_PIDS_MAX :: "dmx_driver_t \<Rightarrow> nat" where
  "RDM_RESPONDER_NUM_PIDS_MAX s = length (params s)"

definition RDM_RESPONDER_QUEUE_SIZE_MAX :: "dmx_driver_t \<Rightarrow> nat" where
  "RDM_RESPONDER_QUEUE_SIZE_MAX s = length (rdm_queue s)"

definition pd_size :: "dmx_driver_t \<Rightarrow> nat" where
  "pd_size s = length (pd s)"


section \<open>Memory operations\<close>

text \<open>
  \<^verbatim>\<open>memcpy(dst + off, bs, length bs)\<close> into an object \<open>m\<close>: defined when the bytes fit.
\<close>

definition mem_write :: "u8 list \<Rightarrow> nat \<Rightarrow> u8 list \<Rightarrow> fault + u8 list" where
  "mem_write m off bs =
     (if off + length bs \<le> length m
      then Inr (take off m @ bs @ drop (off + length bs) m)
      else Inl OutOfBounds)"

text \<open>The \<open>n\<close> bytes \<^verbatim>\<open>memcpy\<close> reads from the object \<open>src\<close>.\<close>

definition memcpy_src :: "u8 list \<Rightarrow> nat \<Rightarrow> fault + u8 list" where
  "memcpy_src src n = (if n \<le> length src then Inr (take n src) else Inl OutOfBounds)"

text \<open>
  The \<open>n\<close> bytes \<^verbatim>\<open>strncpy\<close> writes when it reads the object \<open>src\<close>: the characters
  before the first NUL, padded with NUL; it reads past \<open>src\<close> when \<open>src\<close> holds
  neither a NUL nor \<open>n\<close> characters.
\<close>

definition strncpy_src :: "u8 list \<Rightarrow> nat \<Rightarrow> fault + u8 list" where
  "strncpy_src src n =
     (let str = takeWhile (\<lambda>b. b \<noteq> 0) src in
      if n \<le> length str then Inr (take n str)
      else if length str < length src then Inr (str @ replicate (n - length str) 0)
      else Inl OutOfBounds)"

section \<open>The RDM parameter store (rdm/utils/pd.c)\<close>

text \<open>
  The search loop every function of the parameter store starts with:
  \<^verbatim>\<open>for (; pdi < driver->num_parameters; ++pdi)
    if (driver->params[pdi].definition.pid == pid) break;\<close>
  The result is the value of \<^verbatim>\<open>pdi\<close> after the loop.
\<close>

function pd_find :: "rdm_param_t list \<Rightarrow> nat \<Rightarrow> u16 \<Rightarrow> nat \<Rightarrow> fault + nat" where
  "pd_find ps n p pdi =
     (if pdi < n then
        (if pdi < length ps then
           (if desc_pid (param_definition (ps ! pdi)) = p then Inr pdi
            else pd_find ps n p (Suc pdi))
         else Inl OutOfBounds)
      else Inr pdi)"
  by pat_completeness auto
termination
  by (relation "measure (\<lambda>(ps, n, p, pdi). n - pdi)") auto

declare pd_find.simps [simp del]

text \<open>
  \<^verbatim>\<open>driver->params[pdi].definition.pid\<close>, read after the loop. \<^verbatim>\<open>pdi\<close> is then
  \<^verbatim>\<open>num_parameters\<close> when the loop found nothing: the entry after the registered ones,
  and with a full table the 16 bits after the array.
\<close>

definition params_pid :: "dmx_driver_t \<Rightarrow> nat \<Rightarrow> fault + u16" where
  "params_pid s pdi =
     (if pdi < length (params s) then Inr (desc_pid (param_definition (params s ! pdi)))
      else if pdi = length (params s) then Inr (params_end s)
      else Inl OutOfBounds)"

text \<open>\<^verbatim>\<open>driver->params[pdi]\<close>, an entry that is read or written.\<close>

definition params_at :: "dmx_driver_t \<Rightarrow> nat \<Rightarrow> fault + rdm_param_t" where
  "params_at s pdi = (if pdi < length (params s) then Inr (params s ! pdi) else Inl OutOfBounds)"

text \<open>
  The body of \<^verbatim>\<open>rdm_pd_add_new\<close> once the assertions and the sub-device check have
  passed. The result is the returned pointer and the driver. With a full table and a
  PID that is not registered the function returns null at one of its first two tests,
  whatever follows the array.
\<close>

definition rdm_pd_add_new_drv ::
  "dmx_driver_t \<Rightarrow> rdm_pid_description_t \<Rightarrow> string \<Rightarrow> bool \<Rightarrow> rdm_response_handler_t \<Rightarrow>
   u8 list option \<Rightarrow> fault + (pd_addr option \<times> dmx_driver_t)" where
  "rdm_pd_add_new_drv s d fmt nv h default_value =
     (case pd_find (params s) (num_parameters s) (desc_pid d) 0 of
        Inl e \<Rightarrow> Inl e
      | Inr pdi \<Rightarrow>
     (case params_pid s pdi of
        Inl e \<Rightarrow> Inl e
      | Inr found \<Rightarrow>
        if found = desc_pid d then Inr (None, s)
        else if pdi = RDM_RESPONDER_NUM_PIDS_MAX s then Inr (None, s)
        else if \<not> (pd_head s + unat (pdl_size d)) mod 2 ^ 32 \<le> pd_size s then Inr (None, s)
        else
     (case params_at s pdi of
        Inl e \<Rightarrow> Inl e
      | Inr slot \<Rightarrow>
          let p = pd_head s;
              s1 = s\<lparr>pd_head := (pd_head s + unat (pdl_size d)) mod 2 ^ 32\<rparr>;
              init =
                (if data_type d = RDM_DS_ASCII then
                   (case default_value of
                      None \<Rightarrow> Inl NullPointer
                    | Some v \<Rightarrow> strncpy_src v (unat (pdl_size d)))
                 else
                   (case default_value of
                      None \<Rightarrow> Inr (replicate (unat (pdl_size d)) 0)
                    | Some v \<Rightarrow> memcpy_src v (unat (pdl_size d))))
          in
          (case init of
             Inl e \<Rightarrow> Inl e
           | Inr bs \<Rightarrow>
          (case mem_write (pd s1) p bs of
             Inl e \<Rightarrow> Inl e
           | Inr m \<Rightarrow>
               Inr (Some (InSlab p),
                    s1\<lparr>pd := m,
                       params := (params s1)[pdi := slot\<lparr>param_data := Some (InSlab p),
                                                         param_definition := d,
                                                         param_format := fmt,
                                                         param_nvs := nv,
                                                         param_response_handler := Some h,
                                                         param_callback := None\<rparr>],
                       num_parameters := Suc (num_parameters s1)\<rparr>))))))"

definition rdm_pd_add_new ::
  "dmx_driver_tab \<Rightarrow> nat \<Rightarrow> nat \<Rightarrow> rdm_pid_description_t option \<Rightarrow> string \<Rightarrow> bool \<Rightarrow>
   rdm_response_handler_t option \<Rightarrow> u8 list option \<Rightarrow>
   fault + (pd_addr option \<times> dmx_driver_tab)" where
  "rdm_pd_add_new tab dmx_num sub_dev dfn fmt nv handler default_value =
     (if \<not> dmx_num < DMX_NUM_MAX tab then Inl AssertFailed
      else if \<not> sub_dev < 513 then Inl AssertFailed
      else case dfn of
        None \<Rightarrow> Inl AssertFailed
      | Some d \<Rightarrow>
        if \<not> desc_pid d > 0 then Inl AssertFailed
        else if \<not> pdl_size d > 0 then Inl AssertFailed
        else case handler of
          None \<Rightarrow> Inl AssertFailed
        | Some h \<Rightarrow>
          if \<not> dmx_driver_is_installed tab dmx_num then Inl AssertFailed
          else if \<not> sub_dev = RDM_SUB_DEVICE_ROOT then Inr (None, tab)
          else case rdm_pd_add_new_drv (the (tab ! dmx_num)) d fmt nv h default_value of
            Inl e \<Rightarrow> Inl e
          | Inr (p, s') \<Rightarrow> Inr (p, tab[dmx_num := Some s']))"

text \<open>
  \<^verbatim>\<open>rdm_pd_add_alias\<close>: the new entry points \<^verbatim>\<open>offset\<close> bytes into the data of the
  parameter \<^verbatim>\<open>alias\<close>, whose data pointer is not tested: the alias of a parameter
  without storage is stored and counted like any other.
\<close>

definition rdm_pd_add_alias_drv ::
  "dmx_driver_t \<Rightarrow> rdm_pid_description_t \<Rightarrow> string \<Rightarrow> bool \<Rightarrow> rdm_response_handler_t \<Rightarrow>
   u16 \<Rightarrow> nat \<Rightarrow> fault + (pd_addr option \<times> dmx_driver_t)" where
  "rdm_pd_add_alias_drv s d fmt nv h alias offset =
     (case pd_find (params s) (num_parameters s) (desc_pid d) 0 of
        Inl e \<Rightarrow> Inl e
      | Inr pdi \<Rightarrow>
     (case params_pid s pdi of
        Inl e \<Rightarrow> Inl e
      | Inr found \<Rightarrow>
        if found = desc_pid d then Inr (None, s)
        else if pdi = RDM_RESPONDER_NUM_PIDS_MAX s then Inr (None, s)
        else
     (case pd_find (params s) (num_parameters s) alias 0 of
        Inl e \<Rightarrow> Inl e
      | Inr apdi \<Rightarrow>
     (case params_pid s apdi of
        Inl e \<Rightarrow> Inl e
      | Inr afound \<Rightarrow>
        if afound \<noteq> alias then Inr (None, s)
        else
     (case params_at s apdi of
        Inl e \<Rightarrow> Inl e
      | Inr aslot \<Rightarrow>
        if unat (pdl_size (param_definition aslot)) < offset then Inr (None, s)
        else
     (case params_at s pdi of
        Inl e \<Rightarrow> Inl e
      | Inr slot \<Rightarrow>
          let p = ptr_add (param_data aslot) offset in
          Inr (p,
               s\<lparr>params := (params s)[pdi := slot\<lparr>param_data := p,
                                                  param_definition := d,
                                                  param_format := fmt,
                                                  param_nvs := nv,
                                                  param_response_handler := Some h,
                                                  param_callback := None\<rparr>],
                 num_parameters := Suc (num_parameters s)\<rparr>)))))))"

definition rdm_pd_add_alias ::
  "dmx_driver_tab \<Rightarrow> nat \<Rightarrow> nat \<Rightarrow> rdm_pid_description_t option \<Rightarrow> string \<Rightarrow> bool \<Rightarrow>
   rdm_response_handler_t option \<Rightarrow> u16 \<Rightarrow> nat \<Rightarrow>
   fault + (pd_addr option \<times> dmx_driver_tab)" where
  "rdm_pd_add_alias tab dmx_num sub_dev dfn fmt nv handler alias offset =
     (if \<not> dmx_num < DMX_NUM_MAX tab then Inl AssertFailed
      else if \<not> sub_dev < 513 then Inl AssertFailed
      else case dfn of
        None \<Rightarrow> Inl AssertFailed
      | Some d \<Rightarrow>
        if \<not> desc_pid d > 0 then Inl AssertFailed
        else if \<not> pdl_size d > 0 then Inl AssertFailed
        else case handler of
          None \<Rightarrow> Inl AssertFailed
        | Some h \<Rightarrow>
          if \<not> dmx_driver_is_installed tab dmx_num then Inl AssertFailed
          else if \<not> sub_dev = RDM_SUB_DEVICE_ROOT then Inr (None, tab)
          else case rdm_pd_add_alias_drv (the (tab ! dmx_num)) d fmt nv h alias offset of
            Inl e \<Rightarrow> Inl e
          | Inr (p, s') \<Rightarrow> Inr (p, tab[dmx_num := Some s']))"

text \<open>\<^verbatim>\<open>rdm_pd_add_deterministic\<close>: an entry without storage, its data pointer is null.\<close>

definition rdm_pd_add_deterministic_drv ::
  "dmx_driver_t \<Rightarrow> rdm_pid_description_t \<Rightarrow> string \<Rightarrow> rdm_response_handler_t \<Rightarrow>
   fault + (bool \<times> dmx_driver_t)" where
  "rdm_pd_add_deterministic_drv s d fmt h =
     (case pd_find (params s) (num_parameters s) (desc_pid d) 0 of
        Inl e \<Rightarrow> Inl e
      | Inr pdi \<Rightarrow>
     (case params_pid s pdi of
        Inl e \<Rightarrow> Inl e
      | Inr found \<Rightarrow>
        if found = desc_pid d then Inr (False, s)
        else if pdi = RDM_RESPONDER_NUM_PIDS_MAX s then Inr (False, s)
        else
     (case params_at s pdi of
        Inl e \<Rightarrow> Inl e
      | Inr slot \<Rightarrow>
          Inr (True,
               s\<lparr>params := (params s)[pdi := slot\<lparr>param_data := None,
                                                  param_definition := d,
                                                  param_format := fmt,
                                                  param_nvs := False,
                                                  param_response_handler := Some h,
                                                  param_callback := None\<rparr>],
                 num_parameters := Suc (num_parameters s)\<rparr>))))"

definition rdm_pd_add_deterministic ::
  "dmx_driver_tab \<Rightarrow> nat \<Rightarrow> nat \<Rightarrow> rdm_pid_description_t option \<Rightarrow> string \<Rightarrow>
   rdm_response_handler_t option \<Rightarrow> fault + (bool \<times> dmx_driver_tab)" where
  "rdm_pd_add_deterministic tab dmx_num sub_dev dfn fmt handler =
     (if \<not> dmx_num < DMX_NUM_MAX tab then Inl AssertFailed
      else if \<not> sub_dev < 513 then Inl AssertFailed
      else case dfn of
        None \<Rightarrow> Inl AssertFailed
      | Some d \<Rightarrow>
        if \<not> desc_pid d > 0 then Inl AssertFailed
        else case handler of
          None \<Rightarrow> Inl AssertFailed
        | Some h \<Rightarrow>
          if \<not> dmx_driver_is_installed tab dmx_num then Inl AssertFailed
          else if \<not> sub_dev = RDM_SUB_DEVICE_ROOT then Inr (False, tab)
          else case rdm_pd_add_deterministic_drv (the (tab ! dmx_num)) d fmt h of
            Inl e \<Rightarrow> Inl e
          | Inr (r, s') \<Rightarrow> Inr (r, tab[dmx_num := Some s']))"

text \<open>
  \<^verbatim>\<open>rdm_pd_get\<close>: the data pointer of the first entry with the PID, null when the loop
  finds none. The driver is not written.
\<close>

definition rdm_pd_get_drv :: "dmx_driver_t \<Rightarrow> u16 \<Rightarrow> fault + pd_addr option" where
  "rdm_pd_get_drv s p =
     (case pd_find (params s) (num_parameters s) p 0 of
        Inl e \<Rightarrow> Inl e
      | Inr i \<Rightarrow> if i < num_parameters s then Inr (param_data (params s ! i)) else Inr None)"

definition rdm_pd_get ::
  "dmx_driver_tab \<Rightarrow> nat \<Rightarrow> u16 \<Rightarrow> nat \<Rightarrow> fault + pd_addr option" where
  "rdm_pd_get tab dmx_num p sub_dev =
     (if \<not> dmx_num < DMX_NUM_MAX tab then Inl AssertFailed
      else if \<not> sub_dev < 513 then Inl AssertFailed
      else if \<not> p > 0 then Inl AssertFailed
      else if \<not> dmx_driver_is_installed tab dmx_num then Inl AssertFailed
      else if \<not> sub_dev = RDM_SUB_DEVICE_ROOT then Inr None
      else rdm_pd_get_drv (the (tab ! dmx_num)) p)"


text \<open>
  \<^verbatim>\<open>rdm_pd_update_response_handler\<close> and \<^verbatim>\<open>rdm_pd_update_callback\<close>. They write the
  entry whose PID they read after the loop; past the array that is a write outside
  \<^verbatim>\<open>params\<close>.
\<close>

definition rdm_pd_update_response_handler_drv ::
  "dmx_driver_t \<Rightarrow> u16 \<Rightarrow> rdm_response_handler_t \<Rightarrow> fault + (bool \<times> dmx_driver_t)" where
  "rdm_pd_update_response_handler_drv s p h =
     (case pd_find (params s) (num_parameters s) p 0 of
        Inl e \<Rightarrow> Inl e
      | Inr pdi \<Rightarrow>
     (case params_pid s pdi of
        Inl e \<Rightarrow> Inl e
      | Inr found \<Rightarrow>
        if found \<noteq> p then Inr (False, s)
        else
     (case params_at s pdi of
        Inl e \<Rightarrow> Inl e
      | Inr slot \<Rightarrow>
          Inr (True,
               s\<lparr>params := (params s)[pdi := slot\<lparr>param_response_handler := Some h\<rparr>]\<rparr>))))"

definition rdm_pd_update_response_handler ::
  "dmx_driver_tab \<Rightarrow> nat \<Rightarrow> nat \<Rightarrow> u16 \<Rightarrow> rdm_response_handler_t option \<Rightarrow>
   fault + (bool \<times> dmx_driver_tab)" where
  "rdm_pd_update_response_handler tab dmx_num sub_dev p handler =
     (if \<not> dmx_num < DMX_NUM_MAX tab then Inl AssertFailed
      else if \<not> sub_dev < 513 then Inl AssertFailed
      else if \<not> p > 0 then Inl AssertFailed
      else case handler of
        None \<Rightarrow> Inl AssertFailed
      | Some h \<Rightarrow>
        if \<not> dmx_driver_is_installed tab dmx_num then Inl AssertFailed
        else if \<not> sub_dev = RDM_SUB_DEVICE_ROOT then Inr (False, tab)
        else case rdm_pd_update_response_handler_drv (the (tab ! dmx_num)) p h of
          Inl e \<Rightarrow> Inl e
        | Inr (r, s') \<Rightarrow> Inr (r, tab[dmx_num := Some s']))"

definition rdm_pd_update_callback_drv ::
  "dmx_driver_t \<Rightarrow> u16 \<Rightarrow> nat option \<Rightarrow> nat option \<Rightarrow> fault + (bool \<times> dmx_driver_t)" where
  "rdm_pd_update_callback_drv s p cbk ctx =
     (case pd_find (params s) (num_parameters s) p 0 of
        Inl e \<Rightarrow> Inl e
      | Inr pdi \<Rightarrow>
     (case params_pid s pdi of
        Inl e \<Rightarrow> Inl e
      | Inr found \<Rightarrow>
        if found \<noteq> p then Inr (False, s)
        else
     (case params_at s pdi of
        Inl e \<Rightarrow> Inl e
      | Inr slot \<Rightarrow>
          Inr (True,
               s\<lparr>params := (params s)[pdi := slot\<lparr>param_callback := cbk,
                                                  param_context := ctx\<rparr>]\<rparr>))))"

definition rdm_pd_update_callback ::
  "dmx_driver_tab \<Rightarrow> nat \<Rightarrow> nat \<Rightarrow> u16 \<Rightarrow> nat option \<Rightarrow> nat option \<Rightarrow>
   fault + (bool \<times> dmx_driver_tab)" where
  "rdm_pd_update_callback tab dmx_num sub_dev p cbk ctx =
     (if \<not> dmx_num < DMX_NUM_MAX tab then Inl AssertFailed
      else if \<not> sub_dev < 513 then Inl AssertFailed
      else if \<not> p > 0 then Inl AssertFailed
      else if \<not> dmx_driver_is_installed tab dmx_num then Inl AssertFailed
      else if \<not> sub_dev = RDM_SUB_DEVICE_ROOT then Inr (False, tab)
      else case rdm_pd_update_callback_drv (the (tab ! dmx_num)) p cbk ctx of
        Inl e \<Rightarrow> Inl e
      | Inr (r, s') \<Rightarrow> Inr (r, tab[dmx_num := Some s']))"

text \<open>
  \<^verbatim>\<open>rdm_pd_set\<close>: copies \<^verbatim>\<open>size\<close> bytes of the object \<^verbatim>\<open>data\<close> points to over the
  parameter; nothing is copied for a parameter whose data pointer is null. A copy to
  an address outside the slab leaves the C semantics.
\<close>

definition rdm_pd_set_drv ::
  "dmx_driver_t \<Rightarrow> u16 \<Rightarrow> u8 list \<Rightarrow> nat \<Rightarrow> fault + (bool \<times> dmx_driver_t)" where
  "rdm_pd_set_drv s p src sz =
     (if sz = 0 then Inr (False, s)
      else
     (case pd_find (params s) (num_parameters s) p 0 of
        Inl e \<Rightarrow> Inl e
      | Inr pdi \<Rightarrow>
        if pdi = num_parameters s then Inr (False, s)
        else
     (case params_at s pdi of
        Inl e \<Rightarrow> Inl e
      | Inr slot \<Rightarrow>
       (case param_data slot of
          None \<Rightarrow> Inr (False, s)
        | Some (Absolute a) \<Rightarrow> Inl OutOfBounds
        | Some (InSlab a) \<Rightarrow>
         (case (if data_type (param_definition slot) = RDM_DS_ASCII
                then strncpy_src src sz else memcpy_src src sz) of
            Inl e \<Rightarrow> Inl e
          | Inr bs \<Rightarrow>
           (case mem_write (pd s) a bs of
              Inl e \<Rightarrow> Inl e
            | Inr m \<Rightarrow> Inr (True, s\<lparr>pd := m\<rparr>)))))))"

definition rdm_pd_set ::
  "dmx_driver_tab \<Rightarrow> nat \<Rightarrow> u16 \<Rightarrow> nat \<Rightarrow> u8 list option \<Rightarrow> nat \<Rightarrow>
   fault + (bool \<times> dmx_driver_tab)" where
  "rdm_pd_set tab dmx_num p sub_dev src sz =
     (if \<not> dmx_num < DMX_NUM_MAX tab then Inl AssertFailed
      else if \<not> (sub_dev < 513 \<or> sub_dev = RDM_SUB_DEVICE_ALL) then Inl AssertFailed
      else if \<not> p > 0 then Inl AssertFailed
      else case src of
        None \<Rightarrow> Inl AssertFailed
      | Some bytes \<Rightarrow>
        if \<not> dmx_driver_is_installed tab dmx_num then Inl AssertFailed
        else if \<not> sub_dev = RDM_SUB_DEVICE_ROOT then Inr (False, tab)
        else case rdm_pd_set_drv (the (tab ! dmx_num)) p bytes sz of
          Inl e \<Rightarrow> Inl e
        | Inr (r, s') \<Rightarrow> Inr (r, tab[dmx_num := Some s']))"

text \<open>
  The search of the queue in \<^verbatim>\<open>rdm_pd_enqueue\<close>:
  \<^verbatim>\<open>for (int i = 0; i < driver->rdm_queue_size; ++i)
    if (driver->rdm_queue[i] == pid) { ret = i; break; }\<close>
  with \<^verbatim>\<open>ret\<close> starting at -1. It runs only while \<^verbatim>\<open>rdm_queue_size\<close> is below the
  length of the array, so every index it reads is inside the array.
\<close>

function queue_search :: "u16 list \<Rightarrow> nat \<Rightarrow> u16 \<Rightarrow> nat \<Rightarrow> int" where
  "queue_search q n p i =
     (if i < n then (if q ! i = p then int i else queue_search q n p (Suc i)) else - 1)"
  by pat_completeness auto
termination
  by (relation "measure (\<lambda>(q, n, p, i). n - i)") auto

declare queue_search.simps [simp del]

definition rdm_pd_enqueue_drv :: "dmx_driver_t \<Rightarrow> u16 \<Rightarrow> fault + (int \<times> dmx_driver_t)" where
  "rdm_pd_enqueue_drv s p =
     (case pd_find (params s) (num_parameters s) p 0 of
        Inl e \<Rightarrow> Inl e
      | Inr pdi \<Rightarrow>
        if pdi = num_parameters s then Inr (- 1, s)
        else if rdm_queue_size s < RDM_RESPONDER_QUEUE_SIZE_MAX s then
          (let ret = queue_search (rdm_queue s) (rdm_queue_size s) p 0 in
           if ret = - 1 then
             Inr (int (rdm_queue_size s),
                  s\<lparr>rdm_queue := (rdm_queue s)[rdm_queue_size s := p],
                    rdm_queue_size := Suc (rdm_queue_size s)\<rparr>)
           else Inr (ret, s))
        else Inr (- 1, s))"

definition rdm_pd_enqueue ::
  "dmx_driver_tab \<Rightarrow> nat \<Rightarrow> u16 \<Rightarrow> nat \<Rightarrow> fault + (int \<times> dmx_driver_tab)" where
  "rdm_pd_enqueue tab dmx_num p sub_dev =
     (if \<not> dmx_num < DMX_NUM_MAX tab then Inl AssertFailed
      else if \<not> (sub_dev < 513 \<or> sub_dev = RDM_SUB_DEVICE_ALL) then Inl AssertFailed
      else if \<not> p > 0 then Inl AssertFailed
      else if \<not> dmx_driver_is_installed tab dmx_num then Inl AssertFailed
      else if \<not> sub_dev = RDM_SUB_DEVICE_ROOT then Inr (- 1, tab)
      else case rdm_pd_enqueue_drv (the (tab ! dmx_num)) p of
        Inl e \<Rightarrow> Inl e
      | Inr (r, s') \<Rightarrow> Inr (r, tab[dmx_num := Some s']))"


section \<open>Constants of the DMX and RDM headers\<close>

text \<open>
  Modelled from the spec: the constants below are defined in dmx/types.h and
  rdm/types.h, which are not among the sources. The spec gives the RDM start code 0xCC
  and sub-start code 0x01, the discovery preamble 0xFE and delimiter 0xAA, the command
  class GET_COMMAND_RESPONSE = 0x21, the NACK reason NR_UNKNOWN_PID = 0x0011 and the
  timing constants in microseconds. The code makes a response class of a command class
  by adding one; the command classes, the PID of DISC_UNIQUE_BRANCH and
  NR_HARDWARE_FAULT have their ANSI E1.20 values.
\<close>

definition RDM_SC :: u8 where "RDM_SC = 0xCC"
definition RDM_SUB_SC :: u8 where "RDM_SUB_SC = 0x01"
definition RDM_PREAMBLE :: u8 where "RDM_PREAMBLE = 0xFE"
definition RDM_DELIMITER :: u8 where "RDM_DELIMITER = 0xAA"

definition RDM_CC_DISC_COMMAND :: u8 where "RDM_CC_DISC_COMMAND = 0x10"
definition RDM_CC_DISC_COMMAND_RESPONSE :: u8 where "RDM_CC_DISC_COMMAND_RESPONSE = 0x11"
definition RDM_CC_GET_COMMAND :: u8 where "RDM_CC_GET_COMMAND = 0x20"
definition RDM_CC_GET_COMMAND_RESPONSE :: u8 where "RDM_CC_GET_COMMAND_RESPONSE = 0x21"
definition RDM_CC_SET_COMMAND :: u8 where "RDM_CC_SET_COMMAND = 0x30"
definition RDM_CC_SET_COMMAND_RESPONSE :: u8 where "RDM_CC_SET_COMMAND_RESPONSE = 0x31"

definition RDM_PID_DISC_UNIQUE_BRANCH :: u16 where "RDM_PID_DISC_UNIQUE_BRANCH = 0x0001"

definition RDM_NR_UNKNOWN_PID :: u16 where "RDM_NR_UNKNOWN_PID = 0x0011"
definition RDM_NR_HARDWARE_FAULT :: u16 where "RDM_NR_HARDWARE_FAULT = 0x0002"

definition RDM_CONTROLLER_RESPONSE_LOST_TIMEOUT :: int where
  "RDM_CONTROLLER_RESPONSE_LOST_TIMEOUT = 2800"
definition RDM_RESPONDER_RESPONSE_LOST_TIMEOUT :: int where
  "RDM_RESPONDER_RESPONSE_LOST_TIMEOUT = 2000"
definition RDM_DISCOVERY_NO_RESPONSE_PACKET_SPACING :: int where
  "RDM_DISCOVERY_NO_RESPONSE_PACKET_SPACING = 5800"
definition RDM_REQUEST_NO_RESPONSE_PACKET_SPACING :: int where
  "RDM_REQUEST_NO_RESPONSE_PACKET_SPACING = 3000"
definition RDM_BROADCAST_PACKET_SPACING :: int where
  "RDM_BROADCAST_PACKET_SPACING = 176"
definition RDM_RESPOND_TO_REQUEST_PACKET_SPACING :: int where
  "RDM_RESPOND_TO_REQUEST_PACKET_SPACING = 176"

text \<open>
  Modelled from the spec: \<^verbatim>\<open>esp_err_t\<close> belongs to the platform. \<^verbatim>\<open>ESP_OK\<close> is 0 and
  \<^verbatim>\<open>ESP_ERR_TIMEOUT\<close> is 0x107.
\<close>

definition ESP_OK :: int where "ESP_OK = 0"
definition ESP_ERR_TIMEOUT :: int where "ESP_ERR_TIMEOUT = 263"

text \<open>
  Modelled from the spec: \<^verbatim>\<open>pd_emplace_word\<close> is defined in rdm/utils, which is not
  among the sources. It writes a 16-bit word at the start of the parameter data, most
  significant byte first, and returns the two bytes it wrote.
\<close>

definition pd_emplace_word :: "u8 list \<Rightarrow> u16 \<Rightarrow> u8 list \<times> nat" where
  "pd_emplace_word pdata w =
     (pdata[0 := ucast (drop_bit 8 w), 1 := ucast w], 2)"

text \<open>
  The functions of rdm/utils that \<^verbatim>\<open>dmx_send\<close> and \<^verbatim>\<open>dmx_receive\<close> call and that are
  not among the sources are parameters of the model:
  \<^item> \<open>rdm_read\<close>: the header \<^verbatim>\<open>rdm_read(dmx_num, &header, NULL, 0)\<close> decodes from the
    driver buffer, \<open>None\<close> when it returns 0;
  \<^item> \<open>rdm_read_pd\<close>: what \<^verbatim>\<open>rdm_read(dmx_num, NULL, pd, sizeof(pd))\<close> makes of the
    array \<^verbatim>\<open>pd\<close> when it copies the parameter data out of the driver buffer;
  \<^item> \<open>rdm_write\<close>: the size \<^verbatim>\<open>rdm_write(dmx_num, &header, pd)\<close> returns and the driver
    buffer it leaves;
  \<^item> \<open>uidcpy\<close>: the UID held in six bytes of the buffer;
  \<^item> \<open>uid_is_broadcast\<close> and \<open>uid_is_target\<close>.
\<close>

record rdm_utils =
  rdm_read :: "u8 list \<Rightarrow> rdm_header_t option"
  rdm_read_pd :: "u8 list \<Rightarrow> u8 list \<Rightarrow> u8 list"
  rdm_write :: "rdm_header_t \<Rightarrow> u8 list \<Rightarrow> u8 list \<Rightarrow> nat \<times> u8 list"
  uidcpy :: "u8 list \<Rightarrow> rdm_uid_t"
  uid_is_broadcast :: "rdm_uid_t \<Rightarrow> bool"
  uid_is_target :: "rdm_uid_t \<Rightarrow> rdm_uid_t \<Rightarrow> bool"

section \<open>Slot access (esp_dmx.c)\<close>

text \<open>\<^verbatim>\<open>size_t\<close> has 32 bits on the ESP32; \<^verbatim>\<open>size + offset\<close> wraps around.\<close>

definition size_add :: "nat \<Rightarrow> nat \<Rightarrow> nat" where
  "size_add a b = (a + b) mod 2 ^ 32"

text \<open>
  \<^verbatim>\<open>dmx_read_offset\<close>. \<^verbatim>\<open>destination\<close> is the object the pointer refers to, \<open>None\<close> for
  a null pointer. The result is the returned size and the destination object.
\<close>

definition dmx_read_offset ::
  "dmx_driver_tab \<Rightarrow> nat \<Rightarrow> nat \<Rightarrow> u8 list option \<Rightarrow> nat \<Rightarrow>
   fault + (nat \<times> u8 list option)" where
  "dmx_read_offset tab dmx_num offset destination sz =
     (if \<not> dmx_num < DMX_NUM_MAX tab then Inr (0, destination)
      else if \<not> offset < DMX_MAX_PACKET_SIZE then Inr (0, destination)
      else case destination of
        None \<Rightarrow> Inr (0, destination)
      | Some dst \<Rightarrow>
        if \<not> dmx_driver_is_installed tab dmx_num then Inr (0, destination)
        else if \<not> size_add sz offset > DMX_MAX_PACKET_SIZE \<and> sz = 0 then Inr (0, destination)
        else
          let n = (if size_add sz offset > DMX_MAX_PACKET_SIZE
                   then DMX_MAX_PACKET_SIZE - offset else sz);
              driver = the (tab ! dmx_num)
          in
          (case memcpy_src (drop offset (data driver)) n of
             Inl e \<Rightarrow> Inl e
           | Inr bs \<Rightarrow>
          (case mem_write dst 0 bs of
             Inl e \<Rightarrow> Inl e
           | Inr dst' \<Rightarrow> Inr (n, Some dst'))))"

text \<open>\<^verbatim>\<open>dmx_write_offset\<close>. \<^verbatim>\<open>source\<close> is the object the pointer refers to.\<close>

definition dmx_write_offset_drv ::
  "dmx_driver_t \<Rightarrow> nat \<Rightarrow> u8 list \<Rightarrow> nat \<Rightarrow> fault + (nat \<times> dmx_driver_t)" where
  "dmx_write_offset_drv s offset src n =
     (if DMX_FLAGS_DRIVER_IS_SENDING \<in> flags s \<and> rdm_type s \<noteq> {} then Inr (0, s)
      else
        let s1 = (if rts s = 1 then s\<lparr>rts := 0, trace := trace s @ [UartSetRts 0]\<rparr> else s);
            s2 = s1\<lparr>tx_size := int (size_add offset n)\<rparr>
        in
        (case memcpy_src src n of
           Inl e \<Rightarrow> Inl e
         | Inr bs \<Rightarrow>
        (case mem_write (data s2) offset bs of
           Inl e \<Rightarrow> Inl e
         | Inr m \<Rightarrow> Inr (n, s2\<lparr>data := m\<rparr>))))"

definition dmx_write_offset ::
  "dmx_driver_tab \<Rightarrow> nat \<Rightarrow> nat \<Rightarrow> u8 list option \<Rightarrow> nat \<Rightarrow>
   fault + (nat \<times> dmx_driver_tab)" where
  "dmx_write_offset tab dmx_num offset source sz =
     (if \<not> dmx_num < DMX_NUM_MAX tab then Inr (0, tab)
      else if \<not> offset < DMX_MAX_PACKET_SIZE then Inr (0, tab)
      else case source of
        None \<Rightarrow> Inr (0, tab)
      | Some src \<Rightarrow>
        if \<not> dmx_driver_is_installed tab dmx_num then Inr (0, tab)
        else if \<not> size_add sz offset > DMX_MAX_PACKET_SIZE \<and> sz = 0 then Inr (0, tab)
        else
          let n = (if size_add sz offset > DMX_MAX_PACKET_SIZE
                   then DMX_MAX_PACKET_SIZE - offset else sz)
          in
          (case dmx_write_offset_drv (the (tab ! dmx_num)) offset src n of
             Inl e \<Rightarrow> Inl e
           | Inr (r, s') \<Rightarrow> Inr (r, tab[dmx_num := Some s'])))"


section \<open>The bus engine (esp_dmx.c)\<close>

text \<open>
  What the operating system and the hardware decide during a call is an input of the
  model. The interrupt handlers of this driver are not among the sources. They own
  the buffer while a packet arrives, \<^verbatim>\<open>head\<close>, \<^verbatim>\<open>flags\<close>, \<^verbatim>\<open>rdm_type\<close> and
  \<^verbatim>\<open>last_slot_ts\<close>; the values they have left in those fields when a blocked task
  runs again are an input of the call that blocked.
\<close>

record isr_effect =
  isr_data :: "u8 list"
  isr_head :: int
  isr_flags :: "dmx_flag set"
  isr_rdm_type :: "rdm_flag set"
  isr_last_slot_ts :: int

definition apply_isr :: "isr_effect \<Rightarrow> dmx_driver_t \<Rightarrow> dmx_driver_t" where
  "apply_isr i s =
     s\<lparr>data := isr_data i, head := isr_head i, flags := isr_flags i,
       rdm_type := isr_rdm_type i, last_slot_ts := isr_last_slot_ts i\<rparr>"

text \<open>
  \<^verbatim>\<open>xTaskNotifyWait\<close>: the task is blocked until an interrupt handler notifies it or
  the wait times out; the interrupt handlers run meanwhile.
\<close>

definition task_notify_wait :: "isr_effect \<Rightarrow> dmx_driver_t \<Rightarrow> dmx_driver_t" where
  "task_notify_wait i s = apply_isr i (s\<lparr>trace := trace s @ [TaskNotifyWait]\<rparr>)"

text \<open>
  The inputs of one call of \<^verbatim>\<open>dmx_wait_sent\<close>: whether the mutex was taken, whether
  \<^verbatim>\<open>xTaskCheckForTimeOut\<close> reported a timeout, whether \<^verbatim>\<open>xTaskNotifyWait\<close> returned
  with a notification, and what the interrupt handlers wrote during that wait (the
  handler that ends a transmission clears \<^verbatim>\<open>DMX_FLAGS_DRIVER_IS_SENDING\<close> and records
  \<^verbatim>\<open>last_slot_ts\<close>).
\<close>

record wait_env =
  w_mux :: bool
  w_timed_out :: bool
  w_notified :: bool
  w_isr :: isr_effect

definition dmx_wait_sent_drv ::
  "dmx_driver_t \<Rightarrow> nat \<Rightarrow> wait_env \<Rightarrow> bool \<times> dmx_driver_t" where
  "dmx_wait_sent_drv s wait_ticks e =
     (if \<not> w_mux e \<or> (wait_ticks \<noteq> 0 \<and> w_timed_out e) then (False, s)
      else if wait_ticks > 0 then
        (if DMX_FLAGS_DRIVER_IS_SENDING \<in> flags s
         then (w_notified e,
               (task_notify_wait (w_isr e) (s\<lparr>task_waiting := True\<rparr>))\<lparr>task_waiting := False\<rparr>)
         else (True, s))
      else
        (if DMX_FLAGS_DRIVER_IS_SENDING \<in> flags s then (False, s) else (True, s)))"

definition dmx_wait_sent ::
  "dmx_driver_tab \<Rightarrow> nat \<Rightarrow> nat \<Rightarrow> wait_env \<Rightarrow> bool \<times> dmx_driver_tab" where
  "dmx_wait_sent tab dmx_num wait_ticks e =
     (if \<not> dmx_num < DMX_NUM_MAX tab then (False, tab)
      else if \<not> dmx_driver_is_installed tab dmx_num then (False, tab)
      else
        let (r, s') = dmx_wait_sent_drv (the (tab ! dmx_num)) wait_ticks e
        in (r, tab[dmx_num := Some s']))"

text \<open>
  Modelled from the spec: \<^verbatim>\<open>portMAX_DELAY\<close> belongs to FreeRTOS; it is the longest wait,
  0xFFFFFFFF ticks.
\<close>

definition portMAX_DELAY :: nat where
  "portMAX_DELAY = 4294967295"

text \<open>
  The inputs of one call of \<^verbatim>\<open>dmx_send\<close>: whether the mutex was taken, the inputs of
  its \<^verbatim>\<open>dmx_wait_sent\<close>, the two readings of \<^verbatim>\<open>esp_timer_get_time\<close> (microseconds since
  boot, 64 bits wide, so that differences do not wrap), whether the wait for the
  packet spacing was notified and what the interrupt handlers wrote during it, and
  the free space of the transmit FIFO.
\<close>

record send_env =
  s_mux :: bool
  s_sent :: wait_env
  s_now1 :: int
  s_now2 :: int
  s_notified :: bool
  s_isr :: isr_effect
  s_txfifo_len :: nat

text \<open>
  \<^verbatim>\<open>*(uint16_t *)driver->data == (RDM_SC | (RDM_SUB_SC << 8))\<close> on the little-endian
  ESP32: the first byte is the start code and the second the sub-start code.
\<close>

definition is_rdm_sc :: "u8 list \<Rightarrow> bool" where
  "is_rdm_sc d = (d ! 0 = RDM_SC \<and> d ! 1 = RDM_SUB_SC)"

text \<open>The required packet spacing, \<^verbatim>\<open>timeout\<close> in \<^verbatim>\<open>dmx_send\<close>.\<close>

definition send_spacing :: "dmx_driver_t \<Rightarrow> int" where
  "send_spacing s =
     (if DMX_FLAGS_DRIVER_SENT_LAST \<in> flags s then
        (if DMX_FLAGS_RDM_IS_DISC_UNIQUE_BRANCH \<in> rdm_type s
           then RDM_DISCOVERY_NO_RESPONSE_PACKET_SPACING
         else if DMX_FLAGS_RDM_IS_BROADCAST \<in> rdm_type s
           then RDM_BROADCAST_PACKET_SPACING
         else if rdm_type s = {DMX_FLAGS_RDM_IS_REQUEST}
           then RDM_REQUEST_NO_RESPONSE_PACKET_SPACING
         else 0)
      else if DMX_FLAGS_RDM_IS_VALID \<in> rdm_type s
        then RDM_RESPOND_TO_REQUEST_PACKET_SPACING
      else 0)"

text \<open>
  The type of the outgoing packet, \<^verbatim>\<open>rdm_type\<close> in \<^verbatim>\<open>dmx_send\<close>. \<open>c\<close> is the command
  class \<^verbatim>\<open>cc\<close>, which \<^verbatim>\<open>dmx_send\<close> has read from the buffer before.
\<close>

definition send_rdm_type :: "rdm_utils \<Rightarrow> u8 \<Rightarrow> u8 list \<Rightarrow> rdm_flag set" where
  "send_rdm_type u c d =
     (let p = (word_cat (d ! 21) (d ! 22) :: u16);
          dest = uidcpy u (take 6 (drop 3 d))
      in
      if is_rdm_sc d then
        {DMX_FLAGS_RDM_IS_VALID}
        \<union> (if c = RDM_CC_DISC_COMMAND \<or> c = RDM_CC_GET_COMMAND \<or> c = RDM_CC_SET_COMMAND
           then {DMX_FLAGS_RDM_IS_REQUEST} else {})
        \<union> (if uid_is_broadcast u dest then {DMX_FLAGS_RDM_IS_BROADCAST} else {})
        \<union> (if p = RDM_PID_DISC_UNIQUE_BRANCH then {DMX_FLAGS_RDM_IS_DISC_UNIQUE_BRANCH} else {})
      else if d ! 0 = RDM_PREAMBLE \<or> d ! 0 = RDM_DELIMITER then
        {DMX_FLAGS_RDM_IS_VALID, DMX_FLAGS_RDM_IS_DISC_UNIQUE_BRANCH}
      else {})"

text \<open>
  The last block of \<^verbatim>\<open>dmx_send\<close>: a discovery response is written to the FIFO at once,
  every other packet starts with a break that the timer ends. \<^verbatim>\<open>dmx_uart_write_txfifo\<close>
  writes as many bytes as the FIFO has room for, like \<^verbatim>\<open>dmx_hal_write_txfifo\<close> of
  dmx/hal.h.
\<close>

definition send_start :: "dmx_driver_t \<Rightarrow> rdm_flag set \<Rightarrow> nat \<Rightarrow> dmx_driver_t" where
  "send_start s rt txfifo_len =
     (if rt = {DMX_FLAGS_RDM_IS_VALID, DMX_FLAGS_RDM_IS_DISC_UNIQUE_BRANCH} then
        let write_size = min txfifo_len (nat (tx_size s mod 2 ^ 32))
        in s\<lparr>flags := insert DMX_FLAGS_DRIVER_IS_SENDING (flags s),
              head := int write_size,
              trace := trace s @ [UartWriteTxfifo (take write_size (data s)),
                                  UartEnableTxInterrupts]\<rparr>
      else
        s\<lparr>head := 0,
          flags := insert DMX_FLAGS_TIMER_IS_RUNNING
                     (insert DMX_FLAGS_DRIVER_IS_IN_BREAK
                        (insert DMX_FLAGS_DRIVER_IS_SENDING (flags s))),
          trace := trace s @ [TimerSetCounter 0, TimerSetAlarm (int (break_len s)),
                              TimerStart, UartInvertTx 1]\<rparr>)"

text \<open>
  The middle of \<^verbatim>\<open>dmx_send\<close>, from turning the bus around to the return: the transmit
  size, the packet type, the transaction number and the start of the transmission.
\<close>

definition send_packet ::
  "rdm_utils \<Rightarrow> dmx_driver_t \<Rightarrow> u8 \<Rightarrow> nat \<Rightarrow> send_env \<Rightarrow> nat \<times> dmx_driver_t" where
  "send_packet u s c sz e =
     (let s1 = (if rts s = 1 then s\<lparr>rts := 0, trace := trace s @ [UartSetRts 0]\<rparr> else s);
          n = (if sz > 0 then (if sz > DMX_MAX_PACKET_SIZE then DMX_MAX_PACKET_SIZE else sz)
               else nat (tx_size s1 mod 2 ^ 32));
          s2 = (if sz > 0 then s1\<lparr>tx_size := int n\<rparr> else s1);
          rt = send_rdm_type u c (data s2);
          s3 = s2\<lparr>rdm_type := rt,
                  flags := insert DMX_FLAGS_DRIVER_SENT_LAST (flags s2)\<rparr>;
          s4 = (if {DMX_FLAGS_RDM_IS_VALID, DMX_FLAGS_RDM_IS_REQUEST} \<subseteq> rt
                then s3\<lparr>drv_tn := drv_tn s3 + 1\<rparr> else s3)
      in (n, send_start s4 rt (s_txfifo_len e)))"

text \<open>
  \<^verbatim>\<open>dmx_send\<close> on the driver of an installed and enabled port. The buffer and
  \<^verbatim>\<open>last_slot_ts\<close> are read after \<^verbatim>\<open>dmx_wait_sent\<close> has returned. \<^verbatim>\<open>cc\<close> is read once,
  before the check for a late response, and used again for the packet type.
\<close>

definition is_rdm_response :: "u8 list \<Rightarrow> bool" where
  "is_rdm_response d =
     (is_rdm_sc d \<and>
      (d ! 20 = RDM_CC_DISC_COMMAND_RESPONSE \<or> d ! 20 = RDM_CC_GET_COMMAND_RESPONSE \<or>
       d ! 20 = RDM_CC_SET_COMMAND_RESPONSE))"

definition dmx_send_drv ::
  "rdm_utils \<Rightarrow> dmx_driver_t \<Rightarrow> nat \<Rightarrow> send_env \<Rightarrow> nat \<times> dmx_driver_t" where
  "dmx_send_drv u s sz e =
     (if \<not> s_mux e then (0, s)
      else
        let (sent, s1) = dmx_wait_sent_drv s portMAX_DELAY (s_sent e) in
        if \<not> sent then (0, s1)
        else
          let c = data s1 ! 20;
              elapsed1 = (if is_rdm_response (data s1) then s_now1 e - last_slot_ts s1 else 0)
          in
          if elapsed1 \<ge> RDM_RESPONDER_RESPONSE_LOST_TIMEOUT then (0, s1)
          else
            let timeout = send_spacing s1;
                elapsed = s_now2 e - last_slot_ts s1
            in
            if elapsed < timeout then
              (let s2 = task_notify_wait (s_isr e)
                          (s1\<lparr>flags := insert DMX_FLAGS_TIMER_IS_RUNNING (flags s1),
                              task_waiting := True,
                              trace := trace s1 @ [TimerSetCounter elapsed,
                                                   TimerSetAlarm timeout, TimerStart]\<rparr>)
               in
               if \<not> s_notified e then
                 (0, (if DMX_FLAGS_TIMER_IS_RUNNING \<in> flags s2
                      then s2\<lparr>flags := flags s2 - {DMX_FLAGS_TIMER_IS_RUNNING},
                              trace := trace s2 @ [TimerPause]\<rparr>
                      else s2)\<lparr>task_waiting := False\<rparr>)
               else send_packet u (s2\<lparr>task_waiting := False\<rparr>) c sz e)
            else send_packet u s1 c sz e)"

definition dmx_send ::
  "rdm_utils \<Rightarrow> dmx_driver_tab \<Rightarrow> nat \<Rightarrow> nat \<Rightarrow> send_env \<Rightarrow> nat \<times> dmx_driver_tab" where
  "dmx_send u tab dmx_num sz e =
     (if \<not> dmx_num < DMX_NUM_MAX tab then (0, tab)
      else if \<not> dmx_driver_is_installed tab dmx_num then (0, tab)
      else if \<not> dmx_driver_is_enabled tab dmx_num then (0, tab)
      else
        let (r, s') = dmx_send_drv u (the (tab ! dmx_num)) sz e
        in (r, tab[dmx_num := Some s']))"


text \<open>
  \<^verbatim>\<open>dmx_packet_t\<close>, the output argument of \<^verbatim>\<open>dmx_receive\<close>.
\<close>

record dmx_packet_t =
  pkt_err :: int
  pkt_sc :: int
  pkt_size :: nat
  pkt_is_rdm :: bool

text \<open>
  The inputs of one call of \<^verbatim>\<open>dmx_receive\<close>: the mutex, the two timeout checks, the
  inputs of its \<^verbatim>\<open>dmx_wait_sent\<close>, the reading of the clock, the outcome of the wait for
  the packet (notified or not, the notification value, what the interrupt handlers
  wrote while they received it), the contents of the uninitialised array \<^verbatim>\<open>pd\<close>, and
  the inputs of the \<^verbatim>\<open>dmx_send\<close> that emits the response.
\<close>

record receive_env =
  r_mux :: bool
  r_timed_out1 :: bool
  r_sent :: wait_env
  r_timed_out2 :: bool
  r_now :: int
  r_notified :: bool
  r_err :: int
  r_isr :: isr_effect
  r_pd :: "u8 list"
  r_send :: send_env

text \<open>
  The loop over the registered callbacks: the value of \<^verbatim>\<open>cb_num\<close> after
  \<^verbatim>\<open>for (; cb_num < driver->num_rdm_cbs; ++cb_num)
    if (driver->rdm_cbs[cb_num].desc.pid == header.pid) { ...; break; }\<close>
\<close>

fun cb_find :: "rdm_cb_t list \<Rightarrow> u16 \<Rightarrow> nat \<Rightarrow> nat" where
  "cb_find [] p i = i"
| "cb_find (c # cs) p i = (if desc_pid (cb_desc c) = p then i else cb_find cs p (Suc i))"

text \<open>
  The dispatcher: the part of \<^verbatim>\<open>dmx_receive\<close> that follows the check that this device
  is targeted. The handler of the first entry with the PID runs; the response is
  composed and handed to \<^verbatim>\<open>rdm_write\<close> and \<^verbatim>\<open>dmx_send\<close>.
\<close>

definition rdm_run_handler ::
  "rdm_utils \<Rightarrow> dmx_driver_t \<Rightarrow> rdm_header_t \<Rightarrow> u8 list \<Rightarrow>
   nat \<times> rdm_response_type_t \<times> u8 list \<times> u8 \<times> dmx_driver_t" where
  "rdm_run_handler u s header pd0 =
     (let cb_num = cb_find (rdm_cbs s) (pid header) 0 in
      if cb_num < length (rdm_cbs s) then
        let c = rdm_cbs s ! cb_num;
            pd_in = (if pdl header > 0 then rdm_read_pd u (data s) pd0 else pd0);
            (rt, pd_out, pdl_out, param') = cb c header pd_in (cb_param c)
        in (cb_num, rt, pd_out, pdl_out,
            s\<lparr>rdm_cbs := (rdm_cbs s)[cb_num := c\<lparr>cb_param := param'\<rparr>],
              trace := trace s @ [ResponseHandler cb_num]\<rparr>)
      else (cb_num, RDM_RESPONSE_TYPE_NONE, pd0, 0, s))"

definition rdm_dispatch ::
  "rdm_utils \<Rightarrow> dmx_driver_t \<Rightarrow> rdm_header_t \<Rightarrow> receive_env \<Rightarrow> dmx_driver_t" where
  "rdm_dispatch u s header e =
     (let my_uid = uid s;
          (cb_num, rt, pd1, pdl1, s1) = rdm_run_handler u s header (r_pd e)
      in
      if uid_is_broadcast u (dest_uid header) \<and>
         \<not> (cc header = RDM_CC_DISC_COMMAND \<and> pid header = RDM_PID_DISC_UNIQUE_BRANCH)
      then s1
      else if rt = RDM_RESPONSE_TYPE_NONE \<and> cc header = RDM_CC_DISC_COMMAND then s1
      else
        let (pd2, pdl_out) =
              (if cb_num = length (rdm_cbs s1) \<and> cc header \<noteq> RDM_CC_DISC_COMMAND then
                 (let (m, n) = pd_emplace_word pd1 RDM_NR_UNKNOWN_PID in (m, of_nat n))
               else if rt = RDM_RESPONSE_TYPE_NONE \<or> rt = RDM_RESPONSE_TYPE_INVALID then
                 (let (m, n) = pd_emplace_word pd1 RDM_NR_HARDWARE_FAULT in (m, of_nat n))
               else (pd1, pdl1));
            header' = header\<lparr>dest_uid := src_uid header,
                             src_uid := my_uid,
                             response_type := ResponseType rt,
                             message_count := 0,
                             cc := cc header + 1,
                             pdl := pdl_out\<rparr>;
            (response_size, buf) = rdm_write u header' pd2 (data s1);
            s2 = s1\<lparr>data := buf, trace := trace s1 @ [RdmWrite header' pd2]\<rparr>
        in
        if is_enabled s2 then snd (dmx_send_drv u s2 response_size (r_send e)) else s2)"

text \<open>
  The first part of \<^verbatim>\<open>dmx_receive\<close>, up to the packet size: \<open>Inl\<close> is an early
  return with its size, \<open>Inr\<close> carries on with the packet size and the error code.
\<close>

definition receive_wait ::
  "dmx_driver_t \<Rightarrow> nat \<Rightarrow> receive_env \<Rightarrow> (nat \<times> dmx_driver_t) + (nat \<times> int \<times> dmx_driver_t)" where
  "receive_wait s wait_ticks e =
     (if \<not> r_mux e \<or> (wait_ticks \<noteq> 0 \<and> r_timed_out1 e) then Inl (0, s)
      else
        let (sent, s1) = dmx_wait_sent_drv s wait_ticks (r_sent e) in
        if \<not> sent \<or> (wait_ticks \<noteq> 0 \<and> r_timed_out2 e) then Inl (0, s1)
        else
          let s2 = (if rts s1 = 0
                    then s1\<lparr>head := - 1,
                            flags := flags s1 - {DMX_FLAGS_DRIVER_HAS_DATA},
                            rts := 1,
                            trace := trace s1 @ [UartSetRts 1]\<rparr>
                    else s1);
              driver_flags = flags s2
          in
          if DMX_FLAGS_DRIVER_HAS_DATA \<notin> driver_flags \<and> wait_ticks > 0 then
            (let s3 = s2\<lparr>task_waiting := True\<rparr>;
                 early = (DMX_FLAGS_DRIVER_SENT_LAST \<in> driver_flags \<and>
                          {DMX_FLAGS_RDM_IS_REQUEST, DMX_FLAGS_RDM_IS_DISC_UNIQUE_BRANCH}
                            \<subseteq> rdm_type s3);
                 elapsed = r_now e - last_slot_ts s3
             in
             if early \<and> elapsed \<ge> RDM_CONTROLLER_RESPONSE_LOST_TIMEOUT then Inl (0, s3)
             else
               let s4 = (if early
                         then s3\<lparr>flags := insert DMX_FLAGS_TIMER_IS_RUNNING (flags s3),
                                 trace := trace s3 @
                                   [TimerSetCounter elapsed,
                                    TimerSetAlarm RDM_CONTROLLER_RESPONSE_LOST_TIMEOUT,
                                    TimerStart]\<rparr>
                         else s3);
                   timer_on = (early \<or> DMX_FLAGS_TIMER_IS_RUNNING \<in> driver_flags);
                   s5 = task_notify_wait (r_isr e) s4;
                   raw = nat (head s5 mod 2 ^ 32);
                   s6 = s5\<lparr>task_waiting := False\<rparr>;
                   packet_size = (if raw = 2 ^ 32 - 1 then 0 else raw)
               in
               if \<not> r_notified e then
                 Inl (packet_size,
                      if timer_on
                      then s6\<lparr>flags := flags s6 - {DMX_FLAGS_TIMER_IS_RUNNING},
                              trace := trace s6 @ [TimerPause]\<rparr>
                      else s6)
               else Inr (packet_size, r_err e, s6))
          else if DMX_FLAGS_DRIVER_HAS_DATA \<notin> driver_flags then Inl (0, s2)
          else Inr (0, ESP_OK, s2))"

text \<open>
  \<^verbatim>\<open>dmx_receive\<close> on the driver of an installed and enabled port. \<open>has_packet\<close> tells
  whether \<^verbatim>\<open>packet\<close> is a non-null pointer; the result is the returned size, what the
  call writes to \<^verbatim>\<open>*packet\<close> (\<open>None\<close> when it writes nothing), and the driver.
\<close>

definition dmx_receive_drv ::
  "rdm_utils \<Rightarrow> dmx_driver_t \<Rightarrow> bool \<Rightarrow> nat \<Rightarrow> receive_env \<Rightarrow>
   nat \<times> dmx_packet_t option \<times> dmx_driver_t" where
  "dmx_receive_drv u s has_packet wait_ticks e =
     (let packet0 = (if has_packet
                     then Some \<lparr>pkt_err = ESP_ERR_TIMEOUT, pkt_sc = - 1, pkt_size = 0,
                                pkt_is_rdm = False\<rparr>
                     else None)
      in
      case receive_wait s wait_ticks e of
        Inl (n, s') \<Rightarrow> (n, packet0, s')
      | Inr (packet_size, err, s1) \<Rightarrow>
          let packet1 = (if has_packet
                         then Some \<lparr>pkt_err = err,
                                    pkt_sc = (if packet_size > 0 then uint (data s1 ! 0) else - 1),
                                    pkt_size = packet_size, pkt_is_rdm = False\<rparr>
                         else None);
              s2 = (if has_packet
                    then s1\<lparr>flags := flags s1 - {DMX_FLAGS_DRIVER_HAS_DATA}\<rparr> else s1)
          in
          if packet_size = 0 then (packet_size, packet1, s2)
          else
            (case rdm_read u (data s2) of
               None \<Rightarrow> (packet_size, packet1, s2)
             | Some header \<Rightarrow>
                 if cc header \<noteq> RDM_CC_DISC_COMMAND \<and> cc header \<noteq> RDM_CC_GET_COMMAND \<and>
                    cc header \<noteq> RDM_CC_SET_COMMAND
                 then (packet_size, packet1, s2)
                 else
                   let packet2 = map_option (\<lambda>p. p\<lparr>pkt_is_rdm := True\<rparr>) packet1 in
                   if \<not> uid_is_target u (uid s2) (dest_uid header)
                   then (packet_size, packet2, s2)
                   else (packet_size, packet2, rdm_dispatch u s2 header e)))"

definition dmx_receive ::
  "rdm_utils \<Rightarrow> dmx_driver_tab \<Rightarrow> nat \<Rightarrow> bool \<Rightarrow> nat \<Rightarrow> receive_env \<Rightarrow>
   nat \<times> dmx_packet_t option \<times> dmx_driver_tab" where
  "dmx_receive u tab dmx_num has_packet wait_ticks e =
     (if \<not> dmx_num < DMX_NUM_MAX tab then (0, None, tab)
      else if \<not> dmx_driver_is_installed tab dmx_num then (0, None, tab)
      else if \<not> dmx_driver_is_enabled tab dmx_num then (0, None, tab)
      else
        let (r, p, s') = dmx_receive_drv u (the (tab ! dmx_num)) has_packet wait_ticks e
        in (r, p, tab[dmx_num := Some s']))"

section \<open>Predicates and example states\<close>

text \<open>
  A PID is registered when one of the first \<^verbatim>\<open>num_parameters\<close> entries of
  \<^verbatim>\<open>driver->params\<close> holds it.
\<close>

definition pd_registered :: "dmx_driver_t \<Rightarrow> u16 \<Rightarrow> bool" where
  "pd_registered s p =
     (p \<in> set (map (\<lambda>x. desc_pid (param_definition x)) (take (num_parameters s) (params s))))"

text \<open>
  An installed driver used to run the model on concrete inputs: a table of four
  parameters of which the first is registered (PID 0x00F0, two bytes of the slab), a
  slab of 16 bytes, a queue of two entries and an empty buffer.
\<close>

definition example_slot :: "u16 \<Rightarrow> u16 \<Rightarrow> pd_addr option \<Rightarrow> rdm_param_t" where
  "example_slot p len d =
     \<lparr>param_data = d,
      param_definition = \<lparr>desc_pid = p, pdl_size = len, data_type = RDM_DS_OTHER 0\<rparr>,
      param_format = [], param_nvs = False, param_response_handler = None,
      param_callback = None, param_context = None\<rparr>"

definition example_handler :: rdm_response_handler_t where
  "example_handler h pdata param = (RDM_RESPONSE_TYPE_ACK, param, of_nat (length param), param)"

definition example_driver :: dmx_driver_t where
  "example_driver =
     \<lparr>is_enabled = True, rts = 1, break_len = 176, data = replicate 513 0, head = - 1,
      tx_size = 513, flags = {}, rdm_type = {}, last_slot_ts = 0, task_waiting = False,
      drv_tn = 0, uid = \<lparr>man_id = 0x05E0, dev_id = 0x12345678\<rparr>, rdm_cbs = [],
      num_parameters = 1,
      params = [example_slot 0x00F0 2 (Some (InSlab 0)), example_slot 0 0 None,
                example_slot 0 0 None, example_slot 0 0 None],
      params_end = 0, pd = replicate 16 0, pd_head = 2, rdm_queue = [0, 0], rdm_queue_size = 0,
      trace = []\<rparr>"

text \<open>The same driver as \<^verbatim>\<open>dmx_driver_install\<close> leaves it, without parameters.\<close>

definition new_driver :: dmx_driver_t where
  "new_driver = example_driver\<lparr>num_parameters := 0, pd_head := 0\<rparr>"

definition example_tab :: dmx_driver_tab where
  "example_tab = [Some example_driver, None]"

text \<open>The same driver with a full queue that holds PID 0x00F0 at index 0.\<close>

definition full_queue_driver :: dmx_driver_t where
  "full_queue_driver = example_driver\<lparr>rdm_queue := [0x00F0, 0x0082], rdm_queue_size := 2\<rparr>"

text \<open>The same driver with one free entry in the queue.\<close>

definition last_entry_driver :: dmx_driver_t where
  "last_entry_driver = example_driver\<lparr>rdm_queue := [0x0082, 0], rdm_queue_size := 1\<rparr>"

definition example_description :: "u16 \<Rightarrow> rdm_pid_description_t" where
  "example_description p = \<lparr>desc_pid = p, pdl_size = 1, data_type = RDM_DS_OTHER 0\<rparr>"

text \<open>The headers and parameter data handed to \<^verbatim>\<open>rdm_write\<close>, in order.\<close>

fun rdm_writes :: "event list \<Rightarrow> (rdm_header_t \<times> u8 list) list" where
  "rdm_writes [] = []"
| "rdm_writes (RdmWrite h p # es) = (h, p) # rdm_writes es"
| "rdm_writes (e # es) = rdm_writes es"

text \<open>
  An instance of the functions of rdm/utils, used to run the model on concrete inputs.
  It follows the header layout of the spec (start code, sub-start code, message
  length, destination UID, source UID, transaction number, port id or response type,
  message count, sub-device, command class, PID, PDL, all most significant byte
  first) and leaves the checksum out. A UID is a broadcast when its device id is
  FFFFFFFF; it targets this device when it is a broadcast to all manufacturers or to
  this device's manufacturer, or this device's UID.
\<close>

definition example_uidcpy :: "u8 list \<Rightarrow> rdm_uid_t" where
  "example_uidcpy b =
     \<lparr>man_id = word_cat (b ! 0) (b ! 1),
      dev_id = word_cat (word_cat (b ! 2) (b ! 3) :: u16) (word_cat (b ! 4) (b ! 5) :: u16)\<rparr>"

definition example_uid_bytes :: "rdm_uid_t \<Rightarrow> u8 list" where
  "example_uid_bytes x =
     [ucast (drop_bit 8 (man_id x)), ucast (man_id x),
      ucast (drop_bit 24 (dev_id x)), ucast (drop_bit 16 (dev_id x)),
      ucast (drop_bit 8 (dev_id x)), ucast (dev_id x)]"

definition example_uid_is_broadcast :: "rdm_uid_t \<Rightarrow> bool" where
  "example_uid_is_broadcast x = (dev_id x = 0xFFFFFFFF)"

definition example_uid_is_target :: "rdm_uid_t \<Rightarrow> rdm_uid_t \<Rightarrow> bool" where
  "example_uid_is_target my alias =
     (((man_id alias = 0xFFFF \<or> man_id alias = man_id my) \<and> dev_id alias = 0xFFFFFFFF)
      \<or> alias = my)"

definition example_rdm_read :: "u8 list \<Rightarrow> rdm_header_t option" where
  "example_rdm_read b =
     (if is_rdm_sc b then
        Some \<lparr>dest_uid = example_uidcpy (take 6 (drop 3 b)),
              src_uid = example_uidcpy (take 6 (drop 9 b)),
              tn = b ! 15,
              response_type = PortId (b ! 16),
              message_count = b ! 17,
              sub_device = word_cat (b ! 18) (b ! 19),
              cc = b ! 20,
              pid = word_cat (b ! 21) (b ! 22),
              pdl = b ! 23\<rparr>
      else None)"

definition example_rdm_read_pd :: "u8 list \<Rightarrow> u8 list \<Rightarrow> u8 list" where
  "example_rdm_read_pd b pdata =
     take (unat (b ! 23)) (drop 24 b) @ drop (unat (b ! 23)) pdata"

fun example_type_byte :: "rdm_port_or_type \<Rightarrow> u8" where
  "example_type_byte (PortId x) = x"
| "example_type_byte (ResponseType RDM_RESPONSE_TYPE_ACK) = 0"
| "example_type_byte (ResponseType RDM_RESPONSE_TYPE_ACK_TIMER) = 1"
| "example_type_byte (ResponseType RDM_RESPONSE_TYPE_NACK_REASON) = 2"
| "example_type_byte (ResponseType RDM_RESPONSE_TYPE_ACK_OVERFLOW) = 3"
| "example_type_byte (ResponseType RDM_RESPONSE_TYPE_INVALID) = 254"
| "example_type_byte (ResponseType RDM_RESPONSE_TYPE_NONE) = 255"

definition example_rdm_write :: "rdm_header_t \<Rightarrow> u8 list \<Rightarrow> u8 list \<Rightarrow> nat \<times> u8 list" where
  "example_rdm_write h pdata b =
     (let bytes = [RDM_SC, RDM_SUB_SC, 24 + pdl h] @ example_uid_bytes (dest_uid h) @
                  example_uid_bytes (src_uid h) @
                  [tn h, example_type_byte (response_type h), message_count h,
                   ucast (drop_bit 8 (sub_device h)), ucast (sub_device h), cc h,
                   ucast (drop_bit 8 (pid h)), ucast (pid h), pdl h] @
                  take (unat (pdl h)) pdata
      in (length bytes + 2, bytes @ drop (length bytes) b))"

definition example_utils :: rdm_utils where
  "example_utils =
     \<lparr>rdm_read = example_rdm_read, rdm_read_pd = example_rdm_read_pd,
      rdm_write = example_rdm_write, uidcpy = example_uidcpy,
      uid_is_broadcast = example_uid_is_broadcast, uid_is_target = example_uid_is_target\<rparr>"

text \<open>
  An RDM request of 26 bytes in a buffer of 513: destination UID, command class and
  PID as given, source UID 0011:22334455, transaction number 7, port 1, no parameter
  data.
\<close>

definition example_request :: "rdm_uid_t \<Rightarrow> u8 \<Rightarrow> u16 \<Rightarrow> u8 list" where
  "example_request dest c p =
     [RDM_SC, RDM_SUB_SC, 24] @ example_uid_bytes dest @
     [0x00, 0x11, 0x22, 0x33, 0x44, 0x55, 7, 1, 0, 0, 0, c,
      ucast (drop_bit 8 p), ucast p, 0, 0, 0] @ replicate 487 0"

text \<open>
  Inputs under which nothing times out and every wait is notified. A task that waits
  for the end of a transmission or for the packet spacing finds the fields of the
  interrupt handlers as \<open>example_tx_done\<close> has them: a packet of 513 null slots sent,
  the last one at time 0.
\<close>

definition example_tx_done :: isr_effect where
  "example_tx_done =
     \<lparr>isr_data = replicate 513 0, isr_head = 513, isr_flags = {DMX_FLAGS_DRIVER_SENT_LAST},
      isr_rdm_type = {}, isr_last_slot_ts = 0\<rparr>"

definition example_wait_env :: wait_env where
  "example_wait_env =
     \<lparr>w_mux = True, w_timed_out = False, w_notified = True, w_isr = example_tx_done\<rparr>"

definition example_send_env :: "int \<Rightarrow> send_env" where
  "example_send_env now =
     \<lparr>s_mux = True, s_sent = example_wait_env, s_now1 = now, s_now2 = now,
      s_notified = True, s_isr = example_tx_done, s_txfifo_len = 128\<rparr>"

text \<open>
  Inputs of a \<^verbatim>\<open>dmx_receive\<close> during which the interrupt handlers receive the packet
  \<open>b\<close> of 26 bytes, complete at time 1000; the response is sent at time 1200.
\<close>

definition example_receive_env :: "u8 list \<Rightarrow> receive_env" where
  "example_receive_env b =
     \<lparr>r_mux = True, r_timed_out1 = False, r_sent = example_wait_env, r_timed_out2 = False,
      r_now = 1000, r_notified = True, r_err = ESP_OK,
      r_isr = \<lparr>isr_data = b, isr_head = 26, isr_flags = {DMX_FLAGS_DRIVER_HAS_DATA},
               isr_rdm_type = {DMX_FLAGS_RDM_IS_VALID, DMX_FLAGS_RDM_IS_REQUEST},
               isr_last_slot_ts = 1000\<rparr>,
      r_pd = replicate 231 0, r_send = example_send_env 1200\<rparr>"

text \<open>
  A driver that has sent a unicast GET request (PID 0x00F0, to UID 05E0:00000001) and
  finished transmitting it at time 0, with no response received since:
  \<^verbatim>\<open>DMX_FLAGS_DRIVER_SENT_LAST\<close> is set and \<^verbatim>\<open>rdm_type\<close> is what \<^verbatim>\<open>dmx_send\<close> recorded for
  the request. \<open>request_driver\<close> is the driver before that request is sent.
\<close>

definition request_driver :: dmx_driver_t where
  "request_driver =
     example_driver\<lparr>data := example_request \<lparr>man_id = 0x05E0, dev_id = 1\<rparr>
                               RDM_CC_GET_COMMAND 0x00F0,
                     rts := 0\<rparr>"

definition sent_request_driver :: dmx_driver_t where
  "sent_request_driver =
     request_driver\<lparr>tx_size := 26,
                     flags := {DMX_FLAGS_DRIVER_SENT_LAST},
                     rdm_type := {DMX_FLAGS_RDM_IS_VALID, DMX_FLAGS_RDM_IS_REQUEST},
                     last_slot_ts := 0\<rparr>"

text \<open>
  A driver whose buffer holds a GET response, as the dispatcher leaves it, the last
  slot of the request having arrived at time 1000.
\<close>

definition response_driver :: dmx_driver_t where
  "response_driver =
     example_driver\<lparr>data := example_request \<lparr>man_id = 0x0011, dev_id = 0x22334455\<rparr>
                               RDM_CC_GET_COMMAND_RESPONSE 0x00F0,
                     last_slot_ts := 1000\<rparr>"

text \<open>
  The same driver while it sends that response, and the inputs of a \<^verbatim>\<open>dmx_send\<close>
  called meanwhile at time \<open>now\<close>: the transmission ends at time \<open>done\<close>, where the
  interrupt handler clears \<^verbatim>\<open>DMX_FLAGS_DRIVER_IS_SENDING\<close>, records the time and
  notifies the task.
\<close>

definition sending_response_driver :: dmx_driver_t where
  "sending_response_driver =
     response_driver\<lparr>rts := 0, head := 0, tx_size := 26,
                      flags := {DMX_FLAGS_DRIVER_IS_SENDING, DMX_FLAGS_DRIVER_SENT_LAST},
                      rdm_type := {DMX_FLAGS_RDM_IS_VALID}\<rparr>"

definition response_sent_env :: "int \<Rightarrow> int \<Rightarrow> send_env" where
  "response_sent_env done now =
     (example_send_env now)
       \<lparr>s_sent := example_wait_env
          \<lparr>w_isr := \<lparr>isr_data = data response_driver, isr_head = 26,
                      isr_flags = {DMX_FLAGS_DRIVER_SENT_LAST},
                      isr_rdm_type = {DMX_FLAGS_RDM_IS_VALID},
                      isr_last_slot_ts = done\<rparr>\<rparr>\<rparr>"

text \<open>
  A driver with one registered callback (PID 0x0060, a parameter of three bytes) and
  one PID waiting in the queue.
\<close>

definition callback_driver :: dmx_driver_t where
  "callback_driver =
     example_driver\<lparr>rdm_cbs := [\<lparr>cb_desc = \<lparr>desc_pid = 0x0060, pdl_size = 3,
                                              data_type = RDM_DS_OTHER 0\<rparr>,
                                   cb = example_handler, cb_param = [1, 2, 3]\<rparr>],
                     rdm_queue := [0x00F0, 0], rdm_queue_size := 1\<rparr>"

text \<open>
  A handler that stores the parameter data of the request in its parameter and
  acknowledges without data, and a driver on which it is registered for PID 0x0060.
\<close>

definition store_handler :: rdm_response_handler_t where
  "store_handler h pdata param = (RDM_RESPONSE_TYPE_ACK, pdata, 0, take (length param) pdata)"

definition store_driver :: dmx_driver_t where
  "store_driver =
     example_driver\<lparr>rdm_cbs := [\<lparr>cb_desc = \<lparr>desc_pid = 0x0060, pdl_size = 3,
                                              data_type = RDM_DS_OTHER 0\<rparr>,
                                   cb = store_handler, cb_param = [1, 2, 3]\<rparr>]\<rparr>"

text \<open>
  The driver after \<^verbatim>\<open>dmx_receive\<close> has read the header of a request, before it tests
  whether the request targets this device: the call has received \<open>n > 0\<close> bytes that
  \<^verbatim>\<open>rdm_read\<close> accepts, with the header \<open>h\<close> of a request.
\<close>

definition receives_rdm ::
  "rdm_utils \<Rightarrow> dmx_driver_t \<Rightarrow> bool \<Rightarrow> nat \<Rightarrow> receive_env \<Rightarrow> nat \<Rightarrow> rdm_header_t \<Rightarrow>
   dmx_driver_t option" where
  "receives_rdm u s has_packet wait_ticks e n h =
     (case receive_wait s wait_ticks e of
        Inl x \<Rightarrow> None
      | Inr (packet_size, err, s1) \<Rightarrow>
          let s2 = (if has_packet
                    then s1\<lparr>flags := flags s1 - {DMX_FLAGS_DRIVER_HAS_DATA}\<rparr> else s1)
          in
          if packet_size = n \<and> n > 0 \<and> rdm_read u (data s2) = Some h \<and>
             (cc h = RDM_CC_DISC_COMMAND \<or> cc h = RDM_CC_GET_COMMAND \<or>
              cc h = RDM_CC_SET_COMMAND)
          then Some s2 else None)"

text \<open>
  The driver when the dispatcher of \<^verbatim>\<open>dmx_receive\<close> starts, if it starts: the call has
  received \<open>n > 0\<close> bytes that \<^verbatim>\<open>rdm_read\<close> accepts, with the header \<open>h\<close> of a request
  that targets this device.
\<close>

definition receives_request ::
  "rdm_utils \<Rightarrow> dmx_driver_t \<Rightarrow> bool \<Rightarrow> nat \<Rightarrow> receive_env \<Rightarrow> nat \<Rightarrow> rdm_header_t \<Rightarrow>
   dmx_driver_t option" where
  "receives_request u s has_packet wait_ticks e n h =
     (case receive_wait s wait_ticks e of
        Inl x \<Rightarrow> None
      | Inr (packet_size, err, s1) \<Rightarrow>
          let s2 = (if has_packet
                    then s1\<lparr>flags := flags s1 - {DMX_FLAGS_DRIVER_HAS_DATA}\<rparr> else s1)
          in
          if packet_size = n \<and> n > 0 \<and> rdm_read u (data s2) = Some h \<and>
             (cc h = RDM_CC_DISC_COMMAND \<or> cc h = RDM_CC_GET_COMMAND \<or>
              cc h = RDM_CC_SET_COMMAND) \<and>
             uid_is_target u (uid s2) (dest_uid h)
          then Some s2 else None)"

text \<open>The header \<open>example_rdm_read\<close> decodes from \<open>example_request dest c p\<close>.\<close>

definition example_header :: "rdm_uid_t \<Rightarrow> u8 \<Rightarrow> u16 \<Rightarrow> rdm_header_t" where
  "example_header dest c p =
     \<lparr>dest_uid = dest, src_uid = \<lparr>man_id = 0x0011, dev_id = 0x22334455\<rparr>, tn = 7,
      response_type = PortId 1, message_count = 0, sub_device = 0, cc = c, pid = p, pdl = 0\<rparr>"

definition broadcast_uid :: rdm_uid_t where
  "broadcast_uid = \<lparr>man_id = 0xFFFF, dev_id = 0xFFFFFFFF\<rparr>"

text \<open>The broadcast to the devices of manufacturer 1234, which \<open>example_driver\<close> is not.\<close>

definition other_vendor_uid :: rdm_uid_t where
  "other_vendor_uid = \<lparr>man_id = 0x1234, dev_id = 0xFFFFFFFF\<rparr>"

section \<open>Reachable states\<close>

text \<open>
  The invariant of a driver: the bounds the spec states, and the size of the buffer,
  which is an array of \<^verbatim>\<open>DMX_MAX_PACKET_SIZE\<close> bytes.
\<close>

definition driver_inv :: "dmx_driver_t \<Rightarrow> bool" where
  "driver_inv s =
     (pd_head s \<le> pd_size s \<and>
      num_parameters s \<le> RDM_RESPONDER_NUM_PIDS_MAX s \<and>
      - 1 \<le> head s \<and> head s \<le> int DMX_MAX_PACKET_SIZE \<and>
      1 \<le> tx_size s \<and> tx_size s \<le> int DMX_MAX_PACKET_SIZE \<and>
      length (data s) = DMX_MAX_PACKET_SIZE)"

definition tab_inv :: "dmx_driver_tab \<Rightarrow> bool" where
  "tab_inv tab = list_all (\<lambda>d. case d of None \<Rightarrow> True | Some s \<Rightarrow> driver_inv s) tab"

text \<open>
  What is assumed of the collaborators that are not among the sources: \<^verbatim>\<open>rdm_write\<close>
  writes inside the driver buffer, and the interrupt handlers leave a buffer of the
  same size and a head between -1 and \<^verbatim>\<open>DMX_MAX_PACKET_SIZE\<close> (the spec has the
  transmit handler stop at \<^verbatim>\<open>tx_size\<close> and the receive handler truncate a packet that
  would exceed the buffer).
\<close>

definition utils_ok :: "rdm_utils \<Rightarrow> bool" where
  "utils_ok u =
     (\<forall>h p b. length b = DMX_MAX_PACKET_SIZE \<longrightarrow>
        length (snd (rdm_write u h p b)) = DMX_MAX_PACKET_SIZE)"

definition isr_ok :: "isr_effect \<Rightarrow> bool" where
  "isr_ok i =
     (- 1 \<le> isr_head i \<and> isr_head i \<le> int DMX_MAX_PACKET_SIZE \<and>
      length (isr_data i) = DMX_MAX_PACKET_SIZE)"

definition wait_env_ok :: "wait_env \<Rightarrow> bool" where
  "wait_env_ok e = isr_ok (w_isr e)"

definition send_env_ok :: "send_env \<Rightarrow> bool" where
  "send_env_ok e = (wait_env_ok (s_sent e) \<and> isr_ok (s_isr e))"

definition receive_env_ok :: "receive_env \<Rightarrow> bool" where
  "receive_env_ok e = (wait_env_ok (r_sent e) \<and> isr_ok (r_isr e) \<and> send_env_ok (r_send e))"

text \<open>
  Modelled from the spec: \<^verbatim>\<open>dmx_driver_install\<close> is defined in dmx/driver.c, which is
  not among the sources. The spec has the driver state created at port install and
  the parameter records added afterwards: the driver of a newly installed port has a
  buffer of \<^verbatim>\<open>DMX_MAX_PACKET_SIZE\<close> bytes, waits for a break (\<^verbatim>\<open>head\<close> is -1), sends
  nothing, and has no parameter, no byte of the slab allocated and nothing queued. The
  spec bounds \<^verbatim>\<open>tx_size\<close> without giving its first value. The sizes of the arrays and
  what they hold are left open.
\<close>

definition dmx_driver_install :: "dmx_driver_t \<Rightarrow> bool" where
  "dmx_driver_install s =
     (length (data s) = DMX_MAX_PACKET_SIZE \<and> head s = - 1 \<and>
      1 \<le> tx_size s \<and> tx_size s \<le> int DMX_MAX_PACKET_SIZE \<and>
      flags s = {} \<and> rdm_type s = {} \<and> \<not> task_waiting s \<and>
      num_parameters s = 0 \<and> pd_head s = 0 \<and> rdm_queue_size s = 0 \<and> trace s = [])"

text \<open>
  The tables of drivers reachable by the public operations, from a table without
  drivers. Between two calls the interrupt handlers may run. A call that leaves the C
  semantics (a failed assertion, undefined behaviour) has no successor.
\<close>

inductive reachable :: "dmx_driver_tab \<Rightarrow> bool" where
  uninstalled: "reachable (replicate n None)"
| install:
    "reachable tab \<Longrightarrow> dmx_num < DMX_NUM_MAX tab \<Longrightarrow> \<not> dmx_driver_is_installed tab dmx_num \<Longrightarrow>
     dmx_driver_install s \<Longrightarrow>
     reachable (tab[dmx_num := Some s])"
| interrupt:
    "reachable tab \<Longrightarrow> dmx_driver_is_installed tab dmx_num \<Longrightarrow> isr_ok i \<Longrightarrow>
     reachable (tab[dmx_num := Some (apply_isr i (the (tab ! dmx_num)))])"
| add_new:
    "reachable tab \<Longrightarrow>
     rdm_pd_add_new tab dmx_num sub_dev dfn fmt nv handler default_value = Inr (p, tab') \<Longrightarrow>
     reachable tab'"
| add_alias:
    "reachable tab \<Longrightarrow>
     rdm_pd_add_alias tab dmx_num sub_dev dfn fmt nv handler alias offset = Inr (p, tab') \<Longrightarrow>
     reachable tab'"
| add_deterministic:
    "reachable tab \<Longrightarrow>
     rdm_pd_add_deterministic tab dmx_num sub_dev dfn fmt handler = Inr (r, tab') \<Longrightarrow>
     reachable tab'"
| update_response_handler:
    "reachable tab \<Longrightarrow>
     rdm_pd_update_response_handler tab dmx_num sub_dev pd_pid handler = Inr (r, tab') \<Longrightarrow>
     reachable tab'"
| update_callback:
    "reachable tab \<Longrightarrow>
     rdm_pd_update_callback tab dmx_num sub_dev pd_pid cbk ctx = Inr (r, tab') \<Longrightarrow>
     reachable tab'"
| set_parameter:
    "reachable tab \<Longrightarrow>
     rdm_pd_set tab dmx_num pd_pid sub_dev src sz = Inr (r, tab') \<Longrightarrow>
     reachable tab'"
| enqueue:
    "reachable tab \<Longrightarrow>
     rdm_pd_enqueue tab dmx_num pd_pid sub_dev = Inr (i, tab') \<Longrightarrow>
     reachable tab'"
| write_offset:
    "reachable tab \<Longrightarrow>
     dmx_write_offset tab dmx_num offset source sz = Inr (m, tab') \<Longrightarrow>
     reachable tab'"
| wait_sent:
    "reachable tab \<Longrightarrow> wait_env_ok we \<Longrightarrow>
     dmx_wait_sent tab dmx_num wait_ticks we = (sent, tab') \<Longrightarrow>
     reachable tab'"
| send:
    "reachable tab \<Longrightarrow> utils_ok u \<Longrightarrow> send_env_ok se \<Longrightarrow>
     dmx_send u tab dmx_num sz se = (m, tab') \<Longrightarrow>
     reachable tab'"
| receive:
    "reachable tab \<Longrightarrow> utils_ok u \<Longrightarrow> receive_env_ok re \<Longrightarrow>
     dmx_receive u tab dmx_num has_packet wait_ticks re = (m, pkt, tab') \<Longrightarrow>
     reachable tab'"

section \<open>Properties of the parameter store\<close>


lemma pd_find_Inr:
  "pd_find ps n p i = Inr j \<Longrightarrow>
     i \<le> j \<and> (j < n \<longrightarrow> j < length ps \<and> desc_pid (param_definition (ps ! j)) = p) \<and>
     (i \<le> n \<longrightarrow> j \<le> n) \<and>
     (\<forall>k. i \<le> k \<and> k < j \<longrightarrow> k < length ps \<and> desc_pid (param_definition (ps ! k)) \<noteq> p)"
proof (induction ps n p i rule: pd_find.induct)
  case (1 ps n p pdi)
  show ?case
  proof (cases "pdi < n \<and> pdi < length ps \<and> desc_pid (param_definition (ps ! pdi)) \<noteq> p")
    case True
    then have "pd_find ps n p (Suc pdi) = Inr j"
      using "1.prems" by (simp add: pd_find.simps [of ps n p pdi])
    with True have IH: "Suc pdi \<le> j \<and> (j < n \<longrightarrow> j < length ps \<and> desc_pid (param_definition (ps ! j)) = p) \<and>
     (Suc pdi \<le> n \<longrightarrow> j \<le> n) \<and>
     (\<forall>k. Suc pdi \<le> k \<and> k < j \<longrightarrow> k < length ps \<and> desc_pid (param_definition (ps ! k)) \<noteq> p)"
      using "1.IH" by blast
    have "\<And>k. pdi \<le> k \<Longrightarrow> k < j \<Longrightarrow> k < length ps \<and> desc_pid (param_definition (ps ! k)) \<noteq> p"
    proof -
      fix k assume "pdi \<le> k" "k < j"
      then consider "k = pdi" | "Suc pdi \<le> k" by linarith
      then show "k < length ps \<and> desc_pid (param_definition (ps ! k)) \<noteq> p"
        using True IH \<open>k < j\<close> by cases auto
    qed
    with IH True show ?thesis by auto
  next
    case False
    then show ?thesis
      using "1.prems" by (auto simp: pd_find.simps [of ps n p pdi] split: if_splits)
  qed
qed

lemma pd_find_hit:
  "i \<le> k \<Longrightarrow> k < n \<Longrightarrow> k < length ps \<Longrightarrow> desc_pid (param_definition (ps ! k)) = p \<Longrightarrow>
   \<exists>j. pd_find ps n p i = Inr j \<and> j \<le> k"
proof (induction ps n p i rule: pd_find.induct)
  case (1 ps n p pdi)
  show ?case
  proof (cases "desc_pid (param_definition (ps ! pdi)) = p")
    case True
    with "1.prems" show ?thesis by (simp add: pd_find.simps [of ps n p pdi])
  next
    case False
    with "1.prems" have "pdi \<noteq> k" by auto
    with "1.prems" have "Suc pdi \<le> k" by simp
    moreover have "pdi < n" "pdi < length ps" using "1.prems" by auto
    ultimately have "\<exists>j. pd_find ps n p (Suc pdi) = Inr j \<and> j \<le> k"
      using "1.IH" False "1.prems" by blast
    then show ?thesis
      using False \<open>pdi < n\<close> \<open>pdi < length ps\<close> by (simp add: pd_find.simps [of ps n p pdi])
  qed
qed

lemma pd_find_miss:
  "i \<le> n \<Longrightarrow> n \<le> length ps \<Longrightarrow>
   \<forall>k. i \<le> k \<and> k < n \<longrightarrow> desc_pid (param_definition (ps ! k)) \<noteq> p \<Longrightarrow>
   pd_find ps n p i = Inr n"
proof (induction ps n p i rule: pd_find.induct)
  case (1 ps n p pdi)
  show ?case
  proof (cases "pdi < n")
    case True
    then have "pd_find ps n p (Suc pdi) = Inr n"
      using "1.IH" "1.prems" by auto
    then show ?thesis
      using True "1.prems" by (simp add: pd_find.simps [of ps n p pdi])
  next
    case False
    with "1.prems" have "pdi = n" by simp
    then show ?thesis by (subst pd_find.simps) simp
  qed
qed



lemma pd_registered_iff:
  "pd_registered s p \<longleftrightarrow>
     (\<exists>k. k < num_parameters s \<and> k < length (params s) \<and>
          desc_pid (param_definition (params s ! k)) = p)"
proof
  assume "pd_registered s p"
  then obtain i where "i < length (take (num_parameters s) (params s))"
      "map (\<lambda>x. desc_pid (param_definition x)) (take (num_parameters s) (params s)) ! i = p"
    unfolding pd_registered_def in_set_conv_nth by auto
  then have "i < num_parameters s \<and> i < length (params s) \<and>
             desc_pid (param_definition (params s ! i)) = p"
    by simp
  then show "\<exists>k. k < num_parameters s \<and> k < length (params s) \<and>
          desc_pid (param_definition (params s ! k)) = p" ..
next
  assume "\<exists>k. k < num_parameters s \<and> k < length (params s) \<and>
          desc_pid (param_definition (params s ! k)) = p"
  then obtain k where k: "k < num_parameters s" "k < length (params s)"
      "desc_pid (param_definition (params s ! k)) = p"
    by auto
  let ?xs = "map (\<lambda>x. desc_pid (param_definition x)) (take (num_parameters s) (params s))"
  from k have "k < length ?xs" "?xs ! k = p" by simp_all
  then have "p \<in> set ?xs" using nth_mem by blast
  then show "pd_registered s p" by (simp add: pd_registered_def)
qed

lemma pd_find_registered:
  assumes "pd_registered s p"
  shows "\<exists>j. pd_find (params s) (num_parameters s) p 0 = Inr j \<and> j < num_parameters s \<and>
             j < length (params s) \<and> desc_pid (param_definition (params s ! j)) = p"
proof -
  from assms obtain k where k: "k < num_parameters s" "k < length (params s)"
      "desc_pid (param_definition (params s ! k)) = p"
    by (auto simp: pd_registered_iff)
  then obtain j where j: "pd_find (params s) (num_parameters s) p 0 = Inr j" "j \<le> k"
    using pd_find_hit [of 0 k "num_parameters s" "params s" p] by auto
  with k have "j < num_parameters s" by simp
  with pd_find_Inr [OF j(1)] j show ?thesis by auto
qed

lemma pd_find_unregistered:
  assumes "\<not> pd_registered s p" "num_parameters s \<le> length (params s)"
  shows "pd_find (params s) (num_parameters s) p 0 = Inr (num_parameters s)"
  using assms by (intro pd_find_miss) (auto simp: pd_registered_iff)

lemma rdm_pd_add_new_drv_registered:
  assumes "pd_registered s (desc_pid d)"
  shows "rdm_pd_add_new_drv s d fmt nv h dv = Inr (None, s)"
proof -
  from pd_find_registered [OF assms] obtain j where
    "pd_find (params s) (num_parameters s) (desc_pid d) 0 = Inr j" "j < length (params s)"
    "desc_pid (param_definition (params s ! j)) = desc_pid d"
    by auto
  then show ?thesis
    by (simp add: rdm_pd_add_new_drv_def params_pid_def)
qed

text \<open>
  With a full table, the add functions return null or false for a PID that is not
  registered, and change nothing.
\<close>

lemma rdm_pd_add_new_drv_full:
  assumes "num_parameters s = length (params s)" and "\<not> pd_registered s (desc_pid d)"
  shows "rdm_pd_add_new_drv s d fmt nv h dv = Inr (None, s)"
  using pd_find_unregistered [OF assms(2)] assms(1)
  by (simp add: rdm_pd_add_new_drv_def params_pid_def RDM_RESPONDER_NUM_PIDS_MAX_def)

lemma rdm_pd_add_alias_drv_full:
  assumes "num_parameters s = length (params s)" and "\<not> pd_registered s (desc_pid d)"
  shows "rdm_pd_add_alias_drv s d fmt nv h al off = Inr (None, s)"
  using pd_find_unregistered [OF assms(2)] assms(1)
  by (simp add: rdm_pd_add_alias_drv_def params_pid_def RDM_RESPONDER_NUM_PIDS_MAX_def)

lemma rdm_pd_add_deterministic_drv_full:
  assumes "num_parameters s = length (params s)" and "\<not> pd_registered s (desc_pid d)"
  shows "rdm_pd_add_deterministic_drv s d fmt h = Inr (False, s)"
  using pd_find_unregistered [OF assms(2)] assms(1)
  by (simp add: rdm_pd_add_deterministic_drv_def params_pid_def RDM_RESPONDER_NUM_PIDS_MAX_def)

lemma rdm_pd_add_new_drv_Some:
  assumes "rdm_pd_add_new_drv s d fmt nv h dv = Inr (Some p, s')"
  shows "pd_registered s' (desc_pid d)"
proof -
  from assms obtain pdi where pdi: "pd_find (params s) (num_parameters s) (desc_pid d) 0 = Inr pdi"
    by (auto simp: rdm_pd_add_new_drv_def split: sum.splits)
  with assms have len: "pdi < length (params s)"
    by (auto simp: rdm_pd_add_new_drv_def params_pid_def params_at_def
             split: sum.splits if_splits)
  from pd_find_Inr [OF pdi] have le: "pdi \<le> num_parameters s" by simp
  from assms pdi len have s': "num_parameters s' = Suc (num_parameters s)"
      "length (params s') = length (params s)"
      "desc_pid (param_definition (params s' ! pdi)) = desc_pid d"
    by (auto simp: rdm_pd_add_new_drv_def params_pid_def params_at_def Let_def
             split: sum.splits if_splits option.splits)
  with len le show ?thesis
    unfolding pd_registered_iff by (intro exI [of _ pdi]) simp
qed



lemma tab_update_same: "n < length tab \<Longrightarrow> tab ! n = Some s \<Longrightarrow> tab[n := Some s] = tab"
  by (simp add: list_update_same_conv)

lemma rdm_pd_add_new_Some:
  assumes "rdm_pd_add_new tab n sd dfn fmt nv h dv = Inr (Some p, tab')"
  shows "\<exists>d s'. dfn = Some d \<and> desc_pid d > 0 \<and> n < length tab' \<and> tab' ! n = Some s' \<and>
                pd_registered s' (desc_pid d)"
proof -
  from assms obtain d hh where d: "dfn = Some d" "h = Some hh" "desc_pid d > 0" "n < length tab"
      "sd = RDM_SUB_DEVICE_ROOT"
    by (auto simp: rdm_pd_add_new_def DMX_NUM_MAX_def split: if_splits option.splits)
  with assms obtain s' where s': "rdm_pd_add_new_drv (the (tab ! n)) d fmt nv hh dv = Inr (Some p, s')"
      "tab' = tab[n := Some s']"
    by (auto simp: rdm_pd_add_new_def split: if_splits sum.splits)
  from rdm_pd_add_new_drv_Some [OF s'(1)] d s' show ?thesis by simp
qed

lemma pd_find_first:
  assumes "i \<le> j" "j < n" "j < length ps" "desc_pid (param_definition (ps ! j)) = p"
    and "\<forall>k. i \<le> k \<and> k < j \<longrightarrow> desc_pid (param_definition (ps ! k)) \<noteq> p"
  shows "pd_find ps n p i = Inr j"
proof -
  from pd_find_hit [OF assms(1-4)] obtain j' where j': "pd_find ps n p i = Inr j'" "j' \<le> j"
    by auto
  from pd_find_Inr [OF j'(1)] j' assms(2) have "i \<le> j'" "desc_pid (param_definition (ps ! j')) = p"
    by auto
  with assms(5) j'(2) have "j' = j" by (metis le_neq_implies_less)
  with j' show ?thesis by simp
qed

lemma rdm_pd_add_deterministic_drv_True:
  assumes "rdm_pd_add_deterministic_drv s d fmt h = Inr (True, s')"
  shows "pd_find (params s') (num_parameters s') (desc_pid d) 0 = Inr (num_parameters s)"
    and "num_parameters s' = Suc (num_parameters s)"
    and "num_parameters s' \<le> length (params s')"
    and "param_data (params s' ! num_parameters s) = None"
proof -
  from assms obtain pdi where pdi: "pd_find (params s) (num_parameters s) (desc_pid d) 0 = Inr pdi"
    by (auto simp: rdm_pd_add_deterministic_drv_def split: sum.splits)
  with assms have len: "pdi < length (params s)"
    and ne: "desc_pid (param_definition (params s ! pdi)) \<noteq> desc_pid d"
    by (auto simp: rdm_pd_add_deterministic_drv_def params_pid_def params_at_def
             split: sum.splits if_splits)
  from pd_find_Inr [OF pdi] ne have eq: "pdi = num_parameters s"
    and miss: "\<forall>k. k < pdi \<longrightarrow> desc_pid (param_definition (params s ! k)) \<noteq> desc_pid d"
    by (auto simp: le_less)
  from assms pdi len ne have s': "num_parameters s' = Suc (num_parameters s)"
      "params s' = (params s)[pdi := (params s ! pdi)\<lparr>param_data := None,
                                                  param_definition := d,
                                                  param_format := fmt,
                                                  param_nvs := False,
                                                  param_response_handler := Some h,
                                                  param_callback := None\<rparr>]"
    by (auto simp: rdm_pd_add_deterministic_drv_def params_pid_def params_at_def
             split: if_splits)
  have "pd_find (params s') (num_parameters s') (desc_pid d) 0 = Inr pdi"
    using len miss by (intro pd_find_first) (simp_all add: s' eq)
  with eq show "pd_find (params s') (num_parameters s') (desc_pid d) 0 = Inr (num_parameters s)"
    by simp
  show "num_parameters s' = Suc (num_parameters s)" by (fact s'(1))
  show "num_parameters s' \<le> length (params s')" using s' len eq by simp
  show "param_data (params s' ! num_parameters s) = None" using s' len eq by simp
qed

lemma rdm_pd_get_drv_unregistered:
  "\<not> pd_registered s q \<Longrightarrow> num_parameters s \<le> length (params s) \<Longrightarrow> rdm_pd_get_drv s q = Inr None"
  by (simp add: rdm_pd_get_drv_def pd_find_unregistered)

lemma queue_search_miss:
  "\<forall>k. i \<le> k \<and> k < n \<longrightarrow> q ! k \<noteq> p \<Longrightarrow> queue_search q n p i = - 1"
proof (induction q n p i rule: queue_search.induct)
  case (1 q n p i)
  show ?case
  proof (cases "i < n")
    case True
    with "1.prems" have "q ! i \<noteq> p" by simp
    moreover have "queue_search q n p (Suc i) = - 1"
      using "1.IH" True \<open>q ! i \<noteq> p\<close> "1.prems" by simp
    ultimately show ?thesis using True by (subst queue_search.simps) simp
  next
    case False
    then show ?thesis by (subst queue_search.simps) simp
  qed
qed

lemma queue_search_hit:
  "i \<le> j \<Longrightarrow> j < n \<Longrightarrow> q ! j = p \<Longrightarrow> \<forall>k. i \<le> k \<and> k < j \<longrightarrow> q ! k \<noteq> p \<Longrightarrow>
   queue_search q n p i = int j"
proof (induction q n p i rule: queue_search.induct)
  case (1 q n p i)
  show ?case
  proof (cases "i = j")
    case True
    with "1.prems" show ?thesis by (subst queue_search.simps) simp
  next
    case False
    with "1.prems" have ne: "q ! i \<noteq> p" "i < n" "Suc i \<le> j" by auto
    then have "queue_search q n p (Suc i) = int j"
      using "1.IH" "1.prems" by simp
    with ne show ?thesis by (subst queue_search.simps) simp
  qed
qed

lemma first_index:
  assumes "p \<in> set (take n q)"
  shows "\<exists>j. j < n \<and> j < length q \<and> q ! j = p \<and> (\<forall>k<j. q ! k \<noteq> p)"
proof -
  let ?P = "\<lambda>j. j < n \<and> j < length q \<and> q ! j = p"
  from assms obtain i where "i < length (take n q)" "take n q ! i = p"
    by (auto simp: in_set_conv_nth)
  then have "?P i" by simp
  then have "?P (LEAST j. ?P j)" by (rule LeastI)
  moreover have "\<forall>k < (LEAST j. ?P j). q ! k \<noteq> p"
  proof (intro allI impI)
    fix k assume k: "k < (LEAST j. ?P j)"
    then have "\<not> ?P k" by (rule not_less_Least)
    moreover from k \<open>?P (LEAST j. ?P j)\<close> have "k < n" "k < length q" by simp_all
    ultimately show "q ! k \<noteq> p" by simp
  qed
  ultimately show ?thesis by blast
qed



lemma rdm_pd_enqueue_installed:
  assumes "n < length tab" "tab ! n = Some s" "p > 0"
  shows "rdm_pd_enqueue tab n p RDM_SUB_DEVICE_ROOT =
     (case rdm_pd_enqueue_drv s p of
        Inl e \<Rightarrow> Inl e
      | Inr (r, s') \<Rightarrow> Inr (r, tab[n := Some s']))"
  using assms
  by (simp add: rdm_pd_enqueue_def DMX_NUM_MAX_def dmx_driver_is_installed_def
        RDM_SUB_DEVICE_ROOT_def)

lemma rdm_pd_enqueue_drv_queued:
  assumes "pd_registered s p" "rdm_queue_size s < length (rdm_queue s)"
    and "j < rdm_queue_size s" "rdm_queue s ! j = p" "\<forall>k<j. rdm_queue s ! k \<noteq> p"
  shows "rdm_pd_enqueue_drv s p = Inr (int j, s)"
proof -
  from pd_find_registered [OF assms(1)] obtain pdi where
    pdi: "pd_find (params s) (num_parameters s) p 0 = Inr pdi" "pdi < num_parameters s"
    by auto
  have "queue_search (rdm_queue s) (rdm_queue_size s) p 0 = int j"
    using assms(3-5) by (intro queue_search_hit) simp_all
  with pdi assms(2) show ?thesis
    by (simp add: rdm_pd_enqueue_drv_def RDM_RESPONDER_QUEUE_SIZE_MAX_def)
qed

lemma rdm_pd_enqueue_drv_absent:
  assumes "pd_registered s p" "rdm_queue_size s < length (rdm_queue s)"
    and "p \<notin> set (take (rdm_queue_size s) (rdm_queue s))"
  shows "rdm_pd_enqueue_drv s p =
           Inr (int (rdm_queue_size s),
                s\<lparr>rdm_queue := (rdm_queue s)[rdm_queue_size s := p],
                  rdm_queue_size := Suc (rdm_queue_size s)\<rparr>)"
proof -
  from pd_find_registered [OF assms(1)] obtain pdi where
    pdi: "pd_find (params s) (num_parameters s) p 0 = Inr pdi" "pdi < num_parameters s"
    by auto
  have "\<forall>k. 0 \<le> k \<and> k < rdm_queue_size s \<longrightarrow> rdm_queue s ! k \<noteq> p"
  proof (intro allI impI)
    fix k assume "0 \<le> k \<and> k < rdm_queue_size s"
    with assms(2) have "k < length (take (rdm_queue_size s) (rdm_queue s))" by simp
    then have "take (rdm_queue_size s) (rdm_queue s) ! k \<in> set (take (rdm_queue_size s) (rdm_queue s))"
      by (rule nth_mem)
    with assms(3) \<open>0 \<le> k \<and> k < rdm_queue_size s\<close> show "rdm_queue s ! k \<noteq> p" by auto
  qed
  then have "queue_search (rdm_queue s) (rdm_queue_size s) p 0 = - 1"
    by (rule queue_search_miss)
  with pdi assms(2) show ?thesis
    by (simp add: rdm_pd_enqueue_drv_def RDM_RESPONDER_QUEUE_SIZE_MAX_def)
qed

lemma rdm_pd_enqueue_drv_full:
  assumes "pd_registered s p" "\<not> rdm_queue_size s < length (rdm_queue s)"
  shows "rdm_pd_enqueue_drv s p = Inr (- 1, s)"
proof -
  from pd_find_registered [OF assms(1)] obtain pdi where
    "pd_find (params s) (num_parameters s) p 0 = Inr pdi" "pdi < num_parameters s"
    by auto
  with assms(2) show ?thesis
    by (simp add: rdm_pd_enqueue_drv_def RDM_RESPONDER_QUEUE_SIZE_MAX_def)
qed

section \<open>Properties of the slot access\<close>


lemma dmx_write_offset_drv_Inr:
  assumes "dmx_write_offset_drv s offset src n = Inr (m, s')" "m > 0"
  shows "m = n" and "n \<le> length src" and "offset + n \<le> length (data s)"
    and "data s' = take offset (data s) @ take n src @ drop (offset + n) (data s)"
proof -
  have go: "\<not> (DMX_FLAGS_DRIVER_IS_SENDING \<in> flags s \<and> rdm_type s \<noteq> {})"
  proof
    assume "DMX_FLAGS_DRIVER_IS_SENDING \<in> flags s \<and> rdm_type s \<noteq> {}"
    then have "dmx_write_offset_drv s offset src n = Inr (0, s)"
      by (simp add: dmx_write_offset_drv_def)
    with assms show False by simp
  qed
  from assms go have src: "n \<le> length src"
    by (auto simp: dmx_write_offset_drv_def memcpy_src_def Let_def split: if_splits)
  from assms go src have fit: "offset + n \<le> length (data s)"
    by (auto simp: dmx_write_offset_drv_def memcpy_src_def mem_write_def Let_def split: if_splits)
  from assms go src fit show "m = n"
    by (auto simp: dmx_write_offset_drv_def memcpy_src_def mem_write_def Let_def split: if_splits)
  from assms go src fit
  show "data s' = take offset (data s) @ take n src @ drop (offset + n) (data s)"
    by (auto simp: dmx_write_offset_drv_def memcpy_src_def mem_write_def Let_def split: if_splits)
  show "n \<le> length src" by (fact src)
  show "offset + n \<le> length (data s)" by (fact fit)
qed

lemma clamp_min:
  assumes "offset < 513" "offset + n \<le> 513"
    and "n = (if size_add sz offset > 513 then 513 - offset else sz)"
  shows "n = min sz (513 - offset)"
proof (cases "size_add sz offset > 513")
  case True
  have "sz + offset > 513"
  proof (rule ccontr)
    assume "\<not> sz + offset > 513"
    then have "sz + offset < 2 ^ 32" by simp
    then have "size_add sz offset = sz + offset" by (simp add: size_add_def)
    with True \<open>\<not> sz + offset > 513\<close> show False by simp
  qed
  with True assms show ?thesis by simp
next
  case False
  with assms show ?thesis by simp
qed

section \<open>Properties of the bus engine\<close>


lemmas model_defs = dmx_receive_drv_def receive_wait_def dmx_wait_sent_drv_def rdm_dispatch_def
  rdm_run_handler_def dmx_send_drv_def send_packet_def send_start_def send_rdm_type_def
  send_spacing_def is_rdm_response_def is_rdm_sc_def apply_isr_def task_notify_wait_def
  pd_emplace_word_def
  dmx_send_def dmx_receive_def dmx_driver_is_enabled_def

lemmas const_defs = RDM_SC_def RDM_SUB_SC_def RDM_PREAMBLE_def RDM_DELIMITER_def
  RDM_CC_DISC_COMMAND_def RDM_CC_DISC_COMMAND_RESPONSE_def RDM_CC_GET_COMMAND_def
  RDM_CC_GET_COMMAND_RESPONSE_def RDM_CC_SET_COMMAND_def RDM_CC_SET_COMMAND_RESPONSE_def
  RDM_PID_DISC_UNIQUE_BRANCH_def RDM_NR_UNKNOWN_PID_def RDM_NR_HARDWARE_FAULT_def
  RDM_CONTROLLER_RESPONSE_LOST_TIMEOUT_def RDM_RESPONDER_RESPONSE_LOST_TIMEOUT_def
  RDM_DISCOVERY_NO_RESPONSE_PACKET_SPACING_def RDM_REQUEST_NO_RESPONSE_PACKET_SPACING_def
  RDM_BROADCAST_PACKET_SPACING_def RDM_RESPOND_TO_REQUEST_PACKET_SPACING_def
  ESP_OK_def ESP_ERR_TIMEOUT_def DMX_MAX_PACKET_SIZE_def portMAX_DELAY_def

lemmas instance_defs = example_utils_def example_rdm_read_def example_rdm_read_pd_def
  example_rdm_write_def example_uidcpy_def example_uid_bytes_def example_uid_is_broadcast_def
  example_uid_is_target_def example_request_def example_wait_env_def example_send_env_def
  example_receive_env_def example_driver_def example_handler_def request_driver_def
  sent_request_driver_def response_driver_def callback_driver_def example_tx_done_def
  sending_response_driver_def response_sent_env_def store_handler_def store_driver_def
  word_cat_eq push_bit_eq_mult drop_bit_eq_div

lemma dmx_send_drv_late_response:
  assumes "dmx_wait_sent_drv s portMAX_DELAY (s_sent e) = (sent, s1)"
    and "is_rdm_response (data s1)"
    and "RDM_RESPONDER_RESPONSE_LOST_TIMEOUT \<le> s_now1 e - last_slot_ts s1"
  shows "dmx_send_drv u s sz e = (0, if s_mux e then s1 else s)"
  using assms by (simp add: dmx_send_drv_def Let_def)

lemma dmx_wait_sent_drv_idle:
  "DMX_FLAGS_DRIVER_IS_SENDING \<notin> flags s \<Longrightarrow> snd (dmx_wait_sent_drv s w e) = s"
  by (simp add: dmx_wait_sent_drv_def)


lemma rdm_type_eq_disc_response:
  "(rt = {DMX_FLAGS_RDM_IS_VALID, DMX_FLAGS_RDM_IS_DISC_UNIQUE_BRANCH}) =
     (DMX_FLAGS_RDM_IS_VALID \<in> rt \<and> DMX_FLAGS_RDM_IS_DISC_UNIQUE_BRANCH \<in> rt \<and>
      DMX_FLAGS_RDM_IS_REQUEST \<notin> rt \<and> DMX_FLAGS_RDM_IS_BROADCAST \<notin> rt)"
proof
  assume "rt = {DMX_FLAGS_RDM_IS_VALID, DMX_FLAGS_RDM_IS_DISC_UNIQUE_BRANCH}"
  then show "DMX_FLAGS_RDM_IS_VALID \<in> rt \<and> DMX_FLAGS_RDM_IS_DISC_UNIQUE_BRANCH \<in> rt \<and>
      DMX_FLAGS_RDM_IS_REQUEST \<notin> rt \<and> DMX_FLAGS_RDM_IS_BROADCAST \<notin> rt"
    by simp
next
  assume a: "DMX_FLAGS_RDM_IS_VALID \<in> rt \<and> DMX_FLAGS_RDM_IS_DISC_UNIQUE_BRANCH \<in> rt \<and>
      DMX_FLAGS_RDM_IS_REQUEST \<notin> rt \<and> DMX_FLAGS_RDM_IS_BROADCAST \<notin> rt"
  show "rt = {DMX_FLAGS_RDM_IS_VALID, DMX_FLAGS_RDM_IS_DISC_UNIQUE_BRANCH}"
  proof (rule set_eqI)
    fix x show "x \<in> rt \<longleftrightarrow> x \<in> {DMX_FLAGS_RDM_IS_VALID, DMX_FLAGS_RDM_IS_DISC_UNIQUE_BRANCH}"
      using a by (cases x) auto
  qed
qed

lemma rdm_type_eq_request:
  "(rt = {DMX_FLAGS_RDM_IS_REQUEST}) =
     (DMX_FLAGS_RDM_IS_REQUEST \<in> rt \<and> DMX_FLAGS_RDM_IS_VALID \<notin> rt \<and>
      DMX_FLAGS_RDM_IS_DISC_UNIQUE_BRANCH \<notin> rt \<and> DMX_FLAGS_RDM_IS_BROADCAST \<notin> rt)"
proof
  assume "rt = {DMX_FLAGS_RDM_IS_REQUEST}"
  then show "DMX_FLAGS_RDM_IS_REQUEST \<in> rt \<and> DMX_FLAGS_RDM_IS_VALID \<notin> rt \<and>
      DMX_FLAGS_RDM_IS_DISC_UNIQUE_BRANCH \<notin> rt \<and> DMX_FLAGS_RDM_IS_BROADCAST \<notin> rt"
    by simp
next
  assume a: "DMX_FLAGS_RDM_IS_REQUEST \<in> rt \<and> DMX_FLAGS_RDM_IS_VALID \<notin> rt \<and>
      DMX_FLAGS_RDM_IS_DISC_UNIQUE_BRANCH \<notin> rt \<and> DMX_FLAGS_RDM_IS_BROADCAST \<notin> rt"
  show "rt = {DMX_FLAGS_RDM_IS_REQUEST}"
  proof (rule set_eqI)
    fix x show "x \<in> rt \<longleftrightarrow> x \<in> {DMX_FLAGS_RDM_IS_REQUEST}"
      using a by (cases x) auto
  qed
qed

lemmas eval_defs = model_defs const_defs instance_defs dmx_driver_is_installed_def
  DMX_NUM_MAX_def Let_def

lemma send_spacing_sent_request:
  "DMX_FLAGS_DRIVER_SENT_LAST \<in> flags s \<Longrightarrow>
   rdm_type s = {DMX_FLAGS_RDM_IS_VALID, DMX_FLAGS_RDM_IS_REQUEST} \<Longrightarrow> send_spacing s = 0"
  by (auto simp: send_spacing_def)


lemma rdm_writes_append: "rdm_writes (xs @ ys) = rdm_writes xs @ rdm_writes ys"
  by (induction xs rule: rdm_writes.induct) simp_all

lemma send_start_rdm_writes: "rdm_writes (trace (send_start s rt n)) = rdm_writes (trace s)"
  by (simp add: send_start_def Let_def rdm_writes_append)

lemma send_packet_rdm_writes:
  "rdm_writes (trace (snd (send_packet u s c sz e))) = rdm_writes (trace s)"
  by (simp add: send_packet_def Let_def send_start_rdm_writes rdm_writes_append)

lemma task_notify_wait_fields:
  "trace (task_notify_wait i s) = trace s @ [TaskNotifyWait]"
  "rdm_cbs (task_notify_wait i s) = rdm_cbs s"
  "data (task_notify_wait i s) = isr_data i"
  "head (task_notify_wait i s) = isr_head i"
  "flags (task_notify_wait i s) = isr_flags i"
  "tx_size (task_notify_wait i s) = tx_size s"
  "pd_head (task_notify_wait i s) = pd_head s"
  "pd (task_notify_wait i s) = pd s"
  "params (task_notify_wait i s) = params s"
  "num_parameters (task_notify_wait i s) = num_parameters s"
  by (simp_all add: task_notify_wait_def apply_isr_def)

lemma dmx_wait_sent_drv_rdm_writes:
  "rdm_writes (trace (snd (dmx_wait_sent_drv s w e))) = rdm_writes (trace s)"
  by (simp add: dmx_wait_sent_drv_def task_notify_wait_fields rdm_writes_append)

lemma dmx_send_drv_rdm_writes:
  "rdm_writes (trace (snd (dmx_send_drv u s sz e))) = rdm_writes (trace s)"
proof -
  obtain sent s1 where w: "dmx_wait_sent_drv s portMAX_DELAY (s_sent e) = (sent, s1)"
    by (cases "dmx_wait_sent_drv s portMAX_DELAY (s_sent e)")
  with dmx_wait_sent_drv_rdm_writes [of s portMAX_DELAY "s_sent e"]
  have s1: "rdm_writes (trace s1) = rdm_writes (trace s)" by simp
  show ?thesis
    unfolding dmx_send_drv_def w
    by (simp add: Let_def send_packet_rdm_writes task_notify_wait_fields rdm_writes_append s1)
qed

lemma send_start_rdm_cbs: "rdm_cbs (send_start s rt n) = rdm_cbs s"
  by (simp add: send_start_def Let_def)

lemma send_packet_rdm_cbs: "rdm_cbs (snd (send_packet u s c sz e)) = rdm_cbs s"
  by (simp add: send_packet_def Let_def send_start_rdm_cbs)

lemma dmx_wait_sent_drv_rdm_cbs: "rdm_cbs (snd (dmx_wait_sent_drv s w e)) = rdm_cbs s"
  by (simp add: dmx_wait_sent_drv_def task_notify_wait_fields)

lemma dmx_send_drv_rdm_cbs: "rdm_cbs (snd (dmx_send_drv u s sz e)) = rdm_cbs s"
proof -
  obtain sent s1 where w: "dmx_wait_sent_drv s portMAX_DELAY (s_sent e) = (sent, s1)"
    by (cases "dmx_wait_sent_drv s portMAX_DELAY (s_sent e)")
  with dmx_wait_sent_drv_rdm_cbs [of s portMAX_DELAY "s_sent e"]
  have s1: "rdm_cbs s1 = rdm_cbs s" by simp
  show ?thesis
    unfolding dmx_send_drv_def w
    by (simp add: Let_def send_packet_rdm_cbs task_notify_wait_fields s1)
qed

lemma dmx_receive_drv_rdm:
  assumes "receives_rdm u s has_packet wait_ticks e n h = Some s2"
  shows "fst (dmx_receive_drv u s has_packet wait_ticks e) = n"
    and "snd (snd (dmx_receive_drv u s has_packet wait_ticks e)) =
           (if uid_is_target u (uid s2) (dest_uid h) then rdm_dispatch u s2 h e else s2)"
proof -
  from assms obtain err s1 where w: "receive_wait s wait_ticks e = Inr (n, err, s1)"
    by (auto simp: receives_rdm_def Let_def split: sum.splits if_splits)
  from assms w have s2: "s2 = (if has_packet
                    then s1\<lparr>flags := flags s1 - {DMX_FLAGS_DRIVER_HAS_DATA}\<rparr> else s1)"
    and n: "n > 0" and rd: "rdm_read u (data s2) = Some h"
    and req: "cc h = RDM_CC_DISC_COMMAND \<or> cc h = RDM_CC_GET_COMMAND \<or>
              cc h = RDM_CC_SET_COMMAND"
    by (auto simp: receives_rdm_def Let_def split: if_splits)
  have rd': "rdm_read u (data s1) = Some h" and u: "uid s2 = uid s1"
    using rd by (simp_all add: s2 split: if_splits)
  have req': "\<not> (cc h \<noteq> RDM_CC_DISC_COMMAND \<and> cc h \<noteq> RDM_CC_GET_COMMAND \<and>
                  cc h \<noteq> RDM_CC_SET_COMMAND)"
    using req by blast
  show "fst (dmx_receive_drv u s has_packet wait_ticks e) = n"
    using n rd' req' by (cases has_packet) (auto simp: dmx_receive_drv_def w Let_def)
  show "snd (snd (dmx_receive_drv u s has_packet wait_ticks e)) =
           (if uid_is_target u (uid s2) (dest_uid h) then rdm_dispatch u s2 h e else s2)"
    using n rd' req' u by (cases has_packet) (auto simp: dmx_receive_drv_def w Let_def s2)
qed

lemma dmx_receive_drv_dispatch:
  assumes "receives_request u s has_packet wait_ticks e n h = Some s2"
  shows "fst (dmx_receive_drv u s has_packet wait_ticks e) = n"
    and "snd (snd (dmx_receive_drv u s has_packet wait_ticks e)) = rdm_dispatch u s2 h e"
proof -
  from assms obtain err s1 where w: "receive_wait s wait_ticks e = Inr (n, err, s1)"
    by (auto simp: receives_request_def Let_def split: sum.splits if_splits)
  from assms w have s2: "s2 = (if has_packet
                    then s1\<lparr>flags := flags s1 - {DMX_FLAGS_DRIVER_HAS_DATA}\<rparr> else s1)"
    and n: "n > 0" and rd: "rdm_read u (data s2) = Some h"
    and req: "cc h = RDM_CC_DISC_COMMAND \<or> cc h = RDM_CC_GET_COMMAND \<or>
              cc h = RDM_CC_SET_COMMAND"
    and tgt: "uid_is_target u (uid s2) (dest_uid h)"
    by (auto simp: receives_request_def Let_def split: if_splits)
  have rd': "rdm_read u (data s1) = Some h" and tgt': "uid_is_target u (uid s1) (dest_uid h)"
    using rd tgt by (simp_all add: s2 split: if_splits)
  have req': "\<not> (cc h \<noteq> RDM_CC_DISC_COMMAND \<and> cc h \<noteq> RDM_CC_GET_COMMAND \<and>
                  cc h \<noteq> RDM_CC_SET_COMMAND)"
    using req by blast
  show "fst (dmx_receive_drv u s has_packet wait_ticks e) = n"
    using n rd' tgt' req' by (cases has_packet) (auto simp: dmx_receive_drv_def w Let_def)
  show "snd (snd (dmx_receive_drv u s has_packet wait_ticks e)) = rdm_dispatch u s2 h e"
    using n rd' tgt' req' by (cases has_packet) (auto simp: dmx_receive_drv_def w Let_def s2)
qed

lemma dmx_receive_enabled:
  assumes "dmx_driver_is_enabled tab dmx_num" "tab ! dmx_num = Some s"
  shows "dmx_receive u tab dmx_num has_packet wait_ticks e =
           (fst (dmx_receive_drv u s has_packet wait_ticks e),
            fst (snd (dmx_receive_drv u s has_packet wait_ticks e)),
            tab[dmx_num := Some (snd (snd (dmx_receive_drv u s has_packet wait_ticks e)))])"
  using assms
  by (simp add: dmx_receive_def dmx_driver_is_enabled_def dmx_driver_is_installed_def
        split_def Let_def)

lemma rdm_run_handler_cases:
  "rdm_run_handler u s h pd0 = (cb_num, rt, pd1, pdl1, s1) \<Longrightarrow>
     cb_num = cb_find (rdm_cbs s) (pid h) 0 \<and> data s1 = data s \<and> head s1 = head s \<and>
     tx_size s1 = tx_size s \<and> flags s1 = flags s \<and> rts s1 = rts s \<and> uid s1 = uid s \<and>
     is_enabled s1 = is_enabled s \<and> length (rdm_cbs s1) = length (rdm_cbs s) \<and>
     trace s1 = trace s @ (if cb_num < length (rdm_cbs s) then [ResponseHandler cb_num] else [])"
  by (auto simp: rdm_run_handler_def Let_def split_def split: if_splits)


text \<open>
  What the dispatcher gets from the handler: the index of the first callback
  registered for the PID, and what that callback returns for the header, the
  parameter data of the request and its parameter.
\<close>

lemma rdm_run_handler_found:
  assumes "cb_find (rdm_cbs s) (pid h) 0 = i" and "i < length (rdm_cbs s)"
    and "cb (rdm_cbs s ! i) h (if pdl h > 0 then rdm_read_pd u (data s) pd0 else pd0)
           (cb_param (rdm_cbs s ! i)) = (rt, pd1, pdl1, param')"
  shows "rdm_run_handler u s h pd0 =
           (i, rt, pd1, pdl1,
            s\<lparr>rdm_cbs := (rdm_cbs s)[i := (rdm_cbs s ! i)\<lparr>cb_param := param'\<rparr>],
              trace := trace s @ [ResponseHandler i]\<rparr>)"
  using assms by (simp add: rdm_run_handler_def Let_def)

lemma rdm_run_handler_missing:
  assumes "cb_find (rdm_cbs s) (pid h) 0 = i" and "\<not> i < length (rdm_cbs s)"
  shows "rdm_run_handler u s h pd0 = (i, RDM_RESPONSE_TYPE_NONE, pd0, 0, s)"
  using assms by (simp add: rdm_run_handler_def Let_def)

lemma cb_find_le: "cb_find cs p i \<le> i + length cs"
proof (induction cs arbitrary: i)
  case Nil
  show ?case by simp
next
  case (Cons a cs)
  from Cons [of "Suc i"] show ?case by simp
qed

lemma rdm_dispatch_suppressed:
  assumes "rdm_run_handler u s h (r_pd e) = (cb_num, rt, pd1, pdl1, s1)"
    and "uid_is_broadcast u (dest_uid h)"
    and "\<not> (cc h = RDM_CC_DISC_COMMAND \<and> pid h = RDM_PID_DISC_UNIQUE_BRANCH)"
  shows "rdm_dispatch u s h e = s1"
  using assms by (simp add: rdm_dispatch_def)

lemma rdm_dispatch_response:
  assumes run: "rdm_run_handler u s h (r_pd e) = (cb_num, rt, pd1, pdl1, s1)"
    and nosup: "\<not> (uid_is_broadcast u (dest_uid h) \<and>
                 \<not> (cc h = RDM_CC_DISC_COMMAND \<and> pid h = RDM_PID_DISC_UNIQUE_BRANCH))"
    and nodisc: "\<not> (rt = RDM_RESPONSE_TYPE_NONE \<and> cc h = RDM_CC_DISC_COMMAND)"
  shows "rdm_writes (trace (rdm_dispatch u s h e)) =
           rdm_writes (trace s) @
           [(h\<lparr>dest_uid := src_uid h, src_uid := uid s,
               response_type := ResponseType rt, message_count := 0, cc := cc h + 1,
               pdl := (if (cb_num = length (rdm_cbs s) \<and> cc h \<noteq> RDM_CC_DISC_COMMAND) \<or>
                          rt = RDM_RESPONSE_TYPE_NONE \<or> rt = RDM_RESPONSE_TYPE_INVALID
                       then 2 else pdl1)\<rparr>,
             if cb_num = length (rdm_cbs s) \<and> cc h \<noteq> RDM_CC_DISC_COMMAND
             then fst (pd_emplace_word pd1 RDM_NR_UNKNOWN_PID)
             else if rt = RDM_RESPONSE_TYPE_NONE \<or> rt = RDM_RESPONSE_TYPE_INVALID
             then fst (pd_emplace_word pd1 RDM_NR_HARDWARE_FAULT)
             else pd1)]"
    and "rdm_cbs (rdm_dispatch u s h e) = rdm_cbs s1"
proof -
  note f = rdm_run_handler_cases [OF run]
  from f have tr: "rdm_writes (trace s1) = rdm_writes (trace s)"
    by (simp add: rdm_writes_append)
  from f have len: "length (rdm_cbs s1) = length (rdm_cbs s)" by simp
  show "rdm_writes (trace (rdm_dispatch u s h e)) =
           rdm_writes (trace s) @
           [(h\<lparr>dest_uid := src_uid h, src_uid := uid s,
               response_type := ResponseType rt, message_count := 0, cc := cc h + 1,
               pdl := (if (cb_num = length (rdm_cbs s) \<and> cc h \<noteq> RDM_CC_DISC_COMMAND) \<or>
                          rt = RDM_RESPONSE_TYPE_NONE \<or> rt = RDM_RESPONSE_TYPE_INVALID
                       then 2 else pdl1)\<rparr>,
             if cb_num = length (rdm_cbs s) \<and> cc h \<noteq> RDM_CC_DISC_COMMAND
             then fst (pd_emplace_word pd1 RDM_NR_UNKNOWN_PID)
             else if rt = RDM_RESPONSE_TYPE_NONE \<or> rt = RDM_RESPONSE_TYPE_INVALID
             then fst (pd_emplace_word pd1 RDM_NR_HARDWARE_FAULT)
             else pd1)]"
    using nosup nodisc tr
    by (cases "is_enabled s1")
      (auto simp: rdm_dispatch_def run Let_def split_def pd_emplace_word_def
         dmx_send_drv_rdm_writes rdm_writes_append len)
  show "rdm_cbs (rdm_dispatch u s h e) = rdm_cbs s1"
    using nosup nodisc
    by (cases "is_enabled s1")
      (auto simp: rdm_dispatch_def run Let_def split_def dmx_send_drv_rdm_cbs)
qed


lemmas eval_rx_defs = eval_defs rdm_type_eq_disc_response rdm_type_eq_request
  receives_request_def receives_rdm_def example_header_def broadcast_uid_def
  other_vendor_uid_def

section \<open>The invariant is preserved\<close>


lemmas inv_defs = driver_inv_def pd_size_def RDM_RESPONDER_NUM_PIDS_MAX_def

lemma mem_write_length: "mem_write m off bs = Inr m' \<Longrightarrow> length m' = length m"
  by (auto simp: mem_write_def split: if_splits)

lemma pd_find_free_slot:
  assumes "pd_find ps n p 0 = Inr pdi" "pdi < length ps"
    and "desc_pid (param_definition (ps ! pdi)) \<noteq> p"
  shows "pdi = n"
proof -
  from pd_find_Inr [OF assms(1)] have "pdi \<le> n"
    and "pdi < n \<longrightarrow> desc_pid (param_definition (ps ! pdi)) = p"
    by simp_all
  with assms(3) show ?thesis by auto
qed

lemma driver_inv_add_new:
  assumes "driver_inv s" "rdm_pd_add_new_drv s d fmt nv h dv = Inr (p, s')"
  shows "driver_inv s'"
proof (cases "s' = s")
  case True
  with assms show ?thesis by simp
next
  case False
  from assms(2) obtain pdi where pdi: "pd_find (params s) (num_parameters s) (desc_pid d) 0 = Inr pdi"
    by (auto simp: rdm_pd_add_new_drv_def split: sum.splits)
  with assms(2) False have len: "pdi < length (params s)"
    by (auto simp: rdm_pd_add_new_drv_def params_pid_def RDM_RESPONDER_NUM_PIDS_MAX_def
             split: sum.splits if_splits)
  from assms(2) pdi len False have ne: "desc_pid (param_definition (params s ! pdi)) \<noteq> desc_pid d"
    and fit: "(pd_head s + unat (pdl_size d)) mod 2 ^ 32 \<le> pd_size s"
    by (auto simp: rdm_pd_add_new_drv_def params_pid_def split: if_splits)
  from pd_find_free_slot [OF pdi len ne] have eq: "pdi = num_parameters s" .
  from assms(2) pdi len ne fit obtain m where
    m: "mem_write (pd s) (pd_head s) m = Inr (pd s')"
    and s': "pd_head s' = (pd_head s + unat (pdl_size d)) mod 2 ^ 32"
      "num_parameters s' = Suc (num_parameters s)"
      "length (params s') = length (params s)"
      "head s' = head s" "tx_size s' = tx_size s" "data s' = data s"
    by (auto simp: rdm_pd_add_new_drv_def params_pid_def params_at_def Let_def
             RDM_RESPONDER_NUM_PIDS_MAX_def
             split: if_splits sum.splits option.splits)
  from mem_write_length [OF m] have "length (pd s') = length (pd s)" .
  with assms(1) s' fit len eq show ?thesis
    by (simp add: inv_defs)
qed

lemma driver_inv_add_alias:
  assumes "driver_inv s" "rdm_pd_add_alias_drv s d fmt nv h alias offset = Inr (p, s')"
  shows "driver_inv s'"
proof (cases "s' = s")
  case True
  with assms show ?thesis by simp
next
  case False
  from assms(2) obtain pdi where pdi: "pd_find (params s) (num_parameters s) (desc_pid d) 0 = Inr pdi"
    by (auto simp: rdm_pd_add_alias_drv_def split: sum.splits)
  with assms(2) False have len: "pdi < length (params s)"
    by (auto simp: rdm_pd_add_alias_drv_def params_pid_def RDM_RESPONDER_NUM_PIDS_MAX_def
             split: sum.splits if_splits)
  from assms(2) pdi len False have ne: "desc_pid (param_definition (params s ! pdi)) \<noteq> desc_pid d"
    by (auto simp: rdm_pd_add_alias_drv_def params_pid_def split: if_splits)
  from pd_find_free_slot [OF pdi len ne] have eq: "pdi = num_parameters s" .
  from assms(2) pdi len ne False have s': "pd_head s' = pd_head s" "pd s' = pd s"
      "num_parameters s' = Suc (num_parameters s)"
      "length (params s') = length (params s)"
      "head s' = head s" "tx_size s' = tx_size s" "data s' = data s"
    by (auto simp: rdm_pd_add_alias_drv_def params_pid_def params_at_def Let_def
             RDM_RESPONDER_NUM_PIDS_MAX_def
             split: if_splits sum.splits option.splits)
  with assms(1) len eq show ?thesis
    by (simp add: inv_defs)
qed

lemma driver_inv_add_deterministic:
  assumes "driver_inv s" "rdm_pd_add_deterministic_drv s d fmt h = Inr (r, s')"
  shows "driver_inv s'"
proof (cases "s' = s")
  case True
  with assms show ?thesis by simp
next
  case False
  from assms(2) obtain pdi where pdi: "pd_find (params s) (num_parameters s) (desc_pid d) 0 = Inr pdi"
    by (auto simp: rdm_pd_add_deterministic_drv_def split: sum.splits)
  with assms(2) False have len: "pdi < length (params s)"
    by (auto simp: rdm_pd_add_deterministic_drv_def params_pid_def
             RDM_RESPONDER_NUM_PIDS_MAX_def split: sum.splits if_splits)
  from assms(2) pdi len False have ne: "desc_pid (param_definition (params s ! pdi)) \<noteq> desc_pid d"
    by (auto simp: rdm_pd_add_deterministic_drv_def params_pid_def split: if_splits)
  from pd_find_free_slot [OF pdi len ne] have eq: "pdi = num_parameters s" .
  from assms(2) pdi len ne False have s': "pd_head s' = pd_head s" "pd s' = pd s"
      "num_parameters s' = Suc (num_parameters s)"
      "length (params s') = length (params s)"
      "head s' = head s" "tx_size s' = tx_size s" "data s' = data s"
    by (auto simp: rdm_pd_add_deterministic_drv_def params_pid_def params_at_def Let_def
             RDM_RESPONDER_NUM_PIDS_MAX_def split: if_splits)
  with assms(1) len eq show ?thesis
    by (simp add: inv_defs)
qed

lemma driver_inv_update_response_handler:
  "driver_inv s \<Longrightarrow> rdm_pd_update_response_handler_drv s p h = Inr (r, s') \<Longrightarrow> driver_inv s'"
  by (auto simp: rdm_pd_update_response_handler_drv_def inv_defs split: sum.splits if_splits)

lemma driver_inv_update_callback:
  "driver_inv s \<Longrightarrow> rdm_pd_update_callback_drv s p cbk ctx = Inr (r, s') \<Longrightarrow> driver_inv s'"
  by (auto simp: rdm_pd_update_callback_drv_def inv_defs split: sum.splits if_splits)

lemma driver_inv_set:
  "driver_inv s \<Longrightarrow> rdm_pd_set_drv s p src sz = Inr (r, s') \<Longrightarrow> driver_inv s'"
  by (auto simp: rdm_pd_set_drv_def inv_defs dest: mem_write_length
           split: sum.splits if_splits option.splits pd_addr.splits)

lemma driver_inv_enqueue:
  "driver_inv s \<Longrightarrow> rdm_pd_enqueue_drv s p = Inr (r, s') \<Longrightarrow> driver_inv s'"
  by (auto simp: rdm_pd_enqueue_drv_def inv_defs Let_def split: sum.splits if_splits)


lemma driver_inv_apply_isr: "driver_inv s \<Longrightarrow> isr_ok i \<Longrightarrow> driver_inv (apply_isr i s)"
  by (simp add: apply_isr_def isr_ok_def inv_defs)

lemma driver_inv_ghost:
  "driver_inv (s\<lparr>flags := f, task_waiting := w, trace := t\<rparr>) = driver_inv s"
  "driver_inv (s\<lparr>task_waiting := w\<rparr>) = driver_inv s"
  "driver_inv (s\<lparr>flags := f\<rparr>) = driver_inv s"
  "driver_inv (s\<lparr>trace := t\<rparr>) = driver_inv s"
  "driver_inv (s\<lparr>flags := f, trace := t\<rparr>) = driver_inv s"
  by (simp_all add: inv_defs)

lemma driver_inv_task_notify_wait:
  "driver_inv s \<Longrightarrow> isr_ok i \<Longrightarrow> driver_inv (task_notify_wait i s)"
  unfolding task_notify_wait_def by (simp add: driver_inv_apply_isr driver_inv_ghost)

lemma driver_inv_wait_sent:
  "driver_inv s \<Longrightarrow> wait_env_ok e \<Longrightarrow> driver_inv (snd (dmx_wait_sent_drv s w e))"
  by (simp add: dmx_wait_sent_drv_def wait_env_ok_def driver_inv_task_notify_wait
        driver_inv_ghost)

lemma driver_inv_send_start:
  assumes "driver_inv s"
  shows "driver_inv (send_start s rt n)"
proof -
  from assms have tx: "1 \<le> tx_size s" "tx_size s \<le> 513"
    by (simp_all add: inv_defs DMX_MAX_PACKET_SIZE_def)
  then have "tx_size s mod 2 ^ 32 = tx_size s" by simp
  with tx have "int (min n (nat (tx_size s mod 2 ^ 32))) \<le> 513" by simp
  with assms show ?thesis
    by (simp add: send_start_def Let_def inv_defs DMX_MAX_PACKET_SIZE_def)
qed

lemma driver_inv_send_packet:
  assumes "driver_inv s"
  shows "driver_inv (snd (send_packet u s c sz e))"
  unfolding send_packet_def Let_def snd_conv
  by (rule driver_inv_send_start) (use assms in \<open>simp add: inv_defs DMX_MAX_PACKET_SIZE_def\<close>)

lemma driver_inv_send:
  assumes "driver_inv s" and "send_env_ok e"
  shows "driver_inv (snd (dmx_send_drv u s sz e))"
proof -
  from assms(2) have ok: "wait_env_ok (s_sent e)" "isr_ok (s_isr e)"
    by (simp_all add: send_env_ok_def)
  obtain sent s1 where w: "dmx_wait_sent_drv s portMAX_DELAY (s_sent e) = (sent, s1)"
    by (cases "dmx_wait_sent_drv s portMAX_DELAY (s_sent e)")
  with driver_inv_wait_sent [OF assms(1) ok(1), of portMAX_DELAY]
  have s1: "driver_inv s1" by simp
  have s2: "driver_inv (task_notify_wait (s_isr e) (s1\<lparr>flags := f, task_waiting := b, trace := t\<rparr>))"
    for f b t
    using s1 ok(2) by (simp add: driver_inv_task_notify_wait driver_inv_ghost)
  show ?thesis
    unfolding dmx_send_drv_def w
    using assms s1 s2
    by (simp add: Let_def driver_inv_send_packet driver_inv_ghost)
qed

lemma driver_inv_run_handler:
  "rdm_run_handler u s h pd0 = (cb_num, rt, pd1, pdl1, s1) \<Longrightarrow> driver_inv s \<Longrightarrow> driver_inv s1"
  by (auto simp: rdm_run_handler_def Let_def split_def inv_defs split: if_splits)

lemma driver_inv_dispatch:
  assumes "utils_ok u" "driver_inv s" "send_env_ok (r_send e)"
  shows "driver_inv (rdm_dispatch u s h e)"
proof -
  obtain cb_num rt pd1 pdl1 s1 where
    run: "rdm_run_handler u s h (r_pd e) = (cb_num, rt, pd1, pdl1, s1)"
    by (metis prod_cases5)
  from driver_inv_run_handler [OF run assms(2)] have s1: "driver_inv s1" .
  have wr: "driver_inv (s1\<lparr>data := snd (rdm_write u hh pp (data s1)), trace := t\<rparr>)" for hh pp t
    using s1 assms(1) by (simp add: inv_defs utils_ok_def)
  show ?thesis
    using s1 wr assms(3)
    by (simp add: rdm_dispatch_def run Let_def split_def driver_inv_send)
qed

lemma driver_inv_receive_wait:
  assumes "driver_inv s" "receive_env_ok e"
  shows "case receive_wait s w e of Inl (n, s') \<Rightarrow> driver_inv s'
         | Inr (n, err, s') \<Rightarrow> driver_inv s'"
proof -
  from assms(2) have ok: "wait_env_ok (r_sent e)" "isr_ok (r_isr e)"
    by (simp_all add: receive_env_ok_def)
  obtain sent s1 where ws: "dmx_wait_sent_drv s w (r_sent e) = (sent, s1)"
    by (cases "dmx_wait_sent_drv s w (r_sent e)")
  with driver_inv_wait_sent [OF assms(1) ok(1), of w]
  have s1: "driver_inv s1" by simp
  show ?thesis
    unfolding receive_wait_def ws
    using s1 assms(1) ok(2)
    by (simp add: Let_def task_notify_wait_def apply_isr_def isr_ok_def inv_defs)
qed

lemma driver_inv_receive:
  assumes "utils_ok u" "driver_inv s" "receive_env_ok e"
  shows "driver_inv (snd (snd (dmx_receive_drv u s has_packet w e)))"
proof (cases "receive_wait s w e")
  case (Inl a)
  with driver_inv_receive_wait [OF assms(2,3), of w] show ?thesis
    by (cases a) (simp add: dmx_receive_drv_def)
next
  case (Inr b)
  obtain n err s1 where b: "b = (n, err, s1)" by (cases b)
  with Inr driver_inv_receive_wait [OF assms(2,3), of w] have s1: "driver_inv s1"
    by simp
  then have s2: "driver_inv (s1\<lparr>flags := f\<rparr>)" for f
    by (simp add: inv_defs)
  from assms(3) have "send_env_ok (r_send e)" by (simp add: receive_env_ok_def)
  then show ?thesis
    using s1 s2 driver_inv_dispatch [OF assms(1)]
    by (simp add: dmx_receive_drv_def Inr b Let_def split: option.splits)
qed


text \<open>
  A driver within the bounds is not left without a successor by the registration
  functions: they do not index \<^verbatim>\<open>params\<close> past its end, and \<^verbatim>\<open>rdm_pd_add_new\<close> does not
  write past the slab (when the slab is not so large that \<^verbatim>\<open>pd_head + pdl_size\<close> wraps
  around 32 bits).
\<close>

lemma pd_find_total:
  "n \<le> length ps \<Longrightarrow> \<exists>j. pd_find ps n p i = Inr j"
proof (induction ps n p i rule: pd_find.induct)
  case (1 ps n p pdi)
  show ?case
  proof (cases "pdi < n \<and> desc_pid (param_definition (ps ! pdi)) \<noteq> p")
    case True
    with "1.prems" have "pdi < length ps" by simp
    with True "1.IH" "1.prems" obtain j where "pd_find ps n p (Suc pdi) = Inr j" by blast
    with True \<open>pdi < length ps\<close> show ?thesis by (subst pd_find.simps) simp
  next
    case False
    with "1.prems" show ?thesis by (subst pd_find.simps) auto
  qed
qed

lemma rdm_pd_add_deterministic_drv_total:
  assumes "driver_inv s"
  shows "\<exists>r s'. rdm_pd_add_deterministic_drv s d fmt h = Inr (r, s')"
proof -
  from assms have le: "num_parameters s \<le> length (params s)" by (simp add: inv_defs)
  from pd_find_total [OF le] obtain j where
    j: "pd_find (params s) (num_parameters s) (desc_pid d) 0 = Inr j" by blast
  from pd_find_Inr [OF j] le have "j \<le> length (params s)" by simp
  then show ?thesis
    by (auto simp: rdm_pd_add_deterministic_drv_def j params_pid_def params_at_def
          RDM_RESPONDER_NUM_PIDS_MAX_def)
qed

lemma rdm_pd_add_alias_drv_total:
  assumes "driver_inv s"
  shows "\<exists>p s'. rdm_pd_add_alias_drv s d fmt nv h al off = Inr (p, s')"
proof -
  from assms have le: "num_parameters s \<le> length (params s)" by (simp add: inv_defs)
  from pd_find_total [OF le] obtain j where
    j: "pd_find (params s) (num_parameters s) (desc_pid d) 0 = Inr j" by blast
  from pd_find_total [OF le] obtain k where
    k: "pd_find (params s) (num_parameters s) al 0 = Inr k" by blast
  from pd_find_Inr [OF j] le have jl: "j \<le> length (params s)" by simp
  from pd_find_Inr [OF k] le have kl: "k \<le> num_parameters s" by simp
  show ?thesis
  proof (cases "j < num_parameters s")
    case True
    with pd_find_Inr [OF j] show ?thesis
      by (simp add: rdm_pd_add_alias_drv_def j params_pid_def)
  next
    case False
    with pd_find_Inr [OF j] have "j = num_parameters s" by simp
    with kl jl show ?thesis
      by (auto simp: rdm_pd_add_alias_drv_def j k params_pid_def params_at_def Let_def
            RDM_RESPONDER_NUM_PIDS_MAX_def)
  qed
qed

lemma rdm_pd_add_new_drv_total:
  assumes "driver_inv s" and "data_type d \<noteq> RDM_DS_ASCII" and "pd_size s + 65535 < 2 ^ 32"
  shows "\<exists>p s'. rdm_pd_add_new_drv s d fmt nv h None = Inr (p, s')"
proof -
  from assms(1) have le: "num_parameters s \<le> length (params s)"
    and hd: "pd_head s \<le> length (pd s)"
    by (simp_all add: inv_defs)
  from pd_find_total [OF le] obtain j where
    j: "pd_find (params s) (num_parameters s) (desc_pid d) 0 = Inr j" by blast
  from pd_find_Inr [OF j] le have jl: "j \<le> length (params s)" by simp
  have "unat (pdl_size d) < 65536" using unsigned_less [of "pdl_size d", where ?'a = nat] by simp
  with hd assms(3) have small: "pd_head s + unat (pdl_size d) < 2 ^ 32"
    by (simp add: pd_size_def)
  then have m: "(pd_head s + unat (pdl_size d)) mod 2 ^ 32 = pd_head s + unat (pdl_size d)"
    "(pd_head s + unat (pdl_size d)) mod 4294967296 = pd_head s + unat (pdl_size d)"
    by simp_all
  show ?thesis
    using jl assms(2)
    by (auto simp: rdm_pd_add_new_drv_def j params_pid_def params_at_def Let_def m
          mem_write_def pd_size_def RDM_RESPONDER_NUM_PIDS_MAX_def)
qed

lemma tab_inv_nth:
  assumes "tab_inv tab" "dmx_driver_is_installed tab n"
  shows "driver_inv (the (tab ! n))"
proof -
  from assms(2) obtain s where s: "n < length tab" "tab ! n = Some s"
    by (auto simp: dmx_driver_is_installed_def DMX_NUM_MAX_def)
  then have "Some s \<in> set tab" by (metis nth_mem)
  with assms(1) have "driver_inv s"
    by (auto simp: tab_inv_def list_all_iff)
  with s show ?thesis by simp
qed

lemma tab_inv_update:
  assumes "tab_inv tab" "driver_inv s'"
  shows "tab_inv (tab[n := Some s'])"
proof -
  have "set (tab[n := Some s']) \<subseteq> insert (Some s') (set tab)"
    by (rule set_update_subset_insert)
  with assms show ?thesis
    by (auto simp: tab_inv_def list_all_iff)
qed

lemma tab_inv_add_new:
  assumes "tab_inv tab"
    and "rdm_pd_add_new tab n sd dfn fmt nv h dv = Inr (p, tab')"
  shows "tab_inv tab'"
proof (cases "sd = RDM_SUB_DEVICE_ROOT")
  case False
  with assms(2) have "tab' = tab"
    by (simp add: rdm_pd_add_new_def split: if_splits option.splits)
  with assms(1) show ?thesis by simp
next
  case True
  from assms(2) obtain d hh where a: "dfn = Some d" "h = Some hh" "dmx_driver_is_installed tab n"
    by (simp add: rdm_pd_add_new_def split: if_splits option.splits)
  with assms(2) True obtain s' where s':
    "rdm_pd_add_new_drv (the (tab ! n)) d fmt nv hh dv = Inr (p, s')" "tab' = tab[n := Some s']"
    by (simp add: rdm_pd_add_new_def split: if_splits sum.splits prod.splits)
  from tab_inv_nth [OF assms(1)] a s'(1) have "driver_inv s'"
    by (blast intro: driver_inv_add_new)
  with assms(1) s'(2) show ?thesis by (simp add: tab_inv_update)
qed

lemma tab_inv_add_alias:
  assumes "tab_inv tab"
    and "rdm_pd_add_alias tab n sd dfn fmt nv h al off = Inr (p, tab')"
  shows "tab_inv tab'"
proof (cases "sd = RDM_SUB_DEVICE_ROOT")
  case False
  with assms(2) have "tab' = tab"
    by (simp add: rdm_pd_add_alias_def split: if_splits option.splits)
  with assms(1) show ?thesis by simp
next
  case True
  from assms(2) obtain d hh where a: "dfn = Some d" "h = Some hh" "dmx_driver_is_installed tab n"
    by (simp add: rdm_pd_add_alias_def split: if_splits option.splits)
  with assms(2) True obtain s' where s':
    "rdm_pd_add_alias_drv (the (tab ! n)) d fmt nv hh al off = Inr (p, s')" "tab' = tab[n := Some s']"
    by (simp add: rdm_pd_add_alias_def split: if_splits sum.splits prod.splits)
  from tab_inv_nth [OF assms(1)] a s'(1) have "driver_inv s'"
    by (blast intro: driver_inv_add_alias)
  with assms(1) s'(2) show ?thesis by (simp add: tab_inv_update)
qed

lemma tab_inv_add_deterministic:
  assumes "tab_inv tab"
    and "rdm_pd_add_deterministic tab n sd dfn fmt h = Inr (r, tab')"
  shows "tab_inv tab'"
proof (cases "sd = RDM_SUB_DEVICE_ROOT")
  case False
  with assms(2) have "tab' = tab"
    by (simp add: rdm_pd_add_deterministic_def split: if_splits option.splits)
  with assms(1) show ?thesis by simp
next
  case True
  from assms(2) obtain d hh where a: "dfn = Some d" "h = Some hh" "dmx_driver_is_installed tab n"
    by (simp add: rdm_pd_add_deterministic_def split: if_splits option.splits)
  with assms(2) True obtain s' where s':
    "rdm_pd_add_deterministic_drv (the (tab ! n)) d fmt hh = Inr (r, s')" "tab' = tab[n := Some s']"
    by (simp add: rdm_pd_add_deterministic_def split: if_splits sum.splits prod.splits)
  from tab_inv_nth [OF assms(1)] a s'(1) have "driver_inv s'"
    by (blast intro: driver_inv_add_deterministic)
  with assms(1) s'(2) show ?thesis by (simp add: tab_inv_update)
qed

lemma tab_inv_update_response_handler:
  assumes "tab_inv tab"
    and "rdm_pd_update_response_handler tab n sd p h = Inr (r, tab')"
  shows "tab_inv tab'"
proof (cases "sd = RDM_SUB_DEVICE_ROOT")
  case False
  with assms(2) have "tab' = tab"
    by (simp add: rdm_pd_update_response_handler_def split: if_splits option.splits)
  with assms(1) show ?thesis by simp
next
  case True
  from assms(2) obtain hh where a: "h = Some hh" "dmx_driver_is_installed tab n"
    by (simp add: rdm_pd_update_response_handler_def split: if_splits option.splits)
  with assms(2) True obtain s' where s':
    "rdm_pd_update_response_handler_drv (the (tab ! n)) p hh = Inr (r, s')" "tab' = tab[n := Some s']"
    by (simp add: rdm_pd_update_response_handler_def split: if_splits sum.splits prod.splits)
  from tab_inv_nth [OF assms(1)] a s'(1) have "driver_inv s'"
    by (blast intro: driver_inv_update_response_handler)
  with assms(1) s'(2) show ?thesis by (simp add: tab_inv_update)
qed

lemma tab_inv_update_callback:
  assumes "tab_inv tab"
    and "rdm_pd_update_callback tab n sd p cbk ctx = Inr (r, tab')"
  shows "tab_inv tab'"
proof (cases "sd = RDM_SUB_DEVICE_ROOT")
  case False
  with assms(2) have "tab' = tab"
    by (simp add: rdm_pd_update_callback_def split: if_splits option.splits)
  with assms(1) show ?thesis by simp
next
  case True
  from assms(2) have a: "dmx_driver_is_installed tab n"
    by (simp add: rdm_pd_update_callback_def split: if_splits option.splits)
  with assms(2) True obtain s' where s':
    "rdm_pd_update_callback_drv (the (tab ! n)) p cbk ctx = Inr (r, s')" "tab' = tab[n := Some s']"
    by (simp add: rdm_pd_update_callback_def split: if_splits sum.splits prod.splits)
  from tab_inv_nth [OF assms(1)] a s'(1) have "driver_inv s'"
    by (blast intro: driver_inv_update_callback)
  with assms(1) s'(2) show ?thesis by (simp add: tab_inv_update)
qed

lemma tab_inv_set:
  assumes "tab_inv tab"
    and "rdm_pd_set tab n p sd src sz = Inr (r, tab')"
  shows "tab_inv tab'"
proof (cases "sd = RDM_SUB_DEVICE_ROOT")
  case False
  with assms(2) have "tab' = tab"
    by (simp add: rdm_pd_set_def split: if_splits option.splits)
  with assms(1) show ?thesis by simp
next
  case True
  from assms(2) obtain bytes where a: "src = Some bytes" "dmx_driver_is_installed tab n"
    by (simp add: rdm_pd_set_def split: if_splits option.splits)
  with assms(2) True obtain s' where s':
    "rdm_pd_set_drv (the (tab ! n)) p bytes sz = Inr (r, s')" "tab' = tab[n := Some s']"
    by (simp add: rdm_pd_set_def split: if_splits sum.splits prod.splits)
  from tab_inv_nth [OF assms(1)] a s'(1) have "driver_inv s'"
    by (blast intro: driver_inv_set)
  with assms(1) s'(2) show ?thesis by (simp add: tab_inv_update)
qed

lemma tab_inv_enqueue:
  assumes "tab_inv tab"
    and "rdm_pd_enqueue tab n p sd = Inr (r, tab')"
  shows "tab_inv tab'"
proof (cases "sd = RDM_SUB_DEVICE_ROOT")
  case False
  with assms(2) have "tab' = tab"
    by (simp add: rdm_pd_enqueue_def split: if_splits option.splits)
  with assms(1) show ?thesis by simp
next
  case True
  from assms(2) have a: "dmx_driver_is_installed tab n"
    by (simp add: rdm_pd_enqueue_def split: if_splits option.splits)
  with assms(2) True obtain s' where s':
    "rdm_pd_enqueue_drv (the (tab ! n)) p = Inr (r, s')" "tab' = tab[n := Some s']"
    by (simp add: rdm_pd_enqueue_def split: if_splits sum.splits prod.splits)
  from tab_inv_nth [OF assms(1)] a s'(1) have "driver_inv s'"
    by (blast intro: driver_inv_enqueue)
  with assms(1) s'(2) show ?thesis by (simp add: tab_inv_update)
qed

lemma driver_inv_write:
  assumes inv: "driver_inv s" and off: "offset < DMX_MAX_PACKET_SIZE"
    and n: "n = (if size_add sz offset > DMX_MAX_PACKET_SIZE
                 then DMX_MAX_PACKET_SIZE - offset else sz)"
    and nz: "\<not> (\<not> size_add sz offset > DMX_MAX_PACKET_SIZE \<and> sz = 0)"
    and wr: "dmx_write_offset_drv s offset src n = Inr (m, s')"
  shows "driver_inv s'"
proof (cases "DMX_FLAGS_DRIVER_IS_SENDING \<in> flags s \<and> rdm_type s \<noteq> {}")
  case True
  with wr inv show ?thesis by (simp add: dmx_write_offset_drv_def)
next
  case False
  from inv have len: "length (data s) = 513" by (simp add: inv_defs DMX_MAX_PACKET_SIZE_def)
  from wr False have fit: "offset + n \<le> 513" and src: "n \<le> length src"
    using len
    by (auto simp: dmx_write_offset_drv_def memcpy_src_def mem_write_def Let_def
             split: if_splits)
  from n nz off have pos: "1 \<le> n"
    by (auto simp: DMX_MAX_PACKET_SIZE_def split: if_splits)
  from fit have tx: "size_add offset n = offset + n" by (simp add: size_add_def)
  from wr False src fit len have s': "tx_size s' = int (size_add offset n)"
      "length (data s') = length (data s)" "head s' = head s" "pd_head s' = pd_head s"
      "pd s' = pd s" "num_parameters s' = num_parameters s" "params s' = params s"
    by (auto simp: dmx_write_offset_drv_def memcpy_src_def mem_write_def Let_def
             split: if_splits)
  with inv tx fit pos show ?thesis
    by (simp add: inv_defs DMX_MAX_PACKET_SIZE_def)
qed

lemma tab_inv_write_offset:
  assumes "tab_inv tab"
    and "dmx_write_offset tab n offset source sz = Inr (m, tab')"
  shows "tab_inv tab'"
proof (cases "tab' = tab")
  case True
  with assms show ?thesis by simp
next
  case False
  with assms(2) obtain src where chk: "source = Some src" "offset < DMX_MAX_PACKET_SIZE"
      "dmx_driver_is_installed tab n"
      "\<not> (\<not> size_add sz offset > DMX_MAX_PACKET_SIZE \<and> sz = 0)"
    by (auto simp: dmx_write_offset_def split: if_splits option.splits)
  let ?n = "if size_add sz offset > DMX_MAX_PACKET_SIZE then DMX_MAX_PACKET_SIZE - offset else sz"
  from assms(2) chk obtain s' where s':
      "dmx_write_offset_drv (the (tab ! n)) offset src ?n = Inr (m, s')"
      "tab' = tab[n := Some s']"
    by (auto simp: dmx_write_offset_def dmx_driver_is_installed_def Let_def
             split: sum.splits if_splits)
  from tab_inv_nth [OF assms(1) chk(3)] have "driver_inv (the (tab ! n))" .
  from driver_inv_write [OF this chk(2) refl chk(4) s'(1)] have "driver_inv s'" .
  with assms(1) s'(2) show ?thesis by (simp add: tab_inv_update)
qed

lemma tab_inv_wait_sent:
  assumes "tab_inv tab" and "wait_env_ok e" and "dmx_wait_sent tab n w e = (sent, tab')"
  shows "tab_inv tab'"
proof (cases "dmx_driver_is_installed tab n")
  case True
  then have inst: "dmx_driver_is_installed tab n" by simp
  with assms(3) have "tab' = tab[n := Some (snd (dmx_wait_sent_drv (the (tab ! n)) w e))]"
    by (auto simp: dmx_wait_sent_def split_def Let_def dmx_driver_is_installed_def)
  with assms(1) driver_inv_wait_sent [OF tab_inv_nth [OF assms(1) inst] assms(2)] show ?thesis
    by (simp add: tab_inv_update)
next
  case False
  with assms show ?thesis
    by (auto simp: dmx_wait_sent_def dmx_driver_is_installed_def split: if_splits)
qed

lemma tab_inv_send:
  assumes "tab_inv tab" and "send_env_ok e" and "dmx_send u tab n sz e = (m, tab')"
  shows "tab_inv tab'"
proof (cases "dmx_driver_is_enabled tab n")
  case True
  then have inst: "dmx_driver_is_installed tab n" by (simp add: dmx_driver_is_enabled_def)
  with assms(3) True have "tab' = tab[n := Some (snd (dmx_send_drv u (the (tab ! n)) sz e))]"
    by (auto simp: dmx_send_def split_def Let_def dmx_driver_is_installed_def)
  with assms(1) driver_inv_send [OF tab_inv_nth [OF assms(1) inst] assms(2)] show ?thesis
    by (simp add: tab_inv_update)
next
  case False
  with assms show ?thesis
    by (auto simp: dmx_send_def dmx_driver_is_enabled_def split: if_splits)
qed

lemma tab_inv_receive:
  assumes "tab_inv tab" and "utils_ok u" and "receive_env_ok e"
    and "dmx_receive u tab n has_packet w e = (m, pkt, tab')"
  shows "tab_inv tab'"
proof (cases "dmx_driver_is_enabled tab n")
  case True
  then have inst: "dmx_driver_is_installed tab n" by (simp add: dmx_driver_is_enabled_def)
  with assms(4) True have
    "tab' = tab[n := Some (snd (snd (dmx_receive_drv u (the (tab ! n)) has_packet w e)))]"
    by (auto simp: dmx_receive_def split_def Let_def dmx_driver_is_installed_def)
  with assms(1) driver_inv_receive [OF assms(2) tab_inv_nth [OF assms(1) inst] assms(3)]
  show ?thesis
    by (simp add: tab_inv_update)
next
  case False
  with assms show ?thesis
    by (auto simp: dmx_receive_def dmx_driver_is_enabled_def split: if_splits)
qed

lemma driver_inv_install: "dmx_driver_install s \<Longrightarrow> driver_inv s"
  by (simp add: dmx_driver_install_def inv_defs)

lemma reachable_tab_inv: "reachable tab \<Longrightarrow> tab_inv tab"
proof (induction rule: reachable.induct)
  case (uninstalled n)
  show ?case by (simp add: tab_inv_def list_all_iff)
next
  case (install tab dmx_num s)
  then show ?case by (simp add: tab_inv_update driver_inv_install)
next
  case (interrupt tab dmx_num i)
  from tab_inv_nth [OF interrupt.IH interrupt.hyps(2)] interrupt.hyps(3)
  have "driver_inv (apply_isr i (the (tab ! dmx_num)))" by (rule driver_inv_apply_isr)
  with interrupt.IH show ?case by (simp add: tab_inv_update)
next
  case (add_new tab dmx_num sub_dev dfn fmt nv handler default_value p tab')
  then show ?case by (blast intro: tab_inv_add_new)
next
  case (add_alias tab dmx_num sub_dev dfn fmt nv handler al offset p tab2)
  then show ?case by (blast intro: tab_inv_add_alias)
next
  case (add_deterministic tab dmx_num sub_dev dfn fmt handler r tab')
  then show ?case by (blast intro: tab_inv_add_deterministic)
next
  case (update_response_handler tab dmx_num sub_dev pd_pid handler r tab')
  then show ?case by (blast intro: tab_inv_update_response_handler)
next
  case (update_callback tab dmx_num sub_dev pd_pid cbk ctx r tab')
  then show ?case by (blast intro: tab_inv_update_callback)
next
  case (set_parameter tab dmx_num pd_pid sub_dev src sz r tab')
  then show ?case by (blast intro: tab_inv_set)
next
  case (enqueue tab dmx_num pd_pid sub_dev i tab')
  then show ?case by (blast intro: tab_inv_enqueue)
next
  case (write_offset tab dmx_num offset source sz m tab')
  then show ?case by (blast intro: tab_inv_write_offset)
next
  case (wait_sent tab we dmx_num wait_ticks sent tab')
  then show ?case by (blast intro: tab_inv_wait_sent)
next
  case (send tab u se dmx_num sz m tab')
  then show ?case by (blast intro: tab_inv_send)
next
  case (receive tab u re dmx_num has_packet wait_ticks m pkt tab')
  then show ?case by (blast intro: tab_inv_receive)
qed


lemma utils_ok_example: "utils_ok example_utils"
proof -
  have "length (snd (example_rdm_write h p b)) = 513" if "length b = 513" for h p b
  proof -
    have "unat (pdl h) < 256" using unsigned_less [of "pdl h", where ?'a = nat] by simp
    then have "min (length p) (unat (pdl h)) \<le> 255" by simp
    with that show ?thesis
      by (simp add: example_rdm_write_def example_uid_bytes_def Let_def)
  qed
  then show ?thesis
    by (simp add: utils_ok_def example_utils_def DMX_MAX_PACKET_SIZE_def)
qed

section \<open>Claims about the parameter store\<close>


lemmas example_defs = example_tab_def example_driver_def example_slot_def example_description_def
  DMX_NUM_MAX_def dmx_driver_is_installed_def RDM_SUB_DEVICE_ROOT_def params_at_def params_pid_def
  RDM_RESPONDER_NUM_PIDS_MAX_def RDM_RESPONDER_QUEUE_SIZE_MAX_def pd_size_def
  mem_write_def memcpy_src_def pd_registered_def

text \<open>
  Claim C7, as amended. For a registered PID on an installed port,
  \<^verbatim>\<open>rdm_pd_enqueue\<close> searches the queue only while the queue is not full. If the queue
  is not full and holds the PID, it returns the index of the first entry with the PID
  and changes nothing. If the queue is not full and does not hold the PID, it stores
  the PID at index \<^verbatim>\<open>rdm_queue_size\<close>, returns that index and increments
  \<^verbatim>\<open>rdm_queue_size\<close>. If the queue is full it returns -1 and changes nothing, whether
  or not the PID is queued, and it returns -1 only then. A second call with the same
  PID returns the same index as the first and changes nothing, provided the queue is
  not full after the first call.
\<close>

theorem rdm_pd_enqueue_cases:
  assumes inst: "n < length tab" "tab ! n = Some s" and pid: "p > 0" and reg: "pd_registered s p"
  shows "(rdm_queue_size s < length (rdm_queue s) \<and>
          p \<in> set (take (rdm_queue_size s) (rdm_queue s)) \<longrightarrow>
            (\<exists>j. j < rdm_queue_size s \<and> rdm_queue s ! j = p \<and> (\<forall>k<j. rdm_queue s ! k \<noteq> p) \<and>
                 rdm_pd_enqueue tab n p RDM_SUB_DEVICE_ROOT = Inr (int j, tab)))
       \<and> (rdm_queue_size s < length (rdm_queue s) \<and>
          p \<notin> set (take (rdm_queue_size s) (rdm_queue s)) \<longrightarrow>
            rdm_pd_enqueue tab n p RDM_SUB_DEVICE_ROOT =
              Inr (int (rdm_queue_size s),
                   tab[n := Some (s\<lparr>rdm_queue := (rdm_queue s)[rdm_queue_size s := p],
                                    rdm_queue_size := Suc (rdm_queue_size s)\<rparr>)]))
       \<and> (\<not> rdm_queue_size s < length (rdm_queue s) \<longrightarrow>
            rdm_pd_enqueue tab n p RDM_SUB_DEVICE_ROOT = Inr (- 1, tab))
       \<and> (\<forall>r tab'. rdm_pd_enqueue tab n p RDM_SUB_DEVICE_ROOT = Inr (r, tab') \<and> r = - 1 \<longrightarrow>
            \<not> rdm_queue_size s < length (rdm_queue s))
       \<and> (\<forall>r tab'. rdm_pd_enqueue tab n p RDM_SUB_DEVICE_ROOT = Inr (r, tab') \<and>
            rdm_queue_size (the (tab' ! n)) < length (rdm_queue (the (tab' ! n))) \<longrightarrow>
            rdm_pd_enqueue tab' n p RDM_SUB_DEVICE_ROOT = Inr (r, tab'))"
proof -
  note lift = rdm_pd_enqueue_installed [OF inst pid]
  have same: "tab[n := Some s] = tab" using inst by (rule tab_update_same)
  have A: "\<exists>j. j < rdm_queue_size s \<and> rdm_queue s ! j = p \<and> (\<forall>k<j. rdm_queue s ! k \<noteq> p) \<and>
                 rdm_pd_enqueue tab n p RDM_SUB_DEVICE_ROOT = Inr (int j, tab)"
    if "rdm_queue_size s < length (rdm_queue s)" "p \<in> set (take (rdm_queue_size s) (rdm_queue s))"
  proof -
    from first_index [OF that(2)] obtain j where j: "j < rdm_queue_size s" "rdm_queue s ! j = p"
        "\<forall>k<j. rdm_queue s ! k \<noteq> p"
      by auto
    from rdm_pd_enqueue_drv_queued [OF reg that(1) j] have
      "rdm_pd_enqueue tab n p RDM_SUB_DEVICE_ROOT = Inr (int j, tab)"
      by (simp add: lift same)
    with j show ?thesis by blast
  qed
  have B: "rdm_pd_enqueue tab n p RDM_SUB_DEVICE_ROOT =
              Inr (int (rdm_queue_size s),
                   tab[n := Some (s\<lparr>rdm_queue := (rdm_queue s)[rdm_queue_size s := p],
                                    rdm_queue_size := Suc (rdm_queue_size s)\<rparr>)])"
    if "rdm_queue_size s < length (rdm_queue s)" "p \<notin> set (take (rdm_queue_size s) (rdm_queue s))"
    using rdm_pd_enqueue_drv_absent [OF reg that] by (simp add: lift)
  have C: "rdm_pd_enqueue tab n p RDM_SUB_DEVICE_ROOT = Inr (- 1, tab)"
    if "\<not> rdm_queue_size s < length (rdm_queue s)"
    using rdm_pd_enqueue_drv_full [OF reg that] by (simp add: lift same)
  have D: "\<not> rdm_queue_size s < length (rdm_queue s)"
    if "rdm_pd_enqueue tab n p RDM_SUB_DEVICE_ROOT = Inr (r, tab')" "r = - 1" for r tab'
  proof
    assume room: "rdm_queue_size s < length (rdm_queue s)"
    show False
    proof (cases "p \<in> set (take (rdm_queue_size s) (rdm_queue s))")
      case True
      from A [OF room True] that show False by auto
    next
      case False
      from B [OF room False] that show False by auto
    qed
  qed
  have E: "rdm_pd_enqueue tab' n p RDM_SUB_DEVICE_ROOT = Inr (r, tab')"
    if first: "rdm_pd_enqueue tab n p RDM_SUB_DEVICE_ROOT = Inr (r, tab')"
      and room': "rdm_queue_size (the (tab' ! n)) < length (rdm_queue (the (tab' ! n)))"
    for r tab'
  proof (cases "rdm_queue_size s < length (rdm_queue s)")
    case room: True
    show ?thesis
    proof (cases "p \<in> set (take (rdm_queue_size s) (rdm_queue s))")
      case True
      from A [OF room True] first show ?thesis by auto
    next
      case False
      let ?s' = "s\<lparr>rdm_queue := (rdm_queue s)[rdm_queue_size s := p],
                    rdm_queue_size := Suc (rdm_queue_size s)\<rparr>"
      from B [OF room False] first have r: "r = int (rdm_queue_size s)"
        and tab': "tab' = tab[n := Some ?s']"
        by simp_all
      have inst': "n < length tab'" "tab' ! n = Some ?s'" using inst tab' by simp_all
      have reg': "pd_registered ?s' p" using reg by (simp add: pd_registered_def)
      have room2: "rdm_queue_size ?s' < length (rdm_queue ?s')"
        using room' inst' by simp
      have hit: "rdm_pd_enqueue_drv ?s' p = Inr (int (rdm_queue_size s), ?s')"
      proof (rule rdm_pd_enqueue_drv_queued [OF reg' room2])
        show "rdm_queue_size s < rdm_queue_size ?s'" by simp
        show "rdm_queue ?s' ! rdm_queue_size s = p" using room by simp
        show "\<forall>k<rdm_queue_size s. rdm_queue ?s' ! k \<noteq> p"
        proof (intro allI impI)
          fix k assume k: "k < rdm_queue_size s"
          with room have "take (rdm_queue_size s) (rdm_queue s) ! k
                            \<in> set (take (rdm_queue_size s) (rdm_queue s))"
            by (intro nth_mem) simp
          with False k show "rdm_queue ?s' ! k \<noteq> p" by auto
        qed
      qed
      have "tab'[n := Some ?s'] = tab'" using inst' by (rule tab_update_same)
      with hit show ?thesis
        by (simp add: rdm_pd_enqueue_installed [OF inst' pid] r)
    qed
  next
    case False
    from C [OF False] first show ?thesis by simp
  qed
  from A B C D E show ?thesis by blast
qed

theorem rdm_pd_enqueue_cases_witness:
  "(\<exists>tab'. rdm_pd_enqueue example_tab 0 0x00F0 RDM_SUB_DEVICE_ROOT = Inr (0, tab') \<and>
           rdm_queue_size (the (tab' ! 0)) = 1 \<and>
           rdm_pd_enqueue tab' 0 0x00F0 RDM_SUB_DEVICE_ROOT = Inr (0, tab')) \<and>
   rdm_pd_enqueue [Some full_queue_driver] 0 0x00F0 RDM_SUB_DEVICE_ROOT =
     Inr (- 1, [Some full_queue_driver])"
proof -
  have reg: "pd_registered example_driver 0x00F0" "pd_registered full_queue_driver 0x00F0"
    by (simp_all add: example_defs full_queue_driver_def)
  have inst: "0 < length example_tab" "example_tab ! 0 = Some example_driver"
    by (simp_all add: example_tab_def)
  have pos: "(0x00F0 :: u16) > 0" by simp
  note T = rdm_pd_enqueue_cases [OF inst pos reg(1)]
  have q: "rdm_queue_size example_driver = 0" "rdm_queue example_driver = [0, 0]"
    by (simp_all add: example_driver_def)
  let ?tab' = "example_tab[0 := Some (example_driver\<lparr>rdm_queue := (rdm_queue example_driver)
                                  [rdm_queue_size example_driver := 0x00F0],
                                rdm_queue_size := Suc (rdm_queue_size example_driver)\<rparr>)]"
  have prem: "rdm_queue_size example_driver < length (rdm_queue example_driver) \<and>
          0x00F0 \<notin> set (take (rdm_queue_size example_driver) (rdm_queue example_driver))"
    by (simp add: q)
  from T [THEN conjunct2, THEN conjunct1] prem
  have first: "rdm_pd_enqueue example_tab 0 0x00F0 RDM_SUB_DEVICE_ROOT =
                 Inr (int (rdm_queue_size example_driver), ?tab')"
    by (rule mp)
  have size': "rdm_queue_size (the (?tab' ! 0)) = 1"
    by (simp add: example_tab_def q)
  have room: "rdm_queue_size (the (?tab' ! 0)) < length (rdm_queue (the (?tab' ! 0)))"
    by (simp add: example_tab_def q)
  from T [THEN conjunct2, THEN conjunct2, THEN conjunct2, THEN conjunct2] first room
  have second: "rdm_pd_enqueue ?tab' 0 0x00F0 RDM_SUB_DEVICE_ROOT =
                 Inr (int (rdm_queue_size example_driver), ?tab')"
    by blast
  have inst2: "0 < length [Some full_queue_driver]"
      "[Some full_queue_driver] ! 0 = Some full_queue_driver"
    by simp_all
  have full_prem: "\<not> rdm_queue_size full_queue_driver < length (rdm_queue full_queue_driver)"
    by (simp add: full_queue_driver_def)
  from rdm_pd_enqueue_cases [OF inst2 pos reg(2), THEN conjunct2, THEN conjunct2, THEN conjunct1]
    full_prem
  have full: "rdm_pd_enqueue [Some full_queue_driver] 0 0x00F0 RDM_SUB_DEVICE_ROOT =
     Inr (- 1, [Some full_queue_driver])"
    by (rule mp)
  from first second size' have "\<exists>tab'. rdm_pd_enqueue example_tab 0 0x00F0 RDM_SUB_DEVICE_ROOT = Inr (0, tab') \<and>
           rdm_queue_size (the (tab' ! 0)) = 1 \<and>
           rdm_pd_enqueue tab' 0 0x00F0 RDM_SUB_DEVICE_ROOT = Inr (0, tab')"
    unfolding q by (intro exI [of _ ?tab']) (simp add: q)
  with full show ?thesis by blast
qed

text \<open>
  Claim C7 as stated fails when the queue is full. With PID 0x00F0 registered and
  queued at index 0 of a full queue of two entries, \<^verbatim>\<open>rdm_pd_enqueue\<close> returns -1 and
  not the index 0. With one free entry, the first call stores the PID at index 1 and
  the second call returns -1: the two calls do not return the same index.
\<close>

theorem rdm_pd_enqueue_counterexample:
  "pd_registered full_queue_driver 0x00F0 \<and>
   rdm_queue full_queue_driver ! 0 = 0x00F0 \<and>
   rdm_queue_size full_queue_driver = 2 \<and>
   rdm_pd_enqueue [Some full_queue_driver] 0 0x00F0 RDM_SUB_DEVICE_ROOT =
     Inr (- 1, [Some full_queue_driver]) \<and>
   pd_registered last_entry_driver 0x00F0 \<and>
   rdm_pd_enqueue [Some last_entry_driver] 0 0x00F0 RDM_SUB_DEVICE_ROOT =
     Inr (1, [Some (last_entry_driver\<lparr>rdm_queue := [0x0082, 0x00F0], rdm_queue_size := 2\<rparr>)]) \<and>
   rdm_pd_enqueue
     [Some (last_entry_driver\<lparr>rdm_queue := [0x0082, 0x00F0], rdm_queue_size := 2\<rparr>)]
     0 0x00F0 RDM_SUB_DEVICE_ROOT =
     Inr (- 1, [Some (last_entry_driver\<lparr>rdm_queue := [0x0082, 0x00F0], rdm_queue_size := 2\<rparr>)])"
  by (simp add: rdm_pd_enqueue_def rdm_pd_enqueue_drv_def full_queue_driver_def
        last_entry_driver_def example_defs pd_find.simps queue_search.simps)

text \<open>
  Claim C8. When \<^verbatim>\<open>rdm_pd_add_new\<close> has registered a PID (it returned a pointer that is
  not null), a second call of \<^verbatim>\<open>rdm_pd_add_new\<close> with a description of the same PID,
  whatever its other arguments, returns null and leaves the table of drivers as it
  was: \<^verbatim>\<open>pd_head\<close>, the slab and \<^verbatim>\<open>num_parameters\<close> are unchanged.
\<close>

theorem rdm_pd_add_new_twice:
  assumes first: "rdm_pd_add_new tab n sd dfn fmt nv h dv = Inr (Some p, tab')"
    and same: "desc_pid d2 = desc_pid (the dfn)"
    and asserts: "sd2 < 513" "pdl_size d2 > 0"
  shows "rdm_pd_add_new tab' n sd2 (Some d2) fmt2 nv2 (Some h2) dv2 = Inr (None, tab')"
proof -
  from rdm_pd_add_new_Some [OF first] obtain d s' where
    d: "dfn = Some d" "desc_pid d > 0" "n < length tab'" "tab' ! n = Some s'"
       "pd_registered s' (desc_pid d)"
    by auto
  with same have reg: "pd_registered s' (desc_pid d2)" "desc_pid d2 > 0" by simp_all
  have "rdm_pd_add_new_drv s' d2 fmt2 nv2 h2 dv2 = Inr (None, s')"
    using reg(1) by (rule rdm_pd_add_new_drv_registered)
  with d reg asserts show ?thesis
    by (simp add: rdm_pd_add_new_def DMX_NUM_MAX_def dmx_driver_is_installed_def tab_update_same)
qed

theorem rdm_pd_add_new_twice_witness:
  "\<exists>p tab'. rdm_pd_add_new example_tab 0 0 (Some (example_description 0x0082)) [] False
               (Some example_handler) None = Inr (Some p, tab') \<and>
            rdm_pd_add_new tab' 0 0 (Some (example_description 0x0082)) [] True
               (Some example_handler) (Some [7]) = Inr (None, tab')"
proof -
  have "\<exists>p tab'. rdm_pd_add_new example_tab 0 0 (Some (example_description 0x0082)) [] False
               (Some example_handler) None = Inr (Some p, tab')"
    by (simp add: rdm_pd_add_new_def rdm_pd_add_new_drv_def example_defs pd_find.simps)
  then obtain p tab' where first:
    "rdm_pd_add_new example_tab 0 0 (Some (example_description 0x0082)) [] False
               (Some example_handler) None = Inr (Some p, tab')"
    by blast
  have "rdm_pd_add_new tab' 0 0 (Some (example_description 0x0082)) [] True
               (Some example_handler) (Some [7]) = Inr (None, tab')"
    using rdm_pd_add_new_twice [OF first, of "example_description 0x0082" 0]
    by (simp add: example_description_def)
  with first show ?thesis by blast
qed

text \<open>
  Claim C10. When \<^verbatim>\<open>rdm_pd_add_deterministic\<close> has registered a PID (it returned
  true), \<^verbatim>\<open>rdm_pd_get\<close> returns null for that PID, the result it also returns for a
  PID \<open>q\<close> that is not registered.
\<close>

theorem rdm_pd_get_deterministic:
  assumes add: "rdm_pd_add_deterministic tab n sd dfn fmt h = Inr (True, tab')"
    and absent: "q > 0" "\<not> pd_registered (the (tab' ! n)) q"
  shows "rdm_pd_get tab' n (desc_pid (the dfn)) RDM_SUB_DEVICE_ROOT = Inr None \<and>
         rdm_pd_get tab' n q RDM_SUB_DEVICE_ROOT = Inr None"
proof -
  from add obtain d hh where d: "dfn = Some d" "h = Some hh" "desc_pid d > 0" "n < length tab"
      "sd = RDM_SUB_DEVICE_ROOT"
    by (auto simp: rdm_pd_add_deterministic_def DMX_NUM_MAX_def split: if_splits option.splits)
  with add obtain s' where s':
      "rdm_pd_add_deterministic_drv (the (tab ! n)) d fmt hh = Inr (True, s')"
      "tab' = tab[n := Some s']"
    by (auto simp: rdm_pd_add_deterministic_def split: if_splits sum.splits)
  note fact = rdm_pd_add_deterministic_drv_True [OF s'(1)]
  have inst: "n < length tab'" "tab' ! n = Some s'" using d s' by simp_all
  have "rdm_pd_get_drv s' (desc_pid d) = Inr None"
    unfolding rdm_pd_get_drv_def fact(1) using fact(4) by simp
  moreover have "rdm_pd_get_drv s' q = Inr None"
    using absent(2) fact(3) inst by (simp add: rdm_pd_get_drv_unregistered)
  ultimately show ?thesis
    using d inst absent(1)
    by (simp add: rdm_pd_get_def DMX_NUM_MAX_def dmx_driver_is_installed_def
          RDM_SUB_DEVICE_ROOT_def)
qed

theorem rdm_pd_get_deterministic_witness:
  "\<exists>tab'. rdm_pd_add_deterministic example_tab 0 0 (Some (example_description 0x0060)) []
              (Some example_handler) = Inr (True, tab') \<and>
           \<not> pd_registered (the (tab' ! 0)) 0x1234 \<and>
           rdm_pd_get tab' 0 0x0060 RDM_SUB_DEVICE_ROOT = Inr None \<and>
           rdm_pd_get tab' 0 0x1234 RDM_SUB_DEVICE_ROOT = Inr None"
proof -
  have "\<exists>tab'. rdm_pd_add_deterministic example_tab 0 0 (Some (example_description 0x0060)) []
              (Some example_handler) = Inr (True, tab') \<and>
           \<not> pd_registered (the (tab' ! 0)) 0x1234"
    by (simp add: rdm_pd_add_deterministic_def rdm_pd_add_deterministic_drv_def example_defs
          pd_find.simps)
  then obtain tab' where add:
    "rdm_pd_add_deterministic example_tab 0 0 (Some (example_description 0x0060)) []
              (Some example_handler) = Inr (True, tab')"
    and absent: "\<not> pd_registered (the (tab' ! 0)) 0x1234"
    by blast
  from rdm_pd_get_deterministic [OF add _ absent] add absent show ?thesis
    by (auto simp: example_description_def)
qed

section \<open>Claims about the slot access\<close>

text \<open>
  Claim C6. When \<^verbatim>\<open>dmx_write_offset(dmx_num, offset, src, n)\<close> returns \<open>m > 0\<close> on a port
  whose driver buffer has \<^verbatim>\<open>DMX_MAX_PACKET_SIZE\<close> bytes, then
  \<^verbatim>\<open>dmx_read_offset(dmx_num, offset, dst, n)\<close> on the table the write leaves, into a
  destination of at least \<open>m\<close> bytes, returns \<open>m\<close> and makes the first \<open>m\<close> bytes of
  the destination the first \<open>m\<close> bytes of \<open>src\<close>, where \<open>m = min n (513 - offset)\<close>.
  A write that returns a positive size was made to an installed port at an offset
  below 513, was not refused, and stayed inside the source and the buffer.
\<close>

theorem dmx_write_read_roundtrip:
  assumes wr: "dmx_write_offset tab dmx_num offset (Some src) sz = Inr (m, tab')"
    and pos: "m > 0"
    and buf: "length (data (the (tab ! dmx_num))) = DMX_MAX_PACKET_SIZE"
    and dst: "m \<le> length dst"
  shows "dmx_read_offset tab' dmx_num offset (Some dst) sz =
           Inr (m, Some (take m src @ drop m dst)) \<and>
         m = min sz (DMX_MAX_PACKET_SIZE - offset)"
proof -
  let ?n = "if size_add sz offset > DMX_MAX_PACKET_SIZE then DMX_MAX_PACKET_SIZE - offset else sz"
  from wr pos have chk: "dmx_num < length tab" "offset < DMX_MAX_PACKET_SIZE"
      "dmx_driver_is_installed tab dmx_num"
      "\<not> (\<not> size_add sz offset > DMX_MAX_PACKET_SIZE \<and> sz = 0)"
    by (auto simp: dmx_write_offset_def DMX_NUM_MAX_def split: if_splits)
  with wr obtain s' where s': "dmx_write_offset_drv (the (tab ! dmx_num)) offset src ?n = Inr (m, s')"
      "tab' = tab[dmx_num := Some s']"
    by (auto simp: dmx_write_offset_def DMX_NUM_MAX_def Let_def split: sum.splits)
  note w = dmx_write_offset_drv_Inr [OF s'(1) pos]
  have m: "m = min sz (DMX_MAX_PACKET_SIZE - offset)"
    using clamp_min [of offset ?n sz] chk(2) w(1,3) buf by (simp add: DMX_MAX_PACKET_SIZE_def)
  have inst': "dmx_num < length tab'" "tab' ! dmx_num = Some s'"
    using chk(1) s'(2) by simp_all
  have len: "length (take offset (data (the (tab ! dmx_num)))) = offset"
    using w(3) by simp
  have rd: "take m (drop offset (data s')) = take m src"
    using w(1,2) len by (simp add: w(4))
  have fit': "m \<le> length (data s') - offset"
    using w(1,2,3) by (simp add: w(4))
  have "dmx_read_offset tab' dmx_num offset (Some dst) sz =
           Inr (m, Some (take m src @ drop m dst))"
    using chk inst' dst fit' rd w(1,2)
    by (simp add: dmx_read_offset_def DMX_NUM_MAX_def dmx_driver_is_installed_def Let_def
          memcpy_src_def mem_write_def)
  with m show ?thesis by simp
qed

theorem dmx_write_read_roundtrip_witness:
  "\<exists>tab'. dmx_write_offset example_tab 0 511 (Some [255, 128, 7]) 3 = Inr (2, tab') \<and>
          dmx_read_offset tab' 0 511 (Some [0, 0, 0, 0]) 3 = Inr (2, Some [255, 128, 0, 0])"
proof -
  have "\<exists>tab'. dmx_write_offset example_tab 0 511 (Some [255, 128, 7]) 3 = Inr (2, tab')"
    by (simp add: dmx_write_offset_def dmx_write_offset_drv_def example_tab_def
          example_driver_def DMX_NUM_MAX_def dmx_driver_is_installed_def
          DMX_MAX_PACKET_SIZE_def size_add_def memcpy_src_def mem_write_def)
  then obtain tab' where wr:
    "dmx_write_offset example_tab 0 511 (Some [255, 128, 7]) 3 = Inr (2, tab')"
    by blast
  have buf: "length (data (the (example_tab ! 0))) = DMX_MAX_PACKET_SIZE"
    by (simp add: example_tab_def example_driver_def DMX_MAX_PACKET_SIZE_def)
  have "dmx_read_offset tab' 0 511 (Some [0, 0, 0, 0]) 3 = Inr (2, Some [255, 128, 0, 0])"
    using dmx_write_read_roundtrip [OF wr _ buf, of "[0, 0, 0, 0]"] by simp
  with wr show ?thesis by blast
qed

section \<open>Claims about the bus engine\<close>

text \<open>
  Claim C1. \<^verbatim>\<open>dmx_send\<close> first waits, in \<^verbatim>\<open>dmx_wait_sent\<close>, until the driver has
  finished sending, and reads the buffer and \<^verbatim>\<open>last_slot_ts\<close> afterwards; \<open>s1\<close> is the
  driver as that wait leaves it, the interrupt handlers having written what they
  write when a transmission ends. On an installed and enabled port, when the buffer
  then holds an RDM response (start code and sub-start code at offsets 0 and 1, a
  response command class at offset 20) and the clock is at least
  \<^verbatim>\<open>RDM_RESPONDER_RESPONSE_LOST_TIMEOUT\<close> past \<^verbatim>\<open>last_slot_ts\<close>, \<^verbatim>\<open>dmx_send\<close> returns 0 and
  leaves the driver as the wait left it: it sets no flag (so not
  \<^verbatim>\<open>DMX_FLAGS_DRIVER_IS_SENDING\<close>), writes neither head, transmit size nor buffer, and
  calls no collaborator. A driver that was not sending when \<^verbatim>\<open>dmx_send\<close> was called
  is left as it was at the call.
\<close>

theorem dmx_send_late_response:
  assumes "dmx_driver_is_enabled tab dmx_num" and "tab ! dmx_num = Some s"
    and "dmx_wait_sent_drv s portMAX_DELAY (s_sent e) = (sent, s1)"
    and "is_rdm_response (data s1)"
    and "RDM_RESPONDER_RESPONSE_LOST_TIMEOUT \<le> s_now1 e - last_slot_ts s1"
  shows "dmx_send u tab dmx_num sz e = (0, tab[dmx_num := Some (if s_mux e then s1 else s)]) \<and>
         (DMX_FLAGS_DRIVER_IS_SENDING \<notin> flags s \<longrightarrow> s1 = s)"
proof -
  from assms(1) have inst: "dmx_num < DMX_NUM_MAX tab" "dmx_driver_is_installed tab dmx_num"
    by (simp_all add: dmx_driver_is_enabled_def dmx_driver_is_installed_def)
  from dmx_send_drv_late_response [OF assms(3,4,5), of u sz]
  have "dmx_send_drv u s sz e = (0, if s_mux e then s1 else s)" .
  with inst assms(1,2)
  have "dmx_send u tab dmx_num sz e = (0, tab[dmx_num := Some (if s_mux e then s1 else s)])"
    by (simp add: dmx_send_def)
  moreover have "s1 = s" if "DMX_FLAGS_DRIVER_IS_SENDING \<notin> flags s"
    using dmx_wait_sent_drv_idle [OF that, of portMAX_DELAY "s_sent e"] assms(3) by simp
  ultimately show ?thesis by blast
qed

text \<open>
  Two calls of \<^verbatim>\<open>dmx_send\<close>. The first is made at time 3200 on a driver that is
  sending a response: the transmission ends at time 1100 and the task runs again 2100
  microseconds later. The second is made at time 3000 on a driver that is not
  sending, whose buffer holds a response to a request received at time 1000.
\<close>

theorem dmx_send_late_response_witness:
  "dmx_driver_is_enabled [Some sending_response_driver] 0 \<and>
   DMX_FLAGS_DRIVER_IS_SENDING \<in> flags sending_response_driver \<and>
   dmx_send example_utils [Some sending_response_driver] 0 26 (response_sent_env 1100 3200) =
     (0, [Some (sending_response_driver
                  \<lparr>head := 26, flags := {DMX_FLAGS_DRIVER_SENT_LAST}, last_slot_ts := 1100,
                   trace := [TaskNotifyWait]\<rparr>)]) \<and>
   dmx_driver_is_enabled [Some response_driver] 0 \<and>
   DMX_FLAGS_DRIVER_IS_SENDING \<notin> flags response_driver \<and>
   dmx_send example_utils [Some response_driver] 0 26 (example_send_env 3000) =
     (0, [Some response_driver])"
proof -
  let ?s1 = "sending_response_driver
               \<lparr>head := 26, flags := {DMX_FLAGS_DRIVER_SENT_LAST}, last_slot_ts := 1100,
                trace := [TaskNotifyWait]\<rparr>"
  have en: "dmx_driver_is_enabled [Some sending_response_driver] 0"
    by (simp add: dmx_driver_is_enabled_def dmx_driver_is_installed_def DMX_NUM_MAX_def
          sending_response_driver_def response_driver_def example_driver_def)
  have busy: "DMX_FLAGS_DRIVER_IS_SENDING \<in> flags sending_response_driver"
    by (simp add: sending_response_driver_def)
  have w: "dmx_wait_sent_drv sending_response_driver portMAX_DELAY
             (s_sent (response_sent_env 1100 3200)) = (True, ?s1)"
    by (simp add: dmx_wait_sent_drv_def task_notify_wait_def apply_isr_def portMAX_DELAY_def
          response_sent_env_def example_send_env_def example_wait_env_def
          sending_response_driver_def response_driver_def example_driver_def)
  have resp: "is_rdm_response (data ?s1)"
    by (simp add: is_rdm_response_def is_rdm_sc_def const_defs instance_defs)
  have late: "RDM_RESPONDER_RESPONSE_LOST_TIMEOUT
                \<le> s_now1 (response_sent_env 1100 3200) - last_slot_ts ?s1"
    by (simp add: const_defs response_sent_env_def example_send_env_def)
  have mux: "s_mux (response_sent_env 1100 3200)" "s_mux (example_send_env 3000)"
    by (simp_all add: response_sent_env_def example_send_env_def)
  from dmx_send_late_response [OF en _ w resp late, of example_utils 26] mux
  have first: "dmx_send example_utils [Some sending_response_driver] 0 26
                 (response_sent_env 1100 3200) = (0, [Some ?s1])"
    by simp
  have en2: "dmx_driver_is_enabled [Some response_driver] 0"
    by (simp add: dmx_driver_is_enabled_def dmx_driver_is_installed_def DMX_NUM_MAX_def
          response_driver_def example_driver_def)
  have idle: "DMX_FLAGS_DRIVER_IS_SENDING \<notin> flags response_driver"
    by (simp add: response_driver_def example_driver_def)
  obtain sent s1 where w2: "dmx_wait_sent_drv response_driver portMAX_DELAY
                              (s_sent (example_send_env 3000)) = (sent, s1)"
    by (cases "dmx_wait_sent_drv response_driver portMAX_DELAY (s_sent (example_send_env 3000))")
  then have s1: "s1 = response_driver"
    by (simp add: dmx_wait_sent_drv_def idle split: if_splits)
  have resp2: "is_rdm_response (data s1)"
    by (simp add: s1 is_rdm_response_def is_rdm_sc_def const_defs instance_defs)
  have late2: "RDM_RESPONDER_RESPONSE_LOST_TIMEOUT
                \<le> s_now1 (example_send_env 3000) - last_slot_ts s1"
    by (simp add: s1 const_defs example_send_env_def response_driver_def)
  from dmx_send_late_response [OF en2 _ w2 resp2 late2, of example_utils 26] mux idle
  have second: "dmx_send example_utils [Some response_driver] 0 26 (example_send_env 3000) =
                  (0, [Some response_driver])"
    by simp
  from en busy first en2 idle second show ?thesis by blast
qed

text \<open>
  Claim C2 does not hold of the code. \<^verbatim>\<open>dmx_send\<close> records the type of a unicast request
  as \<^verbatim>\<open>DMX_FLAGS_RDM_IS_VALID | DMX_FLAGS_RDM_IS_REQUEST\<close>, and the next \<^verbatim>\<open>dmx_send\<close>
  selects \<^verbatim>\<open>RDM_REQUEST_NO_RESPONSE_PACKET_SPACING\<close> only when
  \<^verbatim>\<open>rdm_type == DMX_FLAGS_RDM_IS_REQUEST\<close>. Sending the GET request of \<open>request_driver\<close>
  leaves that type and \<^verbatim>\<open>DMX_FLAGS_DRIVER_SENT_LAST\<close>; the next \<^verbatim>\<open>dmx_send\<close>, 1000
  microseconds after the last slot, starts the break at once: the timer is programmed
  with the break length only and the task does not wait.
\<close>

theorem dmx_send_request_spacing_skipped:
  "rdm_type (the (snd (dmx_send example_utils [Some request_driver] 0 26 (example_send_env 0)) ! 0))
     = {DMX_FLAGS_RDM_IS_REQUEST, DMX_FLAGS_RDM_IS_VALID} \<and>
   DMX_FLAGS_DRIVER_SENT_LAST
     \<in> flags (the (snd (dmx_send example_utils [Some request_driver] 0 26 (example_send_env 0)) ! 0)) \<and>
   s_now2 (example_send_env 1000) - last_slot_ts sent_request_driver
     < RDM_REQUEST_NO_RESPONSE_PACKET_SPACING \<and>
   dmx_send example_utils [Some sent_request_driver] 0 26 (example_send_env 1000) =
     (26, [Some (sent_request_driver
                  \<lparr>head := 0,
                   flags := {DMX_FLAGS_TIMER_IS_RUNNING, DMX_FLAGS_DRIVER_IS_IN_BREAK,
                             DMX_FLAGS_DRIVER_IS_SENDING, DMX_FLAGS_DRIVER_SENT_LAST},
                   rdm_type := {DMX_FLAGS_RDM_IS_REQUEST, DMX_FLAGS_RDM_IS_VALID},
                   drv_tn := 1,
                   trace := [TimerSetCounter 0, TimerSetAlarm 176, TimerStart,
                             UartInvertTx 1]\<rparr>)])"
  by (simp add: eval_defs rdm_type_eq_disc_response rdm_type_eq_request)

text \<open>
  Claim C3 does not hold of the code. A GET request for PID 0x1234, addressed to this
  device, with no callback registered: the dispatcher writes NR_UNKNOWN_PID into the
  parameter data and sets \<^verbatim>\<open>pdl\<close> to 2, and leaves \<^verbatim>\<open>response_type\<close> at its initial
  value \<^verbatim>\<open>RDM_RESPONSE_TYPE_NONE\<close>; the header handed to \<^verbatim>\<open>rdm_write\<close> does not say
  \<^verbatim>\<open>RDM_RESPONSE_TYPE_NACK_REASON\<close>.
\<close>

theorem dmx_receive_unknown_pid_response:
  "rdm_cbs example_driver = [] \<and>
   rdm_writes (trace (the (snd (snd (dmx_receive example_utils example_tab 0 True 10
      (example_receive_env (example_request (uid example_driver) RDM_CC_GET_COMMAND 0x1234)))) ! 0)))
   = [(\<lparr>dest_uid = \<lparr>man_id = 0x0011, dev_id = 0x22334455\<rparr>, src_uid = uid example_driver,
        tn = 7, response_type = ResponseType RDM_RESPONSE_TYPE_NONE, message_count = 0,
        sub_device = 0, cc = RDM_CC_GET_COMMAND_RESPONSE, pid = 0x1234, pdl = 2\<rparr>,
       (replicate 231 0)[0 := 0x00, 1 := 0x11])]"
  by (simp add: eval_rx_defs example_tab_def)

text \<open>
  Claim C4, as amended. When \<^verbatim>\<open>dmx_receive\<close> has received a request that targets this
  device, the dispatcher applies the first callback registered for the PID, if there
  is one, to the header, the parameter data of the request and the parameter of the
  callback; \<open>rt\<close>, \<open>pd1\<close> and \<open>pdl1\<close> are the response type, the parameter data and the
  \<^verbatim>\<open>pdl_out\<close> it returns (\<^verbatim>\<open>RDM_RESPONSE_TYPE_NONE\<close>, the array as it was and 0 without
  a callback). When the response is not suppressed (the destination is not a
  broadcast or the request is DISC_UNIQUE_BRANCH, and a discovery request was
  answered by its handler), one header is handed to \<^verbatim>\<open>rdm_write\<close>: it has the source
  UID of the request as destination, this device's UID as source, the command class
  of the request plus one, the response type \<open>rt\<close>, message count 0, and the
  transaction number, sub-device and PID of the request. Its \<^verbatim>\<open>pdl\<close> is \<open>pdl1\<close>, and
  the parameter data \<open>pd1\<close>, unless the dispatcher wrote a NACK reason in their place
  (no callback for a GET or SET, or a callback that returned
  \<^verbatim>\<open>RDM_RESPONSE_TYPE_NONE\<close> or \<^verbatim>\<open>RDM_RESPONSE_TYPE_INVALID\<close>): then \<^verbatim>\<open>pdl\<close> is 2. The
  parameter of the callback is left as the callback returned it.
\<close>

theorem dmx_receive_response_header:
  assumes en: "dmx_driver_is_enabled tab dmx_num" "tab ! dmx_num = Some s"
    and rx: "receives_request u s has_packet wait_ticks e n h = Some s2"
    and i: "i = cb_find (rdm_cbs s2) (pid h) 0"
    and c: "c = rdm_cbs s2 ! i"
    and pd_in: "pd_in = (if pdl h > 0 then rdm_read_pd u (data s2) (r_pd e) else r_pd e)"
    and rt: "rt = (if i < length (rdm_cbs s2) then fst (cb c h pd_in (cb_param c))
                   else RDM_RESPONSE_TYPE_NONE)"
    and pd1: "pd1 = (if i < length (rdm_cbs s2) then fst (snd (cb c h pd_in (cb_param c)))
                     else r_pd e)"
    and pdl1: "pdl1 = (if i < length (rdm_cbs s2)
                       then fst (snd (snd (cb c h pd_in (cb_param c)))) else 0)"
    and nosup: "\<not> (uid_is_broadcast u (dest_uid h) \<and>
                 \<not> (cc h = RDM_CC_DISC_COMMAND \<and> pid h = RDM_PID_DISC_UNIQUE_BRANCH))"
    and nodisc: "\<not> (rt = RDM_RESPONSE_TYPE_NONE \<and> cc h = RDM_CC_DISC_COMMAND)"
  shows "\<exists>pkt s' h' pd'.
           dmx_receive u tab dmx_num has_packet wait_ticks e = (n, pkt, tab[dmx_num := Some s']) \<and>
           rdm_writes (trace s') = rdm_writes (trace s2) @ [(h', pd')] \<and>
           dest_uid h' = src_uid h \<and> src_uid h' = uid s2 \<and> cc h' = cc h + 1 \<and>
           response_type h' = ResponseType rt \<and> message_count h' = 0 \<and>
           pdl h' = (if (i = length (rdm_cbs s2) \<and> cc h \<noteq> RDM_CC_DISC_COMMAND) \<or>
                        rt = RDM_RESPONSE_TYPE_NONE \<or> rt = RDM_RESPONSE_TYPE_INVALID
                     then 2 else pdl1) \<and>
           tn h' = tn h \<and> sub_device h' = sub_device h \<and> pid h' = pid h \<and>
           pd' = (if i = length (rdm_cbs s2) \<and> cc h \<noteq> RDM_CC_DISC_COMMAND
                  then fst (pd_emplace_word pd1 RDM_NR_UNKNOWN_PID)
                  else if rt = RDM_RESPONSE_TYPE_NONE \<or> rt = RDM_RESPONSE_TYPE_INVALID
                  then fst (pd_emplace_word pd1 RDM_NR_HARDWARE_FAULT)
                  else pd1) \<and>
           rdm_cbs s' =
             (if i < length (rdm_cbs s2)
              then (rdm_cbs s2)[i := c\<lparr>cb_param := snd (snd (snd (cb c h pd_in (cb_param c))))\<rparr>]
              else rdm_cbs s2)"
proof -
  let ?h' = "h\<lparr>dest_uid := src_uid h, src_uid := uid s2,
               response_type := ResponseType rt, message_count := 0, cc := cc h + 1,
               pdl := (if (i = length (rdm_cbs s2) \<and> cc h \<noteq> RDM_CC_DISC_COMMAND) \<or>
                          rt = RDM_RESPONSE_TYPE_NONE \<or> rt = RDM_RESPONSE_TYPE_INVALID
                       then 2 else pdl1)\<rparr>"
  let ?pd' = "if i = length (rdm_cbs s2) \<and> cc h \<noteq> RDM_CC_DISC_COMMAND
              then fst (pd_emplace_word pd1 RDM_NR_UNKNOWN_PID)
              else if rt = RDM_RESPONSE_TYPE_NONE \<or> rt = RDM_RESPONSE_TYPE_INVALID
              then fst (pd_emplace_word pd1 RDM_NR_HARDWARE_FAULT)
              else pd1"
  let ?cbs = "if i < length (rdm_cbs s2)
              then (rdm_cbs s2)[i := c\<lparr>cb_param := snd (snd (snd (cb c h pd_in (cb_param c))))\<rparr>]
              else rdm_cbs s2"
  have "\<exists>s3. rdm_run_handler u s2 h (r_pd e) = (i, rt, pd1, pdl1, s3) \<and> rdm_cbs s3 = ?cbs"
  proof (cases "i < length (rdm_cbs s2)")
    case True
    obtain a b d p' where r: "cb c h pd_in (cb_param c) = (a, b, d, p')"
      by (metis prod_cases4)
    from rdm_run_handler_found [OF i [symmetric] True r [unfolded c pd_in]]
    show ?thesis using True r by (simp add: rt pd1 pdl1 c)
  next
    case False
    from rdm_run_handler_missing [OF i [symmetric] False]
    show ?thesis using False by (simp add: rt pd1 pdl1)
  qed
  then obtain s3 where run: "rdm_run_handler u s2 h (r_pd e) = (i, rt, pd1, pdl1, s3)"
    and cbs: "rdm_cbs s3 = ?cbs"
    by blast
  note d = rdm_dispatch_response [OF run nosup nodisc]
  note r = dmx_receive_drv_dispatch [OF rx]
  have "dmx_receive u tab dmx_num has_packet wait_ticks e =
          (n, fst (snd (dmx_receive_drv u s has_packet wait_ticks e)),
           tab[dmx_num := Some (rdm_dispatch u s2 h e)])"
    by (simp add: dmx_receive_enabled [OF en] r)
  moreover have "rdm_writes (trace (rdm_dispatch u s2 h e)) = rdm_writes (trace s2) @ [(?h', ?pd')]"
    by (rule d(1))
  moreover have "rdm_cbs (rdm_dispatch u s2 h e) = ?cbs"
    using d(2) cbs by simp
  ultimately show ?thesis
    by (intro exI [of _ "fst (snd (dmx_receive_drv u s has_packet wait_ticks e))"]
          exI [of _ "rdm_dispatch u s2 h e"] exI [of _ ?h'] exI [of _ ?pd']) simp
qed

theorem dmx_receive_response_header_witness:
  "\<exists>pkt s' h'.
     dmx_receive example_utils [Some callback_driver] 0 True 10
       (example_receive_env (example_request (uid example_driver) RDM_CC_GET_COMMAND 0x0060)) =
         (26, pkt, [Some s']) \<and>
     rdm_writes (trace s') = [(h', [1, 2, 3])] \<and>
     dest_uid h' = \<lparr>man_id = 0x0011, dev_id = 0x22334455\<rparr> \<and>
     src_uid h' = uid example_driver \<and> cc h' = RDM_CC_GET_COMMAND_RESPONSE \<and>
     response_type h' = ResponseType RDM_RESPONSE_TYPE_ACK \<and> message_count h' = 0 \<and>
     pdl h' = 3 \<and> tn h' = 7 \<and> sub_device h' = 0 \<and> pid h' = 0x0060 \<and>
     rdm_cbs s' = rdm_cbs callback_driver"
proof -
  let ?e = "example_receive_env (example_request (uid example_driver) RDM_CC_GET_COMMAND 0x0060)"
  let ?h = "example_header (uid example_driver) RDM_CC_GET_COMMAND 0x0060"
  let ?c = "\<lparr>cb_desc = \<lparr>desc_pid = 0x0060, pdl_size = 3, data_type = RDM_DS_OTHER 0\<rparr>,
             cb = example_handler, cb_param = [1, 2, 3]\<rparr>"
  have en: "dmx_driver_is_enabled [Some callback_driver] 0"
      "[Some callback_driver] ! 0 = Some callback_driver"
    by (simp_all add: eval_rx_defs)
  have "\<exists>s2. receives_request example_utils callback_driver True 10 ?e 26 ?h = Some s2 \<and>
          trace s2 = [TaskNotifyWait] \<and> rdm_cbs s2 = [?c] \<and>
          uid s2 = uid example_driver"
    by (simp add: eval_rx_defs)
  then obtain s2 where rx: "receives_request example_utils callback_driver True 10 ?e 26 ?h = Some s2"
    and s2: "trace s2 = [TaskNotifyWait]" "rdm_cbs s2 = [?c]" "uid s2 = uid example_driver"
    by blast
  have i: "0 = cb_find (rdm_cbs s2) (pid ?h) 0" and c: "?c = rdm_cbs s2 ! 0"
    by (simp_all add: s2 example_header_def)
  have pd_in: "r_pd ?e = (if pdl ?h > 0 then rdm_read_pd example_utils (data s2) (r_pd ?e)
                          else r_pd ?e)"
    by (simp add: example_header_def)
  have rt: "RDM_RESPONSE_TYPE_ACK =
              (if 0 < length (rdm_cbs s2) then fst (cb ?c ?h (r_pd ?e) (cb_param ?c))
               else RDM_RESPONSE_TYPE_NONE)"
    and pd1: "[1, 2, 3] =
              (if 0 < length (rdm_cbs s2) then fst (snd (cb ?c ?h (r_pd ?e) (cb_param ?c)))
               else r_pd ?e)"
    and pdl1: "3 = (if 0 < length (rdm_cbs s2)
                    then fst (snd (snd (cb ?c ?h (r_pd ?e) (cb_param ?c)))) else 0)"
    by (simp_all add: s2 example_handler_def)
  have nosup: "\<not> (uid_is_broadcast example_utils (dest_uid ?h) \<and>
                 \<not> (cc ?h = RDM_CC_DISC_COMMAND \<and> pid ?h = RDM_PID_DISC_UNIQUE_BRANCH))"
    by (simp add: eval_rx_defs)
  have nodisc: "\<not> (RDM_RESPONSE_TYPE_ACK = RDM_RESPONSE_TYPE_NONE \<and> cc ?h = RDM_CC_DISC_COMMAND)"
    by simp
  have h: "src_uid ?h = \<lparr>man_id = 0x0011, dev_id = 0x22334455\<rparr>"
      "cc ?h + 1 = RDM_CC_GET_COMMAND_RESPONSE" "tn ?h = 7" "sub_device ?h = 0" "pid ?h = 0x0060"
      "rdm_cbs callback_driver = [?c]"
    by (simp_all add: example_header_def const_defs callback_driver_def)
  from dmx_receive_response_header [OF en rx i c pd_in rt pd1 pdl1 nosup nodisc] show ?thesis
    by (simp add: s2 h example_handler_def)
qed

text \<open>
  Claim C4 as stated fails on the message count: with one PID waiting in
  \<^verbatim>\<open>rdm_queue\<close>, the response to a GET request has message count 0, and the queue
  still holds one entry after the call.
\<close>

theorem dmx_receive_message_count_counterexample:
  "rdm_queue_size callback_driver = 1 \<and>
   map (\<lambda>w. message_count (fst w))
     (rdm_writes (trace (the (snd (snd (dmx_receive example_utils [Some callback_driver] 0 True 10
        (example_receive_env (example_request (uid example_driver) RDM_CC_GET_COMMAND 0x0060))))
        ! 0)))) = [0] \<and>
   rdm_queue_size (the (snd (snd (dmx_receive example_utils [Some callback_driver] 0 True 10
        (example_receive_env (example_request (uid example_driver) RDM_CC_GET_COMMAND 0x0060))))
        ! 0)) = 1"
  by (simp add: eval_rx_defs)

text \<open>
  Claim C5 as stated fails for a broadcast that does not target this device.
  \<^verbatim>\<open>dmx_receive\<close> returns before the loop over the callbacks when \<^verbatim>\<open>uid_is_target\<close> is
  false. The SET request below is sent to all devices of manufacturer 1234, a
  broadcast UID; the device, of manufacturer 05E0, has a callback for its PID:
  \<^verbatim>\<open>dmx_receive\<close> returns the packet size and the callback is not applied (its
  parameter is unchanged and no call is recorded after the wait).
\<close>

theorem dmx_receive_broadcast_counterexample:
  "uid_is_broadcast example_utils other_vendor_uid \<and>
   \<not> uid_is_target example_utils (uid store_driver) other_vendor_uid \<and>
   cb_find (rdm_cbs store_driver) 0x0060 0 = 0 \<and>
   fst (dmx_receive example_utils [Some store_driver] 0 True 10
          (example_receive_env (example_request other_vendor_uid RDM_CC_SET_COMMAND 0x0060))) = 26 \<and>
   rdm_cbs (the (snd (snd (dmx_receive example_utils [Some store_driver] 0 True 10
          (example_receive_env (example_request other_vendor_uid RDM_CC_SET_COMMAND 0x0060))))
          ! 0)) = rdm_cbs store_driver \<and>
   trace (the (snd (snd (dmx_receive example_utils [Some store_driver] 0 True 10
          (example_receive_env (example_request other_vendor_uid RDM_CC_SET_COMMAND 0x0060))))
          ! 0)) = [TaskNotifyWait]"
  by (simp add: eval_rx_defs)

text \<open>
  Claim C5, as amended. \<open>s2\<close> is the driver when \<^verbatim>\<open>dmx_receive\<close> has read the header
  \<open>h\<close> of a request. When the destination UID is a broadcast and the request is not a
  DISC_UNIQUE_BRANCH discovery request, \<^verbatim>\<open>dmx_receive\<close> returns the size of the
  received packet, and
  \<^item> if the request targets this device and a callback is registered for the PID, the
    first such callback has been applied to the header, the parameter data of the
    request and its parameter, its parameter is as the callback returned it, and
    nothing else has changed since the header was read: buffer, head, transmit size,
    flags and RTS level are the same, and nothing was handed to \<^verbatim>\<open>rdm_write\<close> or
    \<^verbatim>\<open>dmx_send\<close>;
  \<^item> otherwise (no callback for the PID, or a request that does not target this
    device) nothing has changed since the header was read.
\<close>

theorem dmx_receive_broadcast_suppressed:
  assumes en: "dmx_driver_is_enabled tab dmx_num" "tab ! dmx_num = Some s"
    and rx: "receives_rdm u s has_packet wait_ticks e n h = Some s2"
    and bc: "uid_is_broadcast u (dest_uid h)"
    and nd: "\<not> (cc h = RDM_CC_DISC_COMMAND \<and> pid h = RDM_PID_DISC_UNIQUE_BRANCH)"
    and i: "i = cb_find (rdm_cbs s2) (pid h) 0"
    and c: "c = rdm_cbs s2 ! i"
    and pd_in: "pd_in = (if pdl h > 0 then rdm_read_pd u (data s2) (r_pd e) else r_pd e)"
  shows "\<exists>pkt. dmx_receive u tab dmx_num has_packet wait_ticks e =
           (n, pkt,
            tab[dmx_num := Some
              (if uid_is_target u (uid s2) (dest_uid h) \<and> i < length (rdm_cbs s2)
               then s2\<lparr>rdm_cbs := (rdm_cbs s2)
                          [i := c\<lparr>cb_param := snd (snd (snd (cb c h pd_in (cb_param c))))\<rparr>],
                       trace := trace s2 @ [ResponseHandler i]\<rparr>
               else s2)])"
proof -
  let ?s' = "if uid_is_target u (uid s2) (dest_uid h) \<and> i < length (rdm_cbs s2)
             then s2\<lparr>rdm_cbs := (rdm_cbs s2)
                        [i := c\<lparr>cb_param := snd (snd (snd (cb c h pd_in (cb_param c))))\<rparr>],
                     trace := trace s2 @ [ResponseHandler i]\<rparr>
             else s2"
  note r = dmx_receive_drv_rdm [OF rx]
  have "snd (snd (dmx_receive_drv u s has_packet wait_ticks e)) = ?s'"
  proof (cases "uid_is_target u (uid s2) (dest_uid h)")
    case False
    then show ?thesis by (simp add: r)
  next
    case tgt: True
    show ?thesis
    proof (cases "i < length (rdm_cbs s2)")
      case True
      obtain a b d p' where res: "cb c h pd_in (cb_param c) = (a, b, d, p')"
        by (metis prod_cases4)
      from rdm_run_handler_found [OF i [symmetric] True res [unfolded c pd_in]]
      have "rdm_dispatch u s2 h e =
              s2\<lparr>rdm_cbs := (rdm_cbs s2)[i := (rdm_cbs s2 ! i)\<lparr>cb_param := p'\<rparr>],
                 trace := trace s2 @ [ResponseHandler i]\<rparr>"
        using bc nd by (rule rdm_dispatch_suppressed)
      with tgt True res show ?thesis by (simp add: r c)
    next
      case False
      from rdm_run_handler_missing [OF i [symmetric] False]
      have "rdm_dispatch u s2 h e = s2"
        using bc nd by (rule rdm_dispatch_suppressed)
      with tgt False show ?thesis by (simp add: r)
    qed
  qed
  then have "dmx_receive u tab dmx_num has_packet wait_ticks e =
          (n, fst (snd (dmx_receive_drv u s has_packet wait_ticks e)), tab[dmx_num := Some ?s'])"
    by (simp add: dmx_receive_enabled [OF en] r)
  then show ?thesis by blast
qed

text \<open>
  A SET request for PID 0x0060 sent to all devices: the callback of \<open>store_driver\<close>
  stores the parameter data of the request, and nothing is sent.
\<close>

theorem dmx_receive_broadcast_suppressed_witness:
  "\<exists>pkt s'. dmx_receive example_utils [Some store_driver] 0 True 10
              (example_receive_env (example_request broadcast_uid RDM_CC_SET_COMMAND 0x0060)) =
                (26, pkt, [Some s']) \<and>
            map cb_param (rdm_cbs store_driver) = [[1, 2, 3]] \<and>
            map cb_param (rdm_cbs s') = [[0, 0, 0]] \<and>
            trace s' = [TaskNotifyWait, ResponseHandler 0] \<and>
            data s' = example_request broadcast_uid RDM_CC_SET_COMMAND 0x0060 \<and>
            flags s' = {} \<and> tx_size s' = 513"
proof -
  let ?e = "example_receive_env (example_request broadcast_uid RDM_CC_SET_COMMAND 0x0060)"
  let ?h = "example_header broadcast_uid RDM_CC_SET_COMMAND 0x0060"
  let ?c = "\<lparr>cb_desc = \<lparr>desc_pid = 0x0060, pdl_size = 3, data_type = RDM_DS_OTHER 0\<rparr>,
             cb = store_handler, cb_param = [1, 2, 3]\<rparr>"
  have en: "dmx_driver_is_enabled [Some store_driver] 0"
      "[Some store_driver] ! 0 = Some store_driver"
    by (simp_all add: eval_rx_defs)
  have "\<exists>s2. receives_rdm example_utils store_driver True 10 ?e 26 ?h = Some s2 \<and>
          trace s2 = [TaskNotifyWait] \<and> rdm_cbs s2 = [?c] \<and>
          data s2 = example_request broadcast_uid RDM_CC_SET_COMMAND 0x0060 \<and>
          flags s2 = {} \<and> tx_size s2 = 513 \<and> uid s2 = uid example_driver"
    by (simp add: eval_rx_defs)
  then obtain s2 where rx: "receives_rdm example_utils store_driver True 10 ?e 26 ?h = Some s2"
    and s2: "trace s2 = [TaskNotifyWait]" "rdm_cbs s2 = [?c]"
      "data s2 = example_request broadcast_uid RDM_CC_SET_COMMAND 0x0060"
      "flags s2 = {}" "tx_size s2 = 513" "uid s2 = uid example_driver"
    by blast
  have bc: "uid_is_broadcast example_utils (dest_uid ?h)"
    by (simp add: eval_rx_defs)
  have nd: "\<not> (cc ?h = RDM_CC_DISC_COMMAND \<and> pid ?h = RDM_PID_DISC_UNIQUE_BRANCH)"
    by (simp add: eval_rx_defs)
  have i: "0 = cb_find (rdm_cbs s2) (pid ?h) 0" and c: "?c = rdm_cbs s2 ! 0"
    by (simp_all add: s2 example_header_def)
  have pd_in: "r_pd ?e = (if pdl ?h > 0 then rdm_read_pd example_utils (data s2) (r_pd ?e)
                          else r_pd ?e)"
    by (simp add: example_header_def)
  have tgt: "uid_is_target example_utils (uid s2) (dest_uid ?h)"
    by (simp add: s2 eval_rx_defs)
  have before: "map cb_param (rdm_cbs store_driver) = [[1, 2, 3]]"
    by (simp add: store_driver_def)
  have pd0: "r_pd ?e = replicate 231 0"
    by (simp add: example_receive_env_def)
  from dmx_receive_broadcast_suppressed [OF en rx bc nd i c pd_in] tgt
  obtain pkt where
    "dmx_receive example_utils [Some store_driver] 0 True 10 ?e =
       (26, pkt, [Some (s2\<lparr>rdm_cbs := [?c\<lparr>cb_param := [0, 0, 0]\<rparr>],
                          trace := [TaskNotifyWait, ResponseHandler 0]\<rparr>)])"
    by (auto simp: s2 store_handler_def pd0)
  with before s2 show ?thesis by simp
qed

section \<open>Claim about the reachable states\<close>

text \<open>
  Claim C9. In every table of drivers reachable from a table without drivers by a
  sequence of installs of a port, public operations (parameter registration and
  update, set, enqueue, write, wait, send, receive) and runs of the interrupt
  handlers, every installed driver has \<open>0 \<le> pd_head \<le> pd_size\<close>,
  \<open>num_parameters \<le> RDM_RESPONDER_NUM_PIDS_MAX\<close>, \<open>-1 \<le> head \<le> 513\<close> and
  \<open>1 \<le> tx_size \<le> 513\<close>. \<^verbatim>\<open>dmx_driver_install\<close> is as the spec describes it; the
  interrupt handlers and \<^verbatim>\<open>rdm_write\<close> are assumed to stay inside the buffer. The
  bounds are not kept by leaving calls out: on every such driver
  \<^verbatim>\<open>rdm_pd_add_deterministic\<close> and \<^verbatim>\<open>rdm_pd_add_alias\<close> return without indexing the
  table past its end, and so does \<^verbatim>\<open>rdm_pd_add_new\<close> for a parameter that is not
  ASCII and has no default value, without writing past the slab (when the slab is
  not so large that \<^verbatim>\<open>pd_head + pdl_size\<close> wraps around 32 bits).
\<close>

theorem reachable_bounds:
  assumes "reachable tab" and "dmx_num < DMX_NUM_MAX tab" and "tab ! dmx_num = Some s"
  shows "0 \<le> pd_head s \<and> pd_head s \<le> pd_size s \<and>
         num_parameters s \<le> RDM_RESPONDER_NUM_PIDS_MAX s \<and>
         - 1 \<le> head s \<and> head s \<le> 513 \<and> 1 \<le> tx_size s \<and> tx_size s \<le> 513 \<and>
         (\<exists>r s'. rdm_pd_add_deterministic_drv s d fmt h = Inr (r, s')) \<and>
         (\<exists>p s'. rdm_pd_add_alias_drv s d fmt nv h al off = Inr (p, s')) \<and>
         (data_type d \<noteq> RDM_DS_ASCII \<and> pd_size s + 65535 < 2 ^ 32 \<longrightarrow>
            (\<exists>p s'. rdm_pd_add_new_drv s d fmt nv h None = Inr (p, s')))"
proof -
  from assms(2,3) have "dmx_driver_is_installed tab dmx_num"
    by (simp add: dmx_driver_is_installed_def)
  from tab_inv_nth [OF reachable_tab_inv [OF assms(1)] this] assms(3)
  have inv: "driver_inv s" by simp
  then have "0 \<le> pd_head s \<and> pd_head s \<le> pd_size s \<and>
         num_parameters s \<le> RDM_RESPONDER_NUM_PIDS_MAX s \<and>
         - 1 \<le> head s \<and> head s \<le> 513 \<and> 1 \<le> tx_size s \<and> tx_size s \<le> 513"
    by (simp add: driver_inv_def DMX_MAX_PACKET_SIZE_def)
  moreover from inv have "\<exists>r s'. rdm_pd_add_deterministic_drv s d fmt h = Inr (r, s')"
    by (rule rdm_pd_add_deterministic_drv_total)
  moreover from inv have "\<exists>p s'. rdm_pd_add_alias_drv s d fmt nv h al off = Inr (p, s')"
    by (rule rdm_pd_add_alias_drv_total)
  moreover have "\<exists>p s'. rdm_pd_add_new_drv s d fmt nv h None = Inr (p, s')"
    if "data_type d \<noteq> RDM_DS_ASCII" "pd_size s + 65535 < 2 ^ 32"
    using inv that by (rule rdm_pd_add_new_drv_total)
  ultimately show ?thesis by blast
qed

text \<open>
  A port is installed, a parameter of one byte is registered, a request is written
  to the buffer and sent.
\<close>

theorem reachable_bounds_witness:
  "\<exists>p tab1 tab2 tab3.
     dmx_driver_install new_driver \<and>
     rdm_pd_add_new [Some new_driver] 0 0 (Some (example_description 0x0082)) [] False
       (Some example_handler) None = Inr (p, tab1) \<and>
     dmx_write_offset tab1 0 0 (Some (data request_driver)) 26 = Inr (26, tab2) \<and>
     dmx_send example_utils tab2 0 0 (example_send_env 0) = (26, tab3) \<and>
     reachable tab3 \<and>
     (\<exists>s. tab3 ! 0 = Some s \<and>
          pd_head s \<le> pd_size s \<and> num_parameters s \<le> RDM_RESPONDER_NUM_PIDS_MAX s \<and>
          - 1 \<le> head s \<and> head s \<le> 513 \<and> 1 \<le> tx_size s \<and> tx_size s \<le> 513 \<and>
          pd_head s = 1 \<and> pd_size s = 16 \<and> num_parameters s = 1 \<and> head s = 0 \<and>
          tx_size s = 26 \<and>
          (\<exists>q s'. rdm_pd_add_new_drv s (example_description 0x0083) [] False example_handler
                    None = Inr (q, s')))"
proof -
  have new: "dmx_driver_install new_driver"
    by (simp add: dmx_driver_install_def new_driver_def example_driver_def
          DMX_MAX_PACKET_SIZE_def)
  have "reachable (replicate 1 None)" by (rule reachable.uninstalled)
  then have "reachable ((replicate 1 None)[0 := Some new_driver])"
    by (rule reachable.install)
      (simp_all add: DMX_NUM_MAX_def dmx_driver_is_installed_def new)
  then have r0: "reachable [Some new_driver]" by simp
  have "\<exists>p tab1. rdm_pd_add_new [Some new_driver] 0 0 (Some (example_description 0x0082)) []
          False (Some example_handler) None = Inr (p, tab1) \<and>
          (\<exists>s1. tab1 = [Some s1] \<and> pd_head s1 = 1 \<and> num_parameters s1 = 1 \<and>
                is_enabled s1 \<and> rts s1 = 1 \<and> flags s1 = {} \<and> rdm_type s1 = {} \<and>
                last_slot_ts s1 = 0 \<and> break_len s1 = 176 \<and> data s1 = replicate 513 0 \<and>
                length (pd s1) = 16)"
    by (simp add: rdm_pd_add_new_def rdm_pd_add_new_drv_def new_driver_def example_defs
          pd_find.simps)
  then obtain p tab1 s1 where add:
      "rdm_pd_add_new [Some new_driver] 0 0 (Some (example_description 0x0082)) []
          False (Some example_handler) None = Inr (p, tab1)"
    and tab1: "tab1 = [Some s1]"
    and s1: "pd_head s1 = 1" "num_parameters s1 = 1" "is_enabled s1" "rts s1 = 1" "flags s1 = {}"
      "rdm_type s1 = {}" "last_slot_ts s1 = 0" "break_len s1 = 176" "data s1 = replicate 513 0"
      "length (pd s1) = 16"
    by blast
  from r0 add have r1: "reachable tab1" by (rule reachable.add_new)
  have "\<exists>tab2. dmx_write_offset tab1 0 0 (Some (data request_driver)) 26 = Inr (26, tab2) \<and>
          (\<exists>s2. tab2 = [Some s2] \<and> pd_head s2 = 1 \<and> num_parameters s2 = 1 \<and>
                is_enabled s2 \<and> rts s2 = 0 \<and> flags s2 = {} \<and> rdm_type s2 = {} \<and>
                last_slot_ts s2 = 0 \<and> break_len s2 = 176 \<and> tx_size s2 = 26 \<and>
                data s2 = data request_driver \<and> length (pd s2) = 16)"
    by (simp add: dmx_write_offset_def dmx_write_offset_drv_def size_add_def tab1 s1
          DMX_NUM_MAX_def dmx_driver_is_installed_def DMX_MAX_PACKET_SIZE_def
          memcpy_src_def mem_write_def Let_def request_driver_def example_request_def
          example_uid_bytes_def)
  then obtain tab2 s2 where wr:
      "dmx_write_offset tab1 0 0 (Some (data request_driver)) 26 = Inr (26, tab2)"
    and tab2: "tab2 = [Some s2]"
    and s2: "pd_head s2 = 1" "num_parameters s2 = 1" "is_enabled s2" "rts s2 = 0" "flags s2 = {}"
      "rdm_type s2 = {}" "last_slot_ts s2 = 0" "break_len s2 = 176" "tx_size s2 = 26"
      "data s2 = data request_driver" "length (pd s2) = 16"
    by blast
  from r1 wr have r2: "reachable tab2" by (rule reachable.write_offset)
  have "\<exists>tab3. dmx_send example_utils tab2 0 0 (example_send_env 0) = (26, tab3) \<and>
          (\<exists>s3. tab3 = [Some s3] \<and> pd_head s3 = 1 \<and> num_parameters s3 = 1 \<and> head s3 = 0 \<and>
                tx_size s3 = 26 \<and> pd_size s3 = 16)"
    by (simp add: tab2 s2 eval_defs pd_size_def rdm_type_eq_disc_response rdm_type_eq_request)
  then obtain tab3 s3 where snd:
      "dmx_send example_utils tab2 0 0 (example_send_env 0) = (26, tab3)"
    and tab3: "tab3 = [Some s3]"
    and s3: "pd_head s3 = 1" "num_parameters s3 = 1" "head s3 = 0" "tx_size s3 = 26"
      "pd_size s3 = 16"
    by blast
  have ok: "send_env_ok (example_send_env 0)"
    by (simp add: send_env_ok_def wait_env_ok_def isr_ok_def example_send_env_def
          example_wait_env_def example_tx_done_def DMX_MAX_PACKET_SIZE_def)
  from r2 utils_ok_example ok snd have r3: "reachable tab3" by (rule reachable.send)
  have n: "0 < DMX_NUM_MAX tab3" and at: "tab3 ! 0 = Some s3"
    by (simp_all add: tab3 DMX_NUM_MAX_def)
  have other: "data_type (example_description 0x0083) \<noteq> RDM_DS_ASCII"
      "pd_size s3 + 65535 < 2 ^ 32"
    by (simp_all add: example_description_def s3)
  from reachable_bounds [OF r3 n at, of "example_description 0x0083" "[]" example_handler
         False 0 0] other
  have "pd_head s3 \<le> pd_size s3 \<and> num_parameters s3 \<le> RDM_RESPONDER_NUM_PIDS_MAX s3 \<and>
        - 1 \<le> head s3 \<and> head s3 \<le> 513 \<and> 1 \<le> tx_size s3 \<and> tx_size s3 \<le> 513 \<and>
        (\<exists>q s'. rdm_pd_add_new_drv s3 (example_description 0x0083) [] False example_handler
                  None = Inr (q, s'))"
    by blast
  with s3 at r3 new add wr snd show ?thesis by blast
qed

end
